theory Spec2Isabelle
  imports Complex_Main "HOL-Library.Log_Nat"
begin

section \<open>Host-language values\<close>

text \<open>
  The program is TypeScript. Its strings are modelled as lists of characters (ASCII text:
  a character outside ASCII has no case, is no word character and no white space), an
  array as a list, a \<open>Set\<close> as a set or, where the iteration order is observed, as a list
  without repetitions, and a \<open>Map\<close> as a partial function or, where the iteration order is
  observed, as an association list in insertion order.
\<close>

subsection \<open>Numbers\<close>

text \<open>
  A number of the program is a binary64 floating-point number; it is modelled as the real
  it denotes. An arithmetic operation of the host language returns the binary64 number
  nearest to the exact result, a tie going to the even significand: \<open>round64\<close> of the
  exact result. A decimal literal and \<open>Number\<close> of a decimal string denote \<open>round64\<close>
  of the decimal. Negation, \<open>Math.abs\<close>, \<open>Math.max\<close>, \<open>Math.min\<close> and the
  comparisons are exact. The range of the exponent is not modelled, nor are \<open>NaN\<close>, the
  infinities and the negative zero: sentiment analysis divides by a positive counter only,
  its operands are sums and products of a few constants between \<open>0.32\<close> and \<open>1.3\<close>, and a
  counter is below \<open>2^32\<close>, so no result leaves the normal range.

  Sentiment analysis is modelled with this arithmetic: its thresholds and its rounding to
  three decimals depend on the last bit. In topic extraction the numbers are exact reals.
\<close>

text \<open>\<open>pow2 k\<close> is \<open>2^k\<close> for an integer \<open>k\<close>.\<close>

definition pow2 :: "int \<Rightarrow> real" where
  "pow2 k = (if 0 \<le> k then 2 ^ nat k else 1 / 2 ^ nat (- k))"

text \<open>For \<open>x > 0\<close> the integer \<open>e\<close> with \<open>2^e \<le> x < 2^(e+1)\<close>, from the number of bits of
  the integer part of \<open>x\<close> or of \<open>1 / x\<close>.\<close>

definition exponentOf :: "real \<Rightarrow> int" where
  "exponentOf x = (if 1 \<le> x then bitlen \<lfloor>x\<rfloor> - 1 else - bitlen (\<lceil>1 / x\<rceil> - 1))"

text \<open>The nearest integer, a tie going to the even one.\<close>

definition roundEven :: "real \<Rightarrow> int" where
  "roundEven y =
     (let f = \<lfloor>y\<rfloor>
      in if y - of_int f < 1 / 2 \<or> (y - of_int f = 1 / 2 \<and> even f) then f else f + 1)"

text \<open>The nearest number with a significand of 53 bits.\<close>

definition round64 :: "real \<Rightarrow> real" where
  "round64 x =
     (if x = 0 then 0
      else let e = exponentOf \<bar>x\<bar> - 52 in of_int (roundEven (x / pow2 e)) * pow2 e)"

text \<open>The decimal that \<open>x.toFixed(3)\<close> writes: the nearest multiple of one thousandth of
  the exact value of \<open>x\<close>, a tie going away from zero.\<close>

definition toFixed3 :: "real \<Rightarrow> real" where
  "toFixed3 x =
     (if x < 0 then - (of_int \<lfloor>- x * 1000 + 1 / 2\<rfloor> / 1000)
      else of_int \<lfloor>x * 1000 + 1 / 2\<rfloor> / 1000)"

text \<open>\<open>Number(x.toFixed(3))\<close> in binary64.\<close>

definition numberToFixed3 :: "real \<Rightarrow> real" where
  "numberToFixed3 x = round64 (toFixed3 x)"

subsection \<open>Strings\<close>

definition upperLetters :: string where
  "upperLetters = ''ABCDEFGHIJKLMNOPQRSTUVWXYZ''"

definition lowerLetters :: string where
  "lowerLetters = ''abcdefghijklmnopqrstuvwxyz''"

definition toLowerChar :: "char \<Rightarrow> char" where
  "toLowerChar c = (case map_of (zip upperLetters lowerLetters) c of Some l \<Rightarrow> l | None \<Rightarrow> c)"

definition toLowerCase :: "string \<Rightarrow> string" where
  "toLowerCase s = map toLowerChar s"

text \<open>\<open>v || dflt\<close> on the result of \<open>Map.get\<close>: the default replaces both a missing
  entry and a zero.\<close>

definition orElse :: "real option \<Rightarrow> real \<Rightarrow> real" where
  "orElse v dflt = (case v of None \<Rightarrow> dflt | Some x \<Rightarrow> if x = 0 then dflt else x)"

section \<open>SentimentDictionary\<close>

definition positiveWordsList :: "string list" where
  "positiveWordsList =
    [''happy'', ''joy'', ''excited'', ''amazing'', ''awesome'', ''fantastic'', ''wonderful'',
     ''great'', ''excellent'', ''perfect'', ''brilliant'', ''outstanding'', ''superb'',
     ''delighted'', ''thrilled'', ''elated'', ''cheerful'', ''optimistic'', ''confident'',
     ''proud'', ''satisfied'', ''grateful'', ''blessed'', ''lucky'', ''fortunate'', ''success'',
     ''achieve'', ''accomplished'', ''complete'', ''finished'', ''done'', ''won'', ''victory'',
     ''triumph'', ''breakthrough'', ''progress'', ''improvement'', ''advance'', ''growth'',
     ''development'', ''innovation'', ''creative'', ''productive'', ''love'', ''friend'',
     ''family'', ''support'', ''help'', ''team'', ''together'', ''connected'', ''close'',
     ''bond'', ''trust'', ''respect'', ''appreciation'', ''kindness'', ''generous'', ''caring'',
     ''compassionate'', ''understanding'', ''opportunity'', ''promotion'', ''raise'', ''bonus'',
     ''recognition'', ''praise'', ''compliment'', ''recommendation'', ''approval'',
     ''acceptance'', ''hired'', ''qualified'', ''skilled'', ''expert'', ''professional'',
     ''capable'', ''healthy'', ''energetic'', ''strong'', ''fit'', ''well'', ''better'',
     ''recovered'', ''refreshed'', ''relaxed'', ''calm'', ''peaceful'', ''centered'',
     ''balanced'', ''good'', ''nice'', ''fine'', ''okay'', ''alright'', ''pleasant'', ''smooth'',
     ''easy'', ''simple'', ''clear'', ''bright'', ''beautiful'', ''lovely'', ''pretty'',
     ''cool'', ''interesting'', ''fun'', ''enjoyable'', ''entertaining'', ''engaging'']"

definition negativeWordsList :: "string list" where
  "negativeWordsList =
    [''sad'', ''angry'', ''frustrated'', ''annoyed'', ''upset'', ''disappointed'', ''depressed'',
     ''anxious'', ''worried'', ''stressed'', ''overwhelmed'', ''exhausted'', ''tired'',
     ''bored'', ''lonely'', ''isolated'', ''rejected'', ''hurt'', ''pain'', ''suffering'',
     ''miserable'', ''terrible'', ''awful'', ''horrible'', ''disgusting'', ''problem'',
     ''issue'', ''trouble'', ''difficulty'', ''struggle'', ''challenge'', ''obstacle'',
     ''barrier'', ''setback'', ''failure'', ''mistake'', ''error'', ''wrong'', ''bad'',
     ''worse'', ''worst'', ''failed'', ''broken'', ''damaged'', ''fired'', ''laid off'',
     ''rejected'', ''denied'', ''refused'', ''criticized'', ''complained'', ''blamed'',
     ''accused'', ''punished'', ''penalized'', ''demoted'', ''overworked'', ''underpaid'',
     ''unfair'', ''biased'', ''discrimination'', ''sick'', ''ill'', ''disease'', ''injury'',
     ''hurt'', ''ache'', ''sore'', ''weak'', ''fatigue'', ''nausea'', ''fever'', ''infection'',
     ''allergic'', ''chronic'', ''argument'', ''fight'', ''conflict'', ''disagreement'',
     ''breakup'', ''divorce'', ''betrayed'', ''cheated'', ''lied'', ''deceived'', ''abandoned'',
     ''ignored'', ''excluded'', ''bullied'', ''harassed'', ''abused'', ''threatened'', ''hate'',
     ''dislike'', ''avoid'', ''prevent'', ''stop'', ''quit'', ''give up'', ''impossible'',
     ''hopeless'', ''useless'', ''worthless'', ''meaningless'', ''waste'', ''loss'', ''lose'',
     ''lost'', ''missing'', ''gone'', ''empty'', ''nothing'']"

definition intensifiersList :: "string list" where
  "intensifiersList =
    [''very'', ''extremely'', ''incredibly'', ''amazingly'', ''absolutely'', ''completely'',
     ''totally'', ''entirely'', ''perfectly'', ''fully'', ''really'', ''truly'', ''genuinely'',
     ''seriously'', ''definitely'', ''certainly'', ''surely'', ''quite'', ''rather'', ''pretty'',
     ''fairly'', ''somewhat'', ''kind of'', ''super'', ''mega'', ''ultra'', ''highly'',
     ''deeply'', ''strongly'', ''tremendously'', ''enormously'', ''immensely'', ''exceptionally'']"

definition negatorsList :: "string list" where
  "negatorsList =
    [''not'', ''no'', ''never'', ''nothing'', ''nobody'', ''none'', ''neither'', ''without'',
     ''lack'', ''lacking'', ''missing'', ''absent'', ''void'', ''don't'', ''won't'', ''can't'',
     ''shouldn't'', ''wouldn't'', ''couldn't'', ''isn't'', ''aren't'', ''wasn't'', ''weren't'',
     ''hasn't'', ''haven't'', ''hadn't'', ''doesn't'', ''didn't'', ''barely'', ''hardly'',
     ''scarcely'', ''refuse'', ''deny'', ''reject'', ''avoid'', ''prevent'', ''stop'']"

text \<open>The private fields of the class. The four sets carry the suffix \<open>Set\<close> because the
  breakdown of a result has fields of the same names.\<close>

record SentimentDictionary =
  positiveWordSet :: "string set"
  negativeWordSet :: "string set"
  intensifierSet :: "string set"
  negatorSet :: "string set"
  positiveScores :: "string \<rightharpoonup> real"
  negativeScores :: "string \<rightharpoonup> real"

definition positiveTier :: "string \<Rightarrow> real" where
  "positiveTier word =
     (if word \<in> set [''amazing'', ''awesome'', ''fantastic'', ''excellent'', ''perfect'', ''brilliant'']
      then round64 0.8
      else if word \<in> set [''great'', ''good'', ''nice'', ''happy'', ''wonderful'']
      then round64 0.6
      else round64 0.4)"

definition negativeTier :: "string \<Rightarrow> real" where
  "negativeTier word =
     (if word \<in> set [''terrible'', ''awful'', ''horrible'', ''hate'', ''disgusting''] then - round64 0.8
      else if word \<in> set [''bad'', ''sad'', ''angry'', ''problem'', ''wrong'']
      then - round64 0.6
      else - round64 0.4)"

definition initializeDictionaries :: SentimentDictionary where
  "initializeDictionaries =
     \<lparr>positiveWordSet = set positiveWordsList,
      negativeWordSet = set negativeWordsList,
      intensifierSet = set intensifiersList,
      negatorSet = set negatorsList,
      positiveScores = fold (\<lambda>word m. m(word \<mapsto> positiveTier word)) positiveWordsList Map.empty,
      negativeScores = fold (\<lambda>word m. m(word \<mapsto> negativeTier word)) negativeWordsList Map.empty\<rparr>"

datatype Label = Positive | Negative | Neutral

record Breakdown =
  positiveWords :: "string list"
  negativeWords :: "string list"
  intensifiers :: "string list"
  negators :: "string list"

record SentimentAnalysis =
  score :: real
  confidence :: real
  label :: Label
  breakdown :: Breakdown

text \<open>The variables the loop of \<open>analyze\<close> updates.\<close>

record LoopState =
  breakdownAcc :: Breakdown
  totalScore :: real
  sentimentWords :: nat

definition emptyBreakdown :: Breakdown where
  "emptyBreakdown = \<lparr>positiveWords = [], negativeWords = [], intensifiers = [], negators = []\<rparr>"

definition initialLoopState :: LoopState where
  "initialLoopState = \<lparr>breakdownAcc = emptyBreakdown, totalScore = 0, sentimentWords = 0\<rparr>"

definition prevWordAt :: "string list \<Rightarrow> nat \<Rightarrow> string" where
  "prevWordAt lowerWords i = (if i > 0 then lowerWords ! (i - 1) else [])"

definition nextWordAt :: "string list \<Rightarrow> nat \<Rightarrow> string" where
  "nextWordAt lowerWords i = (if Suc i < length lowerWords then lowerWords ! (i + 1) else [])"

text \<open>The inner loop \<open>for (j = Math.max(0, i - 2); j < i; j++)\<close>; on naturals \<open>i - 2\<close>
  is already cut off at zero.\<close>

definition isNegatedAt :: "SentimentDictionary \<Rightarrow> string list \<Rightarrow> nat \<Rightarrow> bool" where
  "isNegatedAt d lowerWords i = list_ex (\<lambda>j. lowerWords ! j \<in> negatorSet d) [i - 2..<i]"

definition intensityMultiplier :: "SentimentDictionary \<Rightarrow> string \<Rightarrow> string \<Rightarrow> real" where
  "intensityMultiplier d prevWord nextWord =
     (let m = (if prevWord \<in> intensifierSet d then round64 1.3 else 1)
      in if nextWord \<in> intensifierSet d then max m (round64 1.2) else m)"

text \<open>One pass of the loop body of \<open>analyze\<close>, at index \<open>i\<close>. The statements
  \<open>wordScore = -wordScore * 0.8\<close>, \<open>wordScore *= intensityMultiplier\<close> and
  \<open>totalScore += wordScore\<close> round one after the other.\<close>

definition analyzeWord :: "SentimentDictionary \<Rightarrow> string list \<Rightarrow> nat \<Rightarrow> LoopState \<Rightarrow> LoopState" where
  "analyzeWord d lowerWords i st =
     (let word = lowerWords ! i;
          prevWord = prevWordAt lowerWords i;
          nextWord = nextWordAt lowerWords i;
          b = breakdownAcc st
      in if word \<in> intensifierSet d then
           st\<lparr>breakdownAcc := b\<lparr>intensifiers := intensifiers b @ [word]\<rparr>\<rparr>
         else if word \<in> negatorSet d then
           st\<lparr>breakdownAcc := b\<lparr>negators := negators b @ [word]\<rparr>\<rparr>
         else
           let (wordScore, b') =
                 (if word \<in> positiveWordSet d then
                    (orElse (positiveScores d word) (round64 0.4), b\<lparr>positiveWords := positiveWords b @ [word]\<rparr>)
                  else if word \<in> negativeWordSet d then
                    (orElse (negativeScores d word) (- round64 0.4), b\<lparr>negativeWords := negativeWords b @ [word]\<rparr>)
                  else (0, b))
           in if wordScore \<noteq> 0 then
                let negated =
                      (if isNegatedAt d lowerWords i then round64 (- wordScore * round64 0.8)
                       else wordScore)
                in \<lparr>breakdownAcc = b',
                    totalScore =
                      round64 (totalScore st +
                        round64 (negated * intensityMultiplier d prevWord nextWord)),
                    sentimentWords = sentimentWords st + 1\<rparr>
              else st\<lparr>breakdownAcc := b'\<rparr>)"

definition sentimentLoop :: "SentimentDictionary \<Rightarrow> string list \<Rightarrow> LoopState" where
  "sentimentLoop d lowerWords =
     fold (analyzeWord d lowerWords) [0..<length lowerWords] initialLoopState"

text \<open>The clamped average, before it is rounded to three decimals for the result. The
  counter and the length of the array are integers below \<open>2^32\<close>, which binary64 holds
  exactly.\<close>

definition normalizedScore :: "LoopState \<Rightarrow> real" where
  "normalizedScore st =
     (let averageScore =
            (if sentimentWords st > 0 then round64 (totalScore st / real (sentimentWords st))
             else 0)
      in max (- 1) (min 1 averageScore))"

definition labelOf :: "real \<Rightarrow> Label" where
  "labelOf s =
     (if s > round64 0.1 then Positive else if s < - round64 0.1 then Negative else Neutral)"

definition confidenceOf :: "LoopState \<Rightarrow> nat \<Rightarrow> real" where
  "confidenceOf st wordsLength =
     (let wordDensity = round64 (real (sentimentWords st) / real (max 1 wordsLength));
          consistencyFactor =
            (if sentimentWords st > 0
             then round64 (\<bar>totalScore st\<bar> / real (sentimentWords st)) else 0)
      in min (round64 0.95)
           (round64 (round64 (wordDensity * 2) + round64 (consistencyFactor * round64 0.5))))"

text \<open>\<open>analyze(text, words)\<close>; the text is a parameter the body never reads.\<close>

definition analyze :: "SentimentDictionary \<Rightarrow> string \<Rightarrow> string list \<Rightarrow> SentimentAnalysis" where
  "analyze d text words =
     (let st = sentimentLoop d (map toLowerCase words)
      in \<lparr>score = numberToFixed3 (normalizedScore st),
          confidence = numberToFixed3 (confidenceOf st (length words)),
          label = labelOf (normalizedScore st),
          breakdown = breakdownAcc st\<rparr>)"

text \<open>The score a word starts from: its entry in the score map of the vocabulary that
  holds it. \<open>scoredWord\<close> says that the loop reaches the scoring of the word.\<close>

definition baseScore :: "SentimentDictionary \<Rightarrow> string \<Rightarrow> real" where
  "baseScore d word =
     (if word \<in> positiveWordSet d then orElse (positiveScores d word) (round64 0.4)
      else if word \<in> negativeWordSet d then orElse (negativeScores d word) (- round64 0.4)
      else 0)"

definition scoredWord :: "SentimentDictionary \<Rightarrow> string \<Rightarrow> bool" where
  "scoredWord d word =
     (word \<notin> intensifierSet d \<and> word \<notin> negatorSet d \<and>
      (word \<in> positiveWordSet d \<or> word \<in> negativeWordSet d))"

section \<open>TopicExtractor\<close>

subsection \<open>Strings, ordered maps, ordered sets and sorting\<close>

definition wordChars :: string where
  "wordChars = ''abcdefghijklmnopqrstuvwxyzABCDEFGHIJKLMNOPQRSTUVWXYZ0123456789_''"

text \<open>The character class \<open>\w\<close>.\<close>

definition isWordChar :: "char \<Rightarrow> bool" where
  "isWordChar c = (c \<in> set wordChars)"

text \<open>The character class \<open>\d\<close>.\<close>

definition isDigit :: "char \<Rightarrow> bool" where
  "isDigit c = (c \<in> set ''0123456789'')"

text \<open>The character class \<open>\s\<close> on ASCII: tab, line feed, vertical tab, form feed,
  carriage return and space.\<close>

definition isSpace :: "char \<Rightarrow> bool" where
  "isSpace c = (c \<in> set [CHR 0x09, CHR 0x0A, CHR 0x0B, CHR 0x0C, CHR 0x0D, CHR '' ''])"

fun startsWith :: "string \<Rightarrow> string \<Rightarrow> bool" where
  "startsWith s [] = True"
| "startsWith [] (p # ps) = False"
| "startsWith (c # cs) (p # ps) = (if c = p then startsWith cs ps else False)"

text \<open>\<open>s.indexOf(sub)\<close>, searched from position \<open>i\<close> of the original string on: the
  first position where \<open>sub\<close> starts, or \<open>-1\<close>.\<close>

fun indexFrom :: "string \<Rightarrow> string \<Rightarrow> nat \<Rightarrow> int" where
  "indexFrom [] sub i = (if sub = [] then int i else - 1)"
| "indexFrom (c # cs) sub i =
     (if startsWith (c # cs) sub then int i else indexFrom cs sub (Suc i))"

definition indexOf :: "string \<Rightarrow> string \<Rightarrow> int" where
  "indexOf s sub = indexFrom s sub 0"

text \<open>\<open>s.lastIndexOf(sub)\<close>: the last position where \<open>sub\<close> starts, or \<open>-1\<close>; \<open>found\<close>
  is the last position seen so far.\<close>

fun lastIndexFrom :: "string \<Rightarrow> string \<Rightarrow> nat \<Rightarrow> int \<Rightarrow> int" where
  "lastIndexFrom [] sub i found = (if sub = [] then int i else found)"
| "lastIndexFrom (c # cs) sub i found =
     lastIndexFrom cs sub (Suc i) (if startsWith (c # cs) sub then int i else found)"

definition lastIndexOf :: "string \<Rightarrow> string \<Rightarrow> int" where
  "lastIndexOf s sub = lastIndexFrom s sub 0 (- 1)"

text \<open>\<open>s.includes(sub)\<close>.\<close>

definition includesStr :: "string \<Rightarrow> string \<Rightarrow> bool" where
  "includesStr s sub = (indexOf s sub \<ge> 0)"

text \<open>\<open>m.set(k, v)\<close> on a \<open>Map\<close> kept as an association list in insertion order: an
  existing key keeps its place, a new key goes to the end.\<close>

fun mapSet :: "('k \<times> 'v) list \<Rightarrow> 'k \<Rightarrow> 'v \<Rightarrow> ('k \<times> 'v) list" where
  "mapSet [] k v = [(k, v)]"
| "mapSet ((k', v') # m) k v = (if k' = k then (k, v) # m else (k', v') # mapSet m k v)"

text \<open>\<open>Array.from(new Set(xs))\<close>: the elements of \<open>xs\<close> in the order of their first
  occurrence.\<close>

fun uniqueInOrder :: "'a list \<Rightarrow> 'a list" where
  "uniqueInOrder [] = []"
| "uniqueInOrder (x # xs) = x # uniqueInOrder (filter (\<lambda>y. y \<noteq> x) xs)"

text \<open>\<open>xs.sort(cmp)\<close>: a stable sort, here by insertion; \<open>cmp a b \<le> 0\<close> keeps \<open>a\<close>
  before \<open>b\<close>.\<close>

fun insertSorted :: "('a \<Rightarrow> 'a \<Rightarrow> 'b::linordered_idom) \<Rightarrow> 'a \<Rightarrow> 'a list \<Rightarrow> 'a list" where
  "insertSorted cmp x [] = [x]"
| "insertSorted cmp x (y # ys) =
     (if cmp x y \<le> 0 then x # y # ys else y # insertSorted cmp x ys)"

definition jsSort :: "('a \<Rightarrow> 'a \<Rightarrow> 'b::linordered_idom) \<Rightarrow> 'a list \<Rightarrow> 'a list" where
  "jsSort cmp xs = foldr (insertSorted cmp) xs []"

subsection \<open>The dictionaries of the extractor\<close>


definition stopWordsList :: "string list" where
  "stopWordsList =
    [''a'', ''an'', ''the'', ''this'', ''that'', ''these'', ''those'', ''my'', ''your'', ''his'',
     ''her'', ''its'', ''our'', ''their'', ''i'', ''me'', ''you'', ''he'', ''him'', ''she'',
     ''her'', ''it'', ''we'', ''us'', ''they'', ''them'', ''myself'', ''yourself'', ''in'',
     ''on'', ''at'', ''by'', ''for'', ''with'', ''about'', ''against'', ''between'', ''into'',
     ''through'', ''during'', ''before'', ''after'', ''above'', ''below'', ''up'', ''down'',
     ''out'', ''off'', ''over'', ''under'', ''again'', ''further'', ''and'', ''or'', ''but'',
     ''if'', ''then'', ''because'', ''as'', ''until'', ''while'', ''of'', ''to'', ''from'',
     ''since'', ''is'', ''am'', ''are'', ''was'', ''were'', ''be'', ''been'', ''being'',
     ''have'', ''has'', ''had'', ''having'', ''do'', ''does'', ''did'', ''doing'', ''will'',
     ''would'', ''could'', ''should'', ''may'', ''might'', ''must'', ''can'', ''shall'',
     ''very'', ''really'', ''quite'', ''rather'', ''just'', ''only'', ''also'', ''too'', ''so'',
     ''now'', ''then'', ''here'', ''there'', ''when'', ''where'', ''why'', ''how'', ''all'',
     ''any'', ''both'', ''each'', ''few'', ''more'', ''most'', ''other'', ''some'', ''such'',
     ''no'', ''nor'', ''not'', ''only'', ''own'', ''same'', ''than'', ''too'', ''well'',
     ''today'', ''tomorrow'', ''yesterday'', ''always'', ''never'', ''sometimes'', ''often'',
     ''usually'', ''maybe'', ''perhaps'', ''probably'', ''definitely'', ''certainly'', ''surely'']"

definition workWords :: "string list" where
  "workWords =
    [''work'', ''job'', ''career'', ''office'', ''meeting'', ''project'', ''task'', ''deadline'',
     ''team'', ''manager'', ''boss'', ''colleague'', ''client'', ''customer'', ''presentation'',
     ''report'', ''proposal'', ''budget'', ''strategy'', ''planning'', ''development'',
     ''business'', ''company'', ''organization'', ''department'', ''position'', ''role'',
     ''responsibility'', ''skill'', ''experience'', ''training'', ''conference'', ''interview'',
     ''promotion'', ''raise'', ''bonus'', ''performance'', ''review'', ''feedback'', ''goal'',
     ''objective'', ''target'', ''achievement'', ''success'', ''failure'', ''challenge'',
     ''opportunity'', ''email'', ''phone'', ''call'', ''communication'', ''collaboration'',
     ''teamwork'', ''leadership'', ''management'', ''administration'', ''coordination'',
     ''supervision'', ''delegation'', ''execution'']"

definition healthWords :: "string list" where
  "healthWords =
    [''health'', ''wellness'', ''fitness'', ''exercise'', ''workout'', ''gym'', ''running'',
     ''walking'', ''sport'', ''yoga'', ''meditation'', ''diet'', ''nutrition'', ''food'',
     ''eating'', ''meal'', ''cooking'', ''recipe'', ''doctor'', ''medical'', ''appointment'',
     ''checkup'', ''treatment'', ''medicine'', ''medication'', ''hospital'', ''clinic'',
     ''therapy'', ''counseling'', ''mental'', ''emotional'', ''stress'', ''anxiety'',
     ''depression'', ''mood'', ''feeling'', ''energy'', ''sleep'', ''rest'', ''relaxation'',
     ''recovery'', ''injury'', ''pain'', ''ache'', ''sick'', ''illness'', ''disease'',
     ''condition'', ''symptom'', ''weight'', ''muscle'', ''strength'', ''cardio'',
     ''flexibility'', ''balance'', ''coordination'', ''breathing'', ''heart'', ''blood'',
     ''pressure'', ''cholesterol'', ''diabetes'', ''allergy'']"

definition relationshipsWords :: "string list" where
  "relationshipsWords =
    [''family'', ''friend'', ''relationship'', ''partner'', ''spouse'', ''marriage'', ''dating'',
     ''love'', ''romance'', ''friendship'', ''social'', ''party'', ''gathering'', ''event'',
     ''celebration'', ''communication'', ''conversation'', ''discussion'', ''argument'',
     ''conflict'', ''agreement'', ''support'', ''help'', ''advice'', ''guidance'',
     ''understanding'', ''empathy'', ''compassion'', ''trust'', ''respect'', ''loyalty'',
     ''commitment'', ''bond'', ''connection'', ''intimacy'', ''parent'', ''child'', ''son'',
     ''daughter'', ''mother'', ''father'', ''brother'', ''sister'', ''grandparent'', ''uncle'',
     ''aunt'', ''cousin'', ''neighbor'', ''community'', ''group'', ''club'', ''organization'',
     ''network'', ''contact'', ''acquaintance'', ''colleague'']"

definition personal_developmentWords :: "string list" where
  "personal_developmentWords =
    [''learning'', ''education'', ''study'', ''course'', ''class'', ''training'', ''skill'',
     ''knowledge'', ''growth'', ''development'', ''improvement'', ''progress'', ''achievement'',
     ''goal'', ''objective'', ''plan'', ''strategy'', ''vision'', ''dream'', ''aspiration'',
     ''ambition'', ''motivation'', ''inspiration'', ''creativity'', ''innovation'', ''thinking'',
     ''reflection'', ''contemplation'', ''mindfulness'', ''awareness'', ''consciousness'',
     ''spirituality'', ''philosophy'', ''wisdom'', ''book'', ''reading'', ''writing'',
     ''journal'', ''diary'', ''note'', ''idea'', ''thought'', ''concept'', ''theory'',
     ''practice'', ''habit'', ''routine'', ''discipline'', ''consistency'', ''challenge'',
     ''opportunity'', ''experience'', ''adventure'', ''exploration'', ''discovery'']"

definition financeWords :: "string list" where
  "financeWords =
    [''money'', ''finance'', ''financial'', ''budget'', ''expense'', ''cost'', ''price'',
     ''payment'', ''salary'', ''income'', ''earning'', ''profit'', ''loss'', ''saving'',
     ''spending'', ''investment'', ''stock'', ''bond'', ''portfolio'', ''retirement'',
     ''pension'', ''insurance'', ''tax'', ''debt'', ''loan'', ''mortgage'', ''credit'',
     ''banking'', ''account'', ''transaction'', ''purchase'', ''buy'', ''sell'', ''trade'',
     ''market'', ''economy'', ''inflation'', ''recession'', ''growth'', ''wealth'', ''rich'',
     ''poor'', ''expensive'', ''cheap'', ''affordable'', ''valuable'', ''worth'']"

definition technologyWords :: "string list" where
  "technologyWords =
    [''technology'', ''computer'', ''laptop'', ''desktop'', ''phone'', ''mobile'',
     ''smartphone'', ''tablet'', ''software'', ''application'', ''app'', ''program'', ''system'',
     ''platform'', ''website'', ''internet'', ''online'', ''digital'', ''electronic'',
     ''device'', ''gadget'', ''tool'', ''equipment'', ''hardware'', ''network'', ''connection'',
     ''wireless'', ''bluetooth'', ''wifi'', ''data'', ''information'', ''database'', ''server'',
     ''cloud'', ''storage'', ''backup'', ''security'', ''privacy'', ''encryption'', ''coding'',
     ''programming'', ''development'', ''design'', ''interface'', ''user'', ''experience'',
     ''artificial'', ''intelligence'', ''machine'', ''learning'', ''automation'', ''robot'',
     ''smart'']"

definition homeWords :: "string list" where
  "homeWords =
    [''home'', ''house'', ''apartment'', ''room'', ''bedroom'', ''kitchen'', ''bathroom'',
     ''living'', ''dining'', ''office'', ''garage'', ''garden'', ''yard'', ''furniture'',
     ''decoration'', ''design'', ''renovation'', ''repair'', ''maintenance'', ''cleaning'',
     ''organization'', ''storage'', ''appliance'', ''electric'', ''plumbing'', ''heating'',
     ''cooling'', ''lighting'', ''security'', ''neighborhood'', ''location'', ''address'',
     ''rent'', ''mortgage'', ''property'', ''real estate'', ''moving'', ''packing'',
     ''unpacking'', ''settling'', ''comfort'', ''cozy'', ''spacious'', ''modern'']"

definition travelWords :: "string list" where
  "travelWords =
    [''travel'', ''trip'', ''vacation'', ''holiday'', ''journey'', ''adventure'',
     ''exploration'', ''tour'', ''destination'', ''location'', ''place'', ''city'', ''country'',
     ''continent'', ''culture'', ''local'', ''flight'', ''plane'', ''airport'', ''hotel'',
     ''accommodation'', ''booking'', ''reservation'', ''restaurant'', ''food'', ''cuisine'',
     ''sightseeing'', ''attraction'', ''museum'', ''park'', ''beach'', ''mountain'', ''nature'',
     ''landscape'', ''scenery'', ''photo'', ''memory'', ''experience'', ''recreation'',
     ''entertainment'', ''fun'', ''hobby'', ''interest'', ''passion'', ''activity'', ''sport'',
     ''game'', ''music'', ''movie'', ''book'', ''art'', ''creativity'', ''relaxation'']"

text \<open>The groups of \<open>initializeDomainKeywords\<close>, each with its base relevance.\<close>

definition domainWords :: "(string list \<times> real) list" where
  "domainWords =
    [([''feel'', ''feeling'', ''emotion'', ''mood'', ''think'', ''thought'', ''mind'', ''mental''],
      0.8),
     ([''plan'', ''goal'', ''objective'', ''task'', ''project'', ''work'', ''complete'', ''finish''],
      0.7),
     ([''time'', ''schedule'', ''calendar'', ''deadline'', ''urgent'', ''priority'', ''important''],
      0.6),
     ([''learn'', ''study'', ''practice'', ''skill'', ''knowledge'', ''improve'', ''develop'',
       ''grow''],
      0.7),
     ([''problem'', ''issue'', ''challenge'', ''solution'', ''fix'', ''solve'', ''resolve'',
       ''handle''],
      0.8),
     ([''family'', ''friend'', ''colleague'', ''team'', ''partner'', ''relationship'',
       ''communication''],
      0.6)]"

text \<open>The private fields of the class: a set, a \<open>Map\<close> whose iteration order
  \<open>categorizeTopics\<close> observes, and a \<open>Map\<close> that is only looked up.\<close>

record TopicExtractor =
  stopWords :: "string set"
  topicCategories :: "(string \<times> string list) list"
  domainKeywords :: "string \<rightharpoonup> real"

definition initializeTopicCategories :: "(string \<times> string list) list" where
  "initializeTopicCategories =
     fold (\<lambda>(name, ws) m. mapSet m name ws)
       [(''work'', workWords), (''health'', healthWords),
        (''relationships'', relationshipsWords),
        (''personal_development'', personal_developmentWords),
        (''finance'', financeWords), (''technology'', technologyWords),
        (''home'', homeWords), (''travel'', travelWords)] []"

definition initializeDomainKeywords :: "string \<rightharpoonup> real" where
  "initializeDomainKeywords =
     fold (\<lambda>(ws, s) m. fold (\<lambda>word m'. m'(word \<mapsto> s)) ws m) domainWords Map.empty"

definition newTopicExtractor :: TopicExtractor where
  "newTopicExtractor =
     \<lparr>stopWords = set stopWordsList,
      topicCategories = initializeTopicCategories,
      domainKeywords = initializeDomainKeywords\<rparr>"

subsection \<open>Extraction\<close>

record TopicKeyword =
  word :: string
  frequency :: nat
  relevance :: real

text \<open>The field \<open>keywords\<close> of the result is named \<open>topKeywords\<close> here.\<close>

record TopicResult =
  primary :: "string list"
  secondary :: "string list"
  topKeywords :: "TopicKeyword list"
  categories :: "string list"

text \<open>\<open>/^\d+$/.test(word)\<close>.\<close>

definition isDigitString :: "string \<Rightarrow> bool" where
  "isDigitString w = (w \<noteq> [] \<and> list_all isDigit w)"

text \<open>The callback of \<open>words.map\<close>: \<open>word.toLowerCase().replace(/[^\w]/g, '')\<close>.\<close>

definition normalizeWord :: "string \<Rightarrow> string" where
  "normalizeWord w = filter isWordChar (toLowerCase w)"

text \<open>The callback of \<open>filter\<close>.\<close>

definition keepWord :: "TopicExtractor \<Rightarrow> string \<Rightarrow> bool" where
  "keepWord e w = (length w > 2 \<and> length w < 20 \<and> w \<notin> stopWords e \<and> \<not> isDigitString w)"

definition cleanWords :: "TopicExtractor \<Rightarrow> string list \<Rightarrow> string list" where
  "cleanWords e words = filter (keepWord e) (map normalizeWord words)"

text \<open>The callback of \<open>cleanWords.forEach\<close>: \<open>freq.set(word, (freq.get(word) || 0) + 1)\<close>.\<close>

definition countWord :: "string \<Rightarrow> (string \<times> nat) list \<Rightarrow> (string \<times> nat) list" where
  "countWord w freq = mapSet freq w ((case map_of freq w of None \<Rightarrow> 0 | Some n \<Rightarrow> n) + 1)"

definition calculateWordFrequencies :: "TopicExtractor \<Rightarrow> string list \<Rightarrow> (string \<times> nat) list" where
  "calculateWordFrequencies e words = fold countWord (cleanWords e words) []"

text \<open>\<open>Math.max(...values)\<close>: \<open>None\<close> stands for the \<open>-Infinity\<close> that the call returns on
  no arguments. A frequency divided by \<open>-Infinity\<close> is (negative) zero.\<close>

definition mathMax :: "nat list \<Rightarrow> nat option" where
  "mathMax vs = (if vs = [] then None else Some (fold max vs 0))"

definition divideByMax :: "nat \<Rightarrow> nat option \<Rightarrow> real" where
  "divideByMax f m = (case m of None \<Rightarrow> 0 | Some n \<Rightarrow> real f / real n)"

definition positionBonus :: "string \<Rightarrow> string \<Rightarrow> real" where
  "positionBonus text w =
     (let firstIndex = indexOf (toLowerCase text) w;
          lastIndex = lastIndexOf (toLowerCase text) w;
          textLength = real (length text)
      in if real_of_int firstIndex < textLength * 0.2 \<or> real_of_int lastIndex > textLength * 0.8
         then 0.1 else 0)"

definition scoreWord :: "TopicExtractor \<Rightarrow> string \<Rightarrow> nat option \<Rightarrow> string \<times> nat \<Rightarrow> TopicKeyword" where
  "scoreWord e text maxFreq entry =
     (let w = fst entry;
          f = snd entry;
          normalizedFreq = divideByMax f maxFreq;
          domainScore = orElse (domainKeywords e w) 0.3;
          lengthBonus = min 0.3 ((real (length w) - 3) * 0.05);
          rel = normalizedFreq * 0.4 + domainScore * 0.4 + lengthBonus + positionBonus text w
      in \<lparr>word = w, frequency = f, relevance = toFixed3 rel\<rparr>)"

text \<open>The comparator \<open>(a, b) => b.relevance - a.relevance\<close>.\<close>

definition byRelevance :: "TopicKeyword \<Rightarrow> TopicKeyword \<Rightarrow> real" where
  "byRelevance a b = relevance b - relevance a"

text \<open>The sum \<open>totalWords\<close> that the source computes first is never read and is left
  out.\<close>

definition calculateRelevanceScores ::
  "TopicExtractor \<Rightarrow> (string \<times> nat) list \<Rightarrow> string \<Rightarrow> TopicKeyword list" where
  "calculateRelevanceScores e wordFreq text =
     (let maxFreq = mathMax (map snd wordFreq);
          scored = map (scoreWord e text maxFreq) wordFreq
      in filter (\<lambda>item. relevance item > 0.2) (jsSort byRelevance scored))"

text \<open>The callback of \<open>categoryWords.forEach\<close>, for the keyword \<open>k\<close>: the partial
  match.\<close>

definition addOverlap :: "TopicKeyword \<Rightarrow> string \<Rightarrow> real \<Rightarrow> real" where
  "addOverlap k categoryWord sc =
     (if includesStr (word k) categoryWord \<or> includesStr categoryWord (word k)
      then sc + relevance k * 0.5 else sc)"

text \<open>The callback of \<open>keywords.forEach\<close> in \<open>categorizeTopics\<close>.\<close>

definition addKeywordScore :: "string list \<Rightarrow> TopicKeyword \<Rightarrow> real \<Rightarrow> real" where
  "addKeywordScore categoryWords k sc =
     fold (addOverlap k) categoryWords
       (if toLowerCase (word k) \<in> set categoryWords then sc + relevance k else sc)"

definition categoryScore :: "string list \<Rightarrow> TopicKeyword list \<Rightarrow> real" where
  "categoryScore categoryWords kws = fold (addKeywordScore categoryWords) kws 0"

text \<open>The body of the loop over \<open>this.topicCategories.entries()\<close>.\<close>

definition addCategory ::
  "TopicKeyword list \<Rightarrow> string \<times> string list \<Rightarrow> (string \<times> real) list \<Rightarrow> (string \<times> real) list" where
  "addCategory kws entry categoryScores =
     (let sc = categoryScore (snd entry) kws
      in if sc > 0 then mapSet categoryScores (fst entry) sc else categoryScores)"

text \<open>The comparator \<open>([,a], [,b]) => b - a\<close>.\<close>

definition byScore :: "string \<times> real \<Rightarrow> string \<times> real \<Rightarrow> real" where
  "byScore a b = snd b - snd a"

definition categorizeTopics :: "TopicExtractor \<Rightarrow> TopicKeyword list \<Rightarrow> (string \<times> real) list" where
  "categorizeTopics e kws = jsSort byScore (fold (addCategory kws) (topicCategories e) [])"

definition extractTopicHierarchy ::
  "TopicKeyword list \<Rightarrow> (string \<times> real) list \<Rightarrow> string list \<times> string list" where
  "extractTopicHierarchy kws cats =
     (let primaryKeywords = map word (filter (\<lambda>k. relevance k > 0.5) (take 5 kws));
          primaryCategories = take 2 (map fst cats);
          primary = uniqueInOrder (primaryKeywords @ primaryCategories);
          secondaryKeywords = map word (filter (\<lambda>k. relevance k > 0.3) (take 5 (drop 5 kws)));
          secondaryCategories = take 2 (drop 2 (map fst cats));
          secondary =
            filter (\<lambda>topic. topic \<notin> set primary)
              (uniqueInOrder (secondaryKeywords @ secondaryCategories))
      in (primary, secondary))"

text \<open>\<open>TopicExtractor.extract\<close>; the plain name is a command of the prover.\<close>

definition extractTopics :: "TopicExtractor \<Rightarrow> string \<Rightarrow> string list \<Rightarrow> TopicResult" where
  "extractTopics e text words =
     (let wordFreq = calculateWordFrequencies e words;
          keywordScores = calculateRelevanceScores e wordFreq text;
          cats = categorizeTopics e keywordScores;
          hierarchy = extractTopicHierarchy keywordScores cats
      in \<lparr>primary = fst hierarchy,
          secondary = snd hierarchy,
          topKeywords = take 15 keywordScores,
          categories = take 5 (map fst cats)\<rparr>)"

text \<open>The category score as the specification words it: over the keywords, the relevance
  of a keyword that is one of the category words, plus half its relevance for each
  category word that it contains or that contains it.\<close>

definition overlapCount :: "string list \<Rightarrow> string \<Rightarrow> nat" where
  "overlapCount categoryWords w =
     length (filter (\<lambda>cw. includesStr w cw \<or> includesStr cw w) categoryWords)"

definition specCategoryScore :: "string list \<Rightarrow> TopicKeyword list \<Rightarrow> real" where
  "specCategoryScore categoryWords kws =
     (\<Sum>k\<leftarrow>kws. (if word k \<in> set categoryWords then relevance k else 0) +
               relevance k / 2 * real (overlapCount categoryWords (word k)))"

section \<open>ActionPatterns\<close>

subsection \<open>Regular expressions\<close>

text \<open>
  The patterns of the registry are regular expressions of the host language, all with the
  flags \<open>g\<close> and \<open>i\<close>. They are kept as syntax trees of the constructs the registry uses,
  and matched as the host language matches them: by backtracking, the alternatives of a
  group tried in their order, every quantifier greedy. A position in the text is the
  character before it (none at the start) and the rest of the text.
\<close>

datatype CharClass =
    AnyChar
  | SpaceClass
  | WordClass
  | DigitClass
  | OneOf string

text \<open>The dot matches every character but a line terminator.\<close>

fun inClass :: "CharClass \<Rightarrow> char \<Rightarrow> bool" where
  "inClass AnyChar c = (c \<noteq> CHR 0x0A \<and> c \<noteq> CHR 0x0D)"
| "inClass SpaceClass c = isSpace c"
| "inClass WordClass c = isWordChar c"
| "inClass DigitClass c = isDigit c"
| "inClass (OneOf cs) c = (c \<in> set cs)"

text \<open>\<open>Lit\<close> is a literal, compared without regard to case; \<open>Rep cls m n\<close> is the
  class \<open>cls\<close> repeated \<open>m\<close> to \<open>n\<close> times (\<open>None\<close>: no upper bound); \<open>Opt\<close> is a
  group followed by \<open>?\<close>; \<open>EndOfInput\<close> is \<open>$\<close> and \<open>WordBoundary\<close> is \<open>\b\<close>.\<close>

datatype Regex =
    Lit string
  | Rep CharClass nat "nat option"
  | Seq Regex Regex
  | Alt Regex Regex
  | Opt Regex
  | EndOfInput
  | WordBoundary

type_synonym Position = "char option \<times> string"

fun matchLit :: "string \<Rightarrow> Position \<Rightarrow> Position list" where
  "matchLit [] pos = [pos]"
| "matchLit (l # ls) (p, []) = []"
| "matchLit (l # ls) (p, c # cs) =
     (if toLowerChar c = toLowerChar l then matchLit ls (Some c, cs) else [])"

text \<open>The position after the first \<open>n\<close> characters.\<close>

fun advance :: "nat \<Rightarrow> Position \<Rightarrow> Position" where
  "advance 0 pos = pos"
| "advance (Suc n) (p, []) = (p, [])"
| "advance (Suc n) (p, c # cs) = advance n (Some c, cs)"

text \<open>The number of leading characters of the class, counted up to the bound.\<close>

fun runLength :: "CharClass \<Rightarrow> nat option \<Rightarrow> string \<Rightarrow> nat" where
  "runLength cls bound [] = 0"
| "runLength cls bound (c # cs) =
     (if bound = Some 0 \<or> \<not> inClass cls c then 0
      else Suc (runLength cls (map_option (\<lambda>n. n - 1) bound) cs))"

text \<open>The ends a greedy quantifier tries after \<open>k\<close> characters of the class, the longest
  first, down to \<open>m\<close> characters.\<close>

fun repEnds :: "nat \<Rightarrow> nat \<Rightarrow> Position \<Rightarrow> Position list" where
  "repEnds m 0 pos = (if m = 0 then [pos] else [])"
| "repEnds m (Suc k) pos =
     (if m \<le> Suc k then advance (Suc k) pos # repEnds m k pos else [])"

fun isWordBefore :: "char option \<Rightarrow> bool" where
  "isWordBefore None = False"
| "isWordBefore (Some c) = isWordChar c"

fun isWordAfter :: "string \<Rightarrow> bool" where
  "isWordAfter [] = False"
| "isWordAfter (c # cs) = isWordChar c"

text \<open>The positions at which a match of the expression begun at \<open>pos\<close> can end, in the
  order in which backtracking reaches them: the first is the end of the match that
  \<open>exec\<close> reports.\<close>

fun matchEnds :: "Regex \<Rightarrow> Position \<Rightarrow> Position list" where
  "matchEnds (Lit l) pos = matchLit l pos"
| "matchEnds (Rep cls m n) pos = repEnds m (runLength cls n (snd pos)) pos"
| "matchEnds (Seq r1 r2) pos = concat (map (matchEnds r2) (matchEnds r1 pos))"
| "matchEnds (Alt r1 r2) pos = matchEnds r1 pos @ matchEnds r2 pos"
| "matchEnds (Opt r) pos = matchEnds r pos @ [pos]"
| "matchEnds EndOfInput pos = (if snd pos = [] then [pos] else [])"
| "matchEnds WordBoundary pos =
     (if isWordBefore (fst pos) \<noteq> isWordAfter (snd pos) then [pos] else [])"

text \<open>
  The loop of \<open>findMatches\<close>: \<open>regex.exec(text)\<close> is called until it returns
  \<open>null\<close>; each call searches from \<open>lastIndex\<close> for the leftmost position with a match
  and leaves \<open>lastIndex\<close> at the end of the match. The text is walked once: \<open>skip\<close>, the
  second argument, counts the characters still covered by the last match. A match of
  length zero leaves \<open>lastIndex\<close> where it is, so the loop of the source never ends: the
  result is \<open>None\<close>.
\<close>

fun findFrom :: "Regex \<Rightarrow> nat \<Rightarrow> char option \<Rightarrow> string \<Rightarrow> string list option" where
  "findFrom r (Suc k) p [] = Some []"
| "findFrom r (Suc k) p (c # cs) = findFrom r k (Some c) cs"
| "findFrom r 0 p [] = (case matchEnds r (p, []) of [] \<Rightarrow> Some [] | e # es \<Rightarrow> None)"
| "findFrom r 0 p (c # cs) =
     (case matchEnds r (p, c # cs) of
        [] \<Rightarrow> findFrom r 0 (Some c) cs
      | e # es \<Rightarrow>
          (let n = length (c # cs) - length (snd e)
           in if n = 0 then None
              else map_option ((#) (take n (c # cs))) (findFrom r (n - 1) (Some c) cs)))"

definition findMatches :: "string \<Rightarrow> Regex \<Rightarrow> string list option" where
  "findMatches text r = findFrom r 0 None text"

text \<open>A lower bound of the length of every match.\<close>

fun minLength :: "Regex \<Rightarrow> nat" where
  "minLength (Lit l) = length l"
| "minLength (Rep cls m n) = m"
| "minLength (Seq r1 r2) = minLength r1 + minLength r2"
| "minLength (Alt r1 r2) = min (minLength r1) (minLength r2)"
| "minLength (Opt r) = 0"
| "minLength EndOfInput = 0"
| "minLength WordBoundary = 0"

text \<open>Alternations and sequences of more than two parts.\<close>

fun alts :: "Regex \<Rightarrow> Regex list \<Rightarrow> Regex" where
  "alts r [] = r"
| "alts r (x # xs) = Alt r (alts x xs)"

fun seqs :: "Regex \<Rightarrow> Regex list \<Rightarrow> Regex" where
  "seqs r [] = r"
| "seqs r (x # xs) = Seq r (seqs x xs)"

text \<open>The group \<open>(?:w1|w2|...)\<close> of literals.\<close>

fun anyOf :: "string list \<Rightarrow> Regex" where
  "anyOf [] = Lit []"
| "anyOf (w # ws) = alts (Lit w) (map Lit ws)"

text \<open>\<open>\s+\<close>, \<open>\s*\<close>, \<open>.{m,n}\<close> and the common end \<open>(?:\.|!|$)\<close>.\<close>

definition spaces1 :: Regex where
  "spaces1 = Rep SpaceClass 1 None"

definition spaces0 :: Regex where
  "spaces0 = Rep SpaceClass 0 None"

definition dots :: "nat \<Rightarrow> nat \<Rightarrow> Regex" where
  "dots m n = Rep AnyChar m (Some n)"

definition sentenceEnd :: Regex where
  "sentenceEnd = Alt (Lit ''.'') (Alt (Lit ''!'') EndOfInput)"

subsection \<open>The registry\<close>

datatype Priority = High | Medium | Low

record PatternConfig =
  regex :: Regex
  priority :: Priority
  category :: string
  description :: string

text \<open>The regular expressions of \<open>initializePatterns\<close>, in the order of the calls of
  \<open>addPattern\<close>.\<close>

definition urgent_tasks_regex :: Regex where
  "urgent_tasks_regex =
     seqs (anyOf [''urgent'', ''asap'', ''immediately'', ''right away'', ''emergency'',
       ''critical'', ''must do'']) [spaces1, dots 1 100, sentenceEnd]"

definition deadline_tasks_regex :: Regex where
  "deadline_tasks_regex =
     seqs (anyOf [''due'', ''deadline'', ''by'', ''before'', ''until'']) [spaces1,
       alts (Lit ''today'') [Lit ''tomorrow'', Lit ''this week'', Lit ''next week'',
       seqs (Rep DigitClass 1 (Some 2)) [Rep (OneOf ''/-'') 1 (Some 1),
       Rep DigitClass 1 (Some 2)], seqs (Rep WordClass 1 None) [Lit ''day'']], dots 0 100,
       sentenceEnd]"

definition need_to_actions_regex :: Regex where
  "need_to_actions_regex =
     seqs (anyOf [''need to'', ''have to'', ''must'', ''should'', ''got to'']) [spaces1,
       anyOf [''do'', ''complete'', ''finish'', ''start'', ''begin'', ''work on'',
       ''handle'', ''take care of'', ''deal with''], spaces1, dots 1 80, sentenceEnd]"

definition todo_items_regex :: Regex where
  "todo_items_regex =
     seqs (anyOf [''to do'', ''todo'', ''task'', ''action item'']) [Lit '':'', spaces0,
       dots 1 100, sentenceEnd]"

definition planning_actions_regex :: Regex where
  "planning_actions_regex =
     seqs (anyOf [''plan to'', ''planning to'', ''going to'', ''will'',
       ''intend to'']) [spaces1, anyOf [''do'', ''make'', ''create'', ''build'', ''write'',
       ''call'', ''email'', ''meet'', ''visit'', ''buy'', ''get'', ''start'', ''finish''],
       dots 0 80, sentenceEnd]"

definition meeting_actions_regex :: Regex where
  "meeting_actions_regex =
     seqs (anyOf [''schedule'', ''arrange'', ''set up'', ''book'']) [spaces1,
       Opt (anyOf [''a'', ''an'']), spaces0, anyOf [''meeting'', ''call'', ''appointment'',
       ''session''], spaces1, anyOf [''with'', ''for''], dots 0 60, sentenceEnd]"

definition communication_actions_regex :: Regex where
  "communication_actions_regex =
     seqs (anyOf [''call'', ''email'', ''text'', ''message'', ''contact'',
       ''reach out to'', ''follow up with'']) [spaces1, dots 1 50, sentenceEnd]"

definition research_actions_regex :: Regex where
  "research_actions_regex =
     seqs (anyOf [''research'', ''look up'', ''find out'', ''investigate'', ''explore'',
       ''study'', ''learn about'']) [spaces1, dots 1 60, sentenceEnd]"

definition consideration_actions_regex :: Regex where
  "consideration_actions_regex =
     seqs (anyOf [''think about'', ''consider'', ''maybe'', ''might'', ''could'',
       ''possibly'']) [spaces1, anyOf [''doing'', ''making'', ''getting'', ''trying''],
       dots 0 60, sentenceEnd]"

definition want_actions_regex :: Regex where
  "want_actions_regex =
     seqs (anyOf [''want to'', ''would like to'', ''wish to'', ''hope to'']) [spaces1,
       anyOf [''do'', ''make'', ''get'', ''try'', ''start'', ''learn'', ''buy'', ''visit''],
       dots 0 60, sentenceEnd]"

definition someday_actions_regex :: Regex where
  "someday_actions_regex =
     seqs (anyOf [''someday'', ''eventually'', ''one day'', ''in the future'',
       ''when I have time'']) [spaces0, dots 1 60, sentenceEnd]"

definition action_verbs_regex :: Regex where
  "action_verbs_regex =
     seqs (WordBoundary) [anyOf [''buy'', ''purchase'', ''get'', ''acquire'', ''obtain'',
       ''order'', ''book'', ''reserve'', ''schedule'', ''organize'', ''clean'', ''fix'',
       ''repair'', ''update'', ''upgrade'', ''install'', ''download'', ''backup'',
       ''review'', ''check'', ''verify'', ''confirm'', ''submit'', ''send'', ''deliver'',
       ''complete'', ''finish'', ''start'', ''begin'', ''create'', ''make'', ''build'',
       ''write'', ''draft'', ''prepare'', ''practice'', ''exercise'', ''workout'', ''study'',
       ''read'', ''watch'', ''listen'', ''attend'', ''visit'', ''go to'', ''travel'',
       ''move'', ''relocate'', ''apply'', ''register'', ''sign up'', ''cancel'', ''delete'',
       ''remove'', ''sell'', ''donate'', ''give away'', ''throw away'', ''declutter'',
       ''sort'', ''file'', ''archive''], spaces1, dots 1 60, sentenceEnd]"

definition question_actions_regex :: Regex where
  "question_actions_regex =
     seqs (anyOf [''should I'', ''what if I'', ''how about'', ''what about'']) [spaces1,
       anyOf [''do'', ''make'', ''get'', ''try'', ''start''], dots 0 50, Lit ''?'']"

definition time_actions_regex :: Regex where
  "time_actions_regex =
     seqs (anyOf [''this week'', ''next week'', ''this month'', ''next month'', ''today'',
       ''tomorrow'', ''later'', ''soon'']) [spaces1, Opt (anyOf [''I'', ''we'', ''they'']),
       spaces0, anyOf [''will'', ''need to'', ''should'', ''must'', ''have to'',
       ''going to''], spaces1, dots 1 60, sentenceEnd]"

definition work_actions_regex :: Regex where
  "work_actions_regex =
     seqs (anyOf [''work on'', ''project'', ''assignment'', ''report'', ''presentation'',
       ''proposal'', ''document'', ''spreadsheet'', ''analysis'', ''review'', ''meeting'',
       ''client'', ''customer'', ''team'', ''manager'', ''boss'', ''deadline'', ''budget'',
       ''proposal'', ''contract'', ''deal'', ''sale'', ''marketing'',
       ''strategy'']) [dots 0 80, sentenceEnd]"

definition personal_actions_regex :: Regex where
  "personal_actions_regex =
     seqs (anyOf [''health'', ''doctor'', ''appointment'', ''exercise'', ''gym'', ''diet'',
       ''family'', ''friend'', ''home'', ''house'', ''car'', ''maintenance'', ''bills'',
       ''finance'', ''insurance'', ''vacation'', ''travel'', ''hobby'', ''learn'', ''skill'',
       ''course'', ''class'']) [dots 0 60, sentenceEnd]"


text \<open>The arguments of the calls of \<open>addPattern\<close>, in their order.\<close>

definition builtinPatterns :: "(string \<times> PatternConfig) list" where
  "builtinPatterns =
     [(''urgent_tasks'',
        \<lparr>regex = urgent_tasks_regex, priority = High, category = ''urgent'',
         description = ''Urgent tasks requiring immediate attention''\<rparr>),
      (''deadline_tasks'',
        \<lparr>regex = deadline_tasks_regex, priority = High, category = ''deadline'',
         description = ''Tasks with specific deadlines''\<rparr>),
      (''need_to_actions'',
        \<lparr>regex = need_to_actions_regex, priority = High, category = ''obligation'',
         description = ''Tasks with strong obligation language''\<rparr>),
      (''todo_items'',
        \<lparr>regex = todo_items_regex, priority = Medium, category = ''todo'',
         description = ''Explicit todo items''\<rparr>),
      (''planning_actions'',
        \<lparr>regex = planning_actions_regex, priority = Medium, category = ''planning'',
         description = ''Planned future actions''\<rparr>),
      (''meeting_actions'',
        \<lparr>regex = meeting_actions_regex, priority = Medium, category = ''meeting'',
         description = ''Meeting and appointment scheduling''\<rparr>),
      (''communication_actions'',
        \<lparr>regex = communication_actions_regex, priority = Medium, category = ''communication'',
         description = ''Communication tasks''\<rparr>),
      (''research_actions'',
        \<lparr>regex = research_actions_regex, priority = Medium, category = ''research'',
         description = ''Research and information gathering''\<rparr>),
      (''consideration_actions'',
        \<lparr>regex = consideration_actions_regex, priority = Low, category = ''consideration'',
         description = ''Items for consideration or future thought''\<rparr>),
      (''want_actions'',
        \<lparr>regex = want_actions_regex, priority = Low, category = ''aspiration'',
         description = ''Aspirational actions and wants''\<rparr>),
      (''someday_actions'',
        \<lparr>regex = someday_actions_regex, priority = Low, category = ''someday'',
         description = ''Future or someday actions''\<rparr>),
      (''action_verbs'',
        \<lparr>regex = action_verbs_regex, priority = Medium, category = ''action'',
         description = ''Sentences containing clear action verbs''\<rparr>),
      (''question_actions'',
        \<lparr>regex = question_actions_regex, priority = Low, category = ''question'',
         description = ''Action-oriented questions''\<rparr>),
      (''time_actions'',
        \<lparr>regex = time_actions_regex, priority = Medium, category = ''scheduled'',
         description = ''Time-specific actions''\<rparr>),
      (''work_actions'',
        \<lparr>regex = work_actions_regex, priority = Medium, category = ''work'',
         description = ''Work and professional actions''\<rparr>),
      (''personal_actions'',
        \<lparr>regex = personal_actions_regex, priority = Medium, category = ''personal'',
         description = ''Personal life actions''\<rparr>)]"

text \<open>\<open>addPattern\<close> is \<open>this.patterns.set(name, config)\<close>; the registry is a \<open>Map\<close>
  whose iteration order \<open>detect\<close> observes.\<close>

definition addPattern ::
  "(string \<times> PatternConfig) list \<Rightarrow> string \<times> PatternConfig \<Rightarrow> (string \<times> PatternConfig) list" where
  "addPattern ps entry = mapSet ps (fst entry) (snd entry)"

definition initializePatterns :: "(string \<times> PatternConfig) list" where
  "initializePatterns = foldl addPattern [] builtinPatterns"

subsection \<open>Cleaning a match\<close>

text \<open>\<open>s.trim()\<close>.\<close>

definition trim :: "string \<Rightarrow> string" where
  "trim s = rev (dropWhile isSpace (rev (dropWhile isSpace s)))"

text \<open>\<open>s.replace(/^\W+/, '')\<close> and \<open>s.replace(/\W+$/, '')\<close>.\<close>

definition notWordChar :: "char \<Rightarrow> bool" where
  "notWordChar c = (\<not> isWordChar c)"

definition stripLeadingNonWord :: "string \<Rightarrow> string" where
  "stripLeadingNonWord s = dropWhile notWordChar s"

definition stripTrailingNonWord :: "string \<Rightarrow> string" where
  "stripTrailingNonWord s = rev (dropWhile notWordChar (rev s))"

text \<open>\<open>s.replace(/\s+/g, ' ')\<close>: every run of white space becomes one space; the flag
  says that the character before was white space.\<close>

fun collapseFrom :: "bool \<Rightarrow> string \<Rightarrow> string" where
  "collapseFrom b [] = []"
| "collapseFrom b (c # cs) =
     (if isSpace c then (if b then collapseFrom True cs else CHR '' '' # collapseFrom True cs)
      else c # collapseFrom False cs)"

definition collapseSpaces :: "string \<Rightarrow> string" where
  "collapseSpaces s = collapseFrom False s"

text \<open>\<open>s.replace(/^(i|we|you|they|he|she|it)\s+/, '')\<close>: the first alternative that is
  followed by white space is removed with that white space.\<close>

definition pronouns :: "string list" where
  "pronouns = [''i'', ''we'', ''you'', ''they'', ''he'', ''she'', ''it'']"

fun startsWithSpace :: "string \<Rightarrow> bool" where
  "startsWithSpace [] = False"
| "startsWithSpace (c # cs) = isSpace c"

fun stripPronoun :: "string list \<Rightarrow> string \<Rightarrow> string" where
  "stripPronoun [] s = s"
| "stripPronoun (p # ps) s =
     (if startsWith s p \<and> startsWithSpace (drop (length p) s)
      then dropWhile isSpace (drop (length p) s)
      else stripPronoun ps s)"

definition cleanMatch :: "string \<Rightarrow> string" where
  "cleanMatch m =
     trim (stripPronoun pronouns (toLowerCase (collapseSpaces
       (stripTrailingNonWord (stripLeadingNonWord (trim m))))))"

subsection \<open>Detection\<close>

text \<open>The field \<open>priority\<close> of an entry of \<open>patterns\<close> in the result is named
  \<open>matchPriority\<close> here, the registry having a field \<open>priority\<close> already.\<close>

record PatternResult =
  pattern :: string
  matches :: "string list"
  matchPriority :: Priority

record ActionDetectionResult =
  items :: "string list"
  patterns :: "PatternResult list"
  totalCount :: nat

text \<open>\<open>arr.indexOf(x)\<close> on an array, counted from \<open>i\<close>.\<close>

fun arrayIndexFrom :: "'a list \<Rightarrow> 'a \<Rightarrow> nat \<Rightarrow> int" where
  "arrayIndexFrom [] x i = - 1"
| "arrayIndexFrom (y # ys) x i = (if y = x then int i else arrayIndexFrom ys x (Suc i))"

text \<open>The callback of \<open>filter\<close> in \<open>detect\<close>, on a match and its index.\<close>

definition keepCleaned :: "string list \<Rightarrow> nat \<times> string \<Rightarrow> bool" where
  "keepCleaned arr im =
     (length (snd im) > 10 \<and> length (snd im) < 200 \<and>
      arrayIndexFrom arr (snd im) 0 = int (fst im))"

definition cleanedMatches :: "string list \<Rightarrow> string list" where
  "cleanedMatches ms =
     (let arr = map cleanMatch ms
      in map snd (filter (keepCleaned arr) (zip [0..<length arr] arr)))"

text \<open>The body of the loop over the registry; the accumulator holds \<open>allMatches\<close> and
  \<open>patternResults\<close>. \<open>None\<close>: \<open>findMatches\<close> does not return.\<close>

definition scanPattern ::
  "string \<Rightarrow> string \<times> PatternConfig \<Rightarrow> string list \<times> PatternResult list \<Rightarrow>
   (string list \<times> PatternResult list) option" where
  "scanPattern text entry acc =
     (case findMatches text (regex (snd entry)) of
        None \<Rightarrow> None
      | Some ms \<Rightarrow>
          Some (if ms \<noteq> [] then
                  (let cm = cleanedMatches ms
                   in if cm \<noteq> [] then
                        (fst acc @ cm,
                         snd acc @ [\<lparr>pattern = fst entry, matches = cm,
                                     matchPriority = priority (snd entry)\<rparr>])
                      else acc)
                else acc))"

fun scanAll ::
  "string \<Rightarrow> (string \<times> PatternConfig) list \<Rightarrow> string list \<times> PatternResult list \<Rightarrow>
   (string list \<times> PatternResult list) option" where
  "scanAll text [] acc = Some acc"
| "scanAll text (entry # entries) acc =
     (case scanPattern text entry acc of
        None \<Rightarrow> None
      | Some acc' \<Rightarrow> scanAll text entries acc')"

text \<open>The priority map of \<open>prioritizeItems\<close>: it is only looked up.\<close>

definition priorityScore :: "Priority \<Rightarrow> int" where
  "priorityScore p = (if p = High then 3 else if p = Medium then 2 else 1)"

definition scoreOr0 :: "(string \<rightharpoonup> int) \<Rightarrow> string \<Rightarrow> int" where
  "scoreOr0 m x = (case m x of None \<Rightarrow> 0 | Some v \<Rightarrow> v)"

text \<open>The callbacks of \<open>pattern.matches.forEach\<close> and of \<open>patterns.forEach\<close>.\<close>

definition recordMatch :: "int \<Rightarrow> string \<Rightarrow> (string \<rightharpoonup> int) \<Rightarrow> (string \<rightharpoonup> int)" where
  "recordMatch sc m scores = scores(m \<mapsto> max (scoreOr0 scores m) sc)"

definition recordPattern :: "PatternResult \<Rightarrow> (string \<rightharpoonup> int) \<Rightarrow> (string \<rightharpoonup> int)" where
  "recordPattern p scores = fold (recordMatch (priorityScore (matchPriority p))) (matches p) scores"

definition priorityScores :: "PatternResult list \<Rightarrow> (string \<rightharpoonup> int)" where
  "priorityScores ps = fold recordPattern ps Map.empty"

text \<open>The comparator of \<open>items.sort\<close>.\<close>

definition compareItems :: "(string \<rightharpoonup> int) \<Rightarrow> string \<Rightarrow> string \<Rightarrow> int" where
  "compareItems scores a b =
     (let scoreA = scoreOr0 scores a;
          scoreB = scoreOr0 scores b
      in if scoreA \<noteq> scoreB then scoreB - scoreA
         else int (length b) - int (length a))"

definition prioritizeItems :: "string list \<Rightarrow> PatternResult list \<Rightarrow> string list" where
  "prioritizeItems its ps = jsSort (compareItems (priorityScores ps)) its"

text \<open>\<open>detect(text, sentences)\<close> on a registry; the sentences are a parameter the body
  never reads.\<close>

definition detect ::
  "(string \<times> PatternConfig) list \<Rightarrow> string \<Rightarrow> string list \<Rightarrow> ActionDetectionResult option" where
  "detect registry text sentences =
     (case scanAll text registry ([], []) of
        None \<Rightarrow> None
      | Some acc \<Rightarrow>
          (let uniqueItems = uniqueInOrder (fst acc);
               sortedItems = prioritizeItems uniqueItems (snd acc)
           in Some \<lparr>items = sortedItems, patterns = snd acc,
                     totalCount = length uniqueItems\<rparr>))"

text \<open>What the loop over the registry keeps true of its accumulator: every collected match
  is longer than 10 and shorter than 200 characters, and the collected matches are those
  of the recorded patterns.\<close>

definition accOk :: "string list \<times> PatternResult list \<Rightarrow> bool" where
  "accOk acc =
     ((\<forall>m\<in>set (fst acc). 10 < length m \<and> length m < 200) \<and>
      set (fst acc) = (\<Union>p\<in>set (snd acc). set (matches p)))"

section \<open>OfflineNLP\<close>

subsection \<open>Calls that may throw\<close>

text \<open>
  What a call of a method does: it returns a value, it throws, or it does not come back.
  \<open>await\<close> of a call inside \<open>try\<close> hands a thrown exception to the \<open>catch\<close> block.
\<close>

datatype ('e, 'a) outcome = Returned 'a | Thrown 'e | Diverged

subsection \<open>The result\<close>

text \<open>The \<open>options\<close> of \<open>processText\<close>; a flag that is left out counts as \<open>false\<close>, and
  the whole argument may be left out.\<close>

record Options =
  skipSentiment :: bool
  skipActionItems :: bool
  skipTopics :: bool
  skipInsights :: bool
  storeResults :: bool

text \<open>\<open>options?.flag\<close> as a condition.\<close>

definition flagSet :: "(Options \<Rightarrow> bool) \<Rightarrow> Options option \<Rightarrow> bool" where
  "flagSet flag options = (case options of None \<Rightarrow> False | Some opts \<Rightarrow> flag opts)"

datatype Mood =
  MoodPositive | MoodNegative | MoodNeutral | MoodExcited | MoodConcerned | MoodThoughtful

datatype Energy = EnergyHigh | EnergyMedium | EnergyLow

datatype Focus = FocusClear | FocusScattered | FocusMixed

text \<open>The field \<open>patterns\<close> of the insights is named \<open>insightPatterns\<close> here, the action
  items having a field \<open>patterns\<close> already.\<close>

record Insights =
  mood :: Mood
  energy :: Energy
  focus :: Focus
  recommendations :: "string list"
  insightPatterns :: "string list"

record Privacy =
  dataProcessedLocally :: bool
  noExternalCalls :: bool
  noDataStored :: bool

record NLPResult =
  originalText :: string
  processedText :: string
  wordCount :: nat
  sentenceCount :: nat
  sentiment :: SentimentAnalysis
  actionItems :: ActionDetectionResult
  topics :: TopicResult
  insights :: Insights
  processingTime :: int
  timestamp :: string
  privacy :: Privacy

text \<open>The sections of the result as the object literal in \<open>processText\<close> writes them.\<close>

definition defaultSentiment :: SentimentAnalysis where
  "defaultSentiment =
     \<lparr>score = 0, confidence = 0, label = Neutral,
      breakdown = \<lparr>positiveWords = [], negativeWords = [], intensifiers = [], negators = []\<rparr>\<rparr>"

definition defaultActionItems :: ActionDetectionResult where
  "defaultActionItems = \<lparr>items = [], patterns = [], totalCount = 0\<rparr>"

definition defaultTopics :: TopicResult where
  "defaultTopics = \<lparr>primary = [], secondary = [], topKeywords = [], categories = []\<rparr>"

definition defaultInsights :: Insights where
  "defaultInsights =
     \<lparr>mood = MoodNeutral, energy = EnergyMedium, focus = FocusMixed, recommendations = [],
      insightPatterns = []\<rparr>"

text \<open>The readings of the clock during one call: \<open>Date.now()\<close> at the start, the text of
  \<open>new Date().toISOString()\<close>, and \<open>Date.now()\<close> when the call ends, in the \<open>try\<close>
  block or in the \<open>catch\<close> block.\<close>

record Clock =
  startTime :: int
  isoTimestamp :: string
  finishTime :: int

definition initialResult ::
  "Clock \<Rightarrow> string \<Rightarrow> string \<Rightarrow> string list \<Rightarrow> string list \<Rightarrow> Options option \<Rightarrow> NLPResult" where
  "initialResult clock text cleaned sentences words options =
     \<lparr>originalText = text,
      processedText = cleaned,
      wordCount = length words,
      sentenceCount = length sentences,
      sentiment = defaultSentiment,
      actionItems = defaultActionItems,
      topics = defaultTopics,
      insights = defaultInsights,
      processingTime = 0,
      timestamp = isoTimestamp clock,
      privacy = \<lparr>dataProcessedLocally = True, noExternalCalls = True,
                 noDataStored = (\<not> flagSet storeResults options)\<rparr>\<rparr>"

subsection \<open>The engine\<close>

text \<open>
  The private fields of the class \<open>OfflineNLP\<close>. Each field holds an object; of the
  sentiment dictionary, the action patterns, the topic extractor and the insight generator
  \<open>processText\<close> calls one method (\<open>analyze\<close>, \<open>detect\<close>, \<open>extract\<close>, \<open>generate\<close>),
  which stands for the object here, and of the text preprocessor it calls three.
\<close>

record 'e TextPreprocessor =
  clean :: "string \<Rightarrow> ('e, string) outcome"
  splitSentences :: "string \<Rightarrow> ('e, string list) outcome"
  tokenize :: "string \<Rightarrow> ('e, string list) outcome"

record 'e OfflineNLP =
  sentimentDictionary :: "string \<Rightarrow> string list \<Rightarrow> ('e, SentimentAnalysis) outcome"
  actionPatterns :: "string \<Rightarrow> string list \<Rightarrow> ('e, ActionDetectionResult) outcome"
  topicExtractor :: "string \<Rightarrow> string list \<Rightarrow> ('e, TopicResult) outcome"
  insightGenerator :: "NLPResult \<Rightarrow> ('e, Insights) outcome"
  textPreprocessor :: "'e TextPreprocessor"

text \<open>The private methods \<open>analyzeSentiment\<close>, \<open>detectActionItems\<close>, \<open>extractTopics\<close> and
  \<open>generateInsights\<close>; the third carries the suffix \<open>Of\<close> because \<open>extractTopics\<close> names
  the method of the topic extractor already.\<close>

definition analyzeSentiment ::
  "'e OfflineNLP \<Rightarrow> string \<Rightarrow> string list \<Rightarrow> ('e, SentimentAnalysis) outcome" where
  "analyzeSentiment this text words = sentimentDictionary this text words"

definition detectActionItems ::
  "'e OfflineNLP \<Rightarrow> string \<Rightarrow> string list \<Rightarrow> ('e, ActionDetectionResult) outcome" where
  "detectActionItems this text sentences = actionPatterns this text sentences"

definition extractTopicsOf ::
  "'e OfflineNLP \<Rightarrow> string \<Rightarrow> string list \<Rightarrow> ('e, TopicResult) outcome" where
  "extractTopicsOf this text words = topicExtractor this text words"

definition generateInsights :: "'e OfflineNLP \<Rightarrow> NLPResult \<Rightarrow> ('e, Insights) outcome" where
  "generateInsights this nlpResult = insightGenerator this nlpResult"

subsection \<open>processText\<close>

definition fallbackRecommendations :: "string list" where
  "fallbackRecommendations =
     [''Text processed locally with basic analysis'',
      ''All processing completed on your device'',
      ''Your privacy is fully protected'']"

text \<open>The \<open>catch\<close> block, on the result as it is when the exception arrives.\<close>

definition caught :: "Clock \<Rightarrow> NLPResult \<Rightarrow> NLPResult" where
  "caught clock result =
     result\<lparr>processingTime := finishTime clock - startTime clock,
            insights := (insights result)\<lparr>recommendations := fallbackRecommendations\<rparr>\<rparr>"

text \<open>The four guarded statements of the \<open>try\<close> block. A statement assigns its section of
  the result when the call has returned.\<close>

definition sentimentStep ::
  "'e OfflineNLP \<Rightarrow> Options option \<Rightarrow> string \<Rightarrow> string list \<Rightarrow> NLPResult \<Rightarrow>
   ('e, NLPResult) outcome" where
  "sentimentStep this options cleaned words result =
     (if \<not> flagSet skipSentiment options then
        (case analyzeSentiment this cleaned words of
           Returned s \<Rightarrow> Returned (result\<lparr>sentiment := s\<rparr>)
         | Thrown e \<Rightarrow> Thrown e
         | Diverged \<Rightarrow> Diverged)
      else Returned result)"

definition actionStep ::
  "'e OfflineNLP \<Rightarrow> Options option \<Rightarrow> string \<Rightarrow> string list \<Rightarrow> NLPResult \<Rightarrow>
   ('e, NLPResult) outcome" where
  "actionStep this options cleaned sentences result =
     (if \<not> flagSet skipActionItems options then
        (case detectActionItems this cleaned sentences of
           Returned a \<Rightarrow> Returned (result\<lparr>actionItems := a\<rparr>)
         | Thrown e \<Rightarrow> Thrown e
         | Diverged \<Rightarrow> Diverged)
      else Returned result)"

definition topicStep ::
  "'e OfflineNLP \<Rightarrow> Options option \<Rightarrow> string \<Rightarrow> string list \<Rightarrow> NLPResult \<Rightarrow>
   ('e, NLPResult) outcome" where
  "topicStep this options cleaned words result =
     (if \<not> flagSet skipTopics options then
        (case extractTopicsOf this cleaned words of
           Returned t \<Rightarrow> Returned (result\<lparr>topics := t\<rparr>)
         | Thrown e \<Rightarrow> Thrown e
         | Diverged \<Rightarrow> Diverged)
      else Returned result)"

definition insightStep ::
  "'e OfflineNLP \<Rightarrow> Options option \<Rightarrow> NLPResult \<Rightarrow> ('e, NLPResult) outcome" where
  "insightStep this options result =
     (if \<not> flagSet skipInsights options then
        (case generateInsights this result of
           Returned i \<Rightarrow> Returned (result\<lparr>insights := i\<rparr>)
         | Thrown e \<Rightarrow> Thrown e
         | Diverged \<Rightarrow> Diverged)
      else Returned result)"

text \<open>One statement inside the single \<open>try\<close> block, followed by the rest of the block: an
  exception of the statement ends the block and runs the \<open>catch\<close> block on the result as
  it was before the statement, and \<open>processText\<close> returns what the \<open>catch\<close> block
  returns.\<close>

definition orCatch ::
  "Clock \<Rightarrow> NLPResult \<Rightarrow> ('e, NLPResult) outcome \<Rightarrow> (NLPResult \<Rightarrow> ('e, NLPResult) outcome) \<Rightarrow>
   ('e, NLPResult) outcome" where
  "orCatch clock result statement rest =
     (case statement of
        Returned result' \<Rightarrow> rest result'
      | Thrown e \<Rightarrow> Returned (caught clock result)
      | Diverged \<Rightarrow> Diverged)"

definition tryBlock ::
  "'e OfflineNLP \<Rightarrow> Clock \<Rightarrow> Options option \<Rightarrow> string \<Rightarrow> string list \<Rightarrow> string list \<Rightarrow>
   NLPResult \<Rightarrow> ('e, NLPResult) outcome" where
  "tryBlock this clock options cleaned sentences words result0 =
     orCatch clock result0 (sentimentStep this options cleaned words result0) (\<lambda>result1.
     orCatch clock result1 (actionStep this options cleaned sentences result1) (\<lambda>result2.
     orCatch clock result2 (topicStep this options cleaned words result2) (\<lambda>result3.
     orCatch clock result3 (insightStep this options result3) (\<lambda>result4.
     Returned (result4\<lparr>processingTime := finishTime clock - startTime clock\<rparr>)))))"

text \<open>\<open>processText(text, options)\<close>. The three calls of the preprocessor stand before the
  \<open>try\<close> block: an exception of theirs leaves \<open>processText\<close>.\<close>

definition processText ::
  "'e OfflineNLP \<Rightarrow> Clock \<Rightarrow> string \<Rightarrow> Options option \<Rightarrow> ('e, NLPResult) outcome" where
  "processText this clock text options =
     (case clean (textPreprocessor this) text of
        Thrown e \<Rightarrow> Thrown e
      | Diverged \<Rightarrow> Diverged
      | Returned cleaned \<Rightarrow>
     (case splitSentences (textPreprocessor this) cleaned of
        Thrown e \<Rightarrow> Thrown e
      | Diverged \<Rightarrow> Diverged
      | Returned sentences \<Rightarrow>
     (case tokenize (textPreprocessor this) cleaned of
        Thrown e \<Rightarrow> Thrown e
      | Diverged \<Rightarrow> Diverged
      | Returned words \<Rightarrow>
          tryBlock this clock options cleaned sentences words
            (initialResult clock text cleaned sentences words options))))"

subsection \<open>The engine the constructor builds\<close>

text \<open>
  Modelled from the spec: the classes \<open>TextPreprocessor\<close> and \<open>InsightGenerator\<close>, which
  \<open>OfflineNLP.ts\<close> imports from \<open>utils/TextPreprocessor\<close> and
  \<open>generators/InsightGenerator\<close>; these files are not among the sources. The constructor
  of \<open>OfflineNLP\<close> creates one object of each of the five classes. The three classes
  that are among the sources are embedded above; of the two others the engine takes the
  preprocessor and the method \<open>generate\<close> as parameters. The specification describes
  \<open>generate\<close> as a deterministic synthesis of the three analyses (section 4.5): here it
  returns insights or throws.
\<close>

definition newOfflineNLP ::
  "'e TextPreprocessor \<Rightarrow> (NLPResult \<Rightarrow> 'e + Insights) \<Rightarrow> 'e OfflineNLP" where
  "newOfflineNLP preprocessor generate =
     \<lparr>sentimentDictionary = (\<lambda>text words. Returned (analyze initializeDictionaries text words)),
      actionPatterns =
        (\<lambda>text sentences.
           case detect initializePatterns text sentences of
             Some r \<Rightarrow> Returned r
           | None \<Rightarrow> Diverged),
      topicExtractor = (\<lambda>text words. Returned (extractTopics newTopicExtractor text words)),
      insightGenerator =
        (\<lambda>nlpResult. case generate nlpResult of Inl e \<Rightarrow> Thrown e | Inr i \<Rightarrow> Returned i),
      textPreprocessor = preprocessor\<rparr>"

text \<open>
  Modelled from the spec: what the three operations of the missing class
  \<open>TextPreprocessor\<close> do on the empty text. Section 4.1 of the specification says of
  \<open>clean\<close>, \<open>splitSentences\<close> and \<open>tokenize\<close>: "No error cases; empty input yields empty
  sequences."
\<close>

definition emptyInputYieldsEmptySequences :: "'e TextPreprocessor \<Rightarrow> bool" where
  "emptyInputYieldsEmptySequences preprocessor =
     (clean preprocessor [] = Returned [] \<and>
      splitSentences preprocessor [] = Returned [] \<and>
      tokenize preprocessor [] = Returned [])"

subsection \<open>Engines for the evaluated runs\<close>

text \<open>A preprocessor that returns the text as it is, as its only sentence and its only
  word unless it is empty, and a generator that returns the default insights.\<close>

definition plainPreprocessor :: "unit TextPreprocessor" where
  "plainPreprocessor =
     \<lparr>clean = (\<lambda>text. Returned text),
      splitSentences = (\<lambda>text. Returned (if text = [] then [] else [text])),
      tokenize = (\<lambda>text. Returned (if text = [] then [] else [text]))\<rparr>"

definition plainGenerate :: "NLPResult \<Rightarrow> unit + Insights" where
  "plainGenerate nlpResult = Inr defaultInsights"

text \<open>The engine of the constructor with a sentiment dictionary whose \<open>analyze\<close> throws.\<close>

definition failingSentimentEngine :: "unit OfflineNLP" where
  "failingSentimentEngine =
     (newOfflineNLP plainPreprocessor plainGenerate)
       \<lparr>sentimentDictionary := (\<lambda>text words. Thrown ())\<rparr>"

definition sampleClock :: Clock where
  "sampleClock = \<lparr>startTime = 1000, isoTimestamp = ''2024-01-01T00:00:00.000Z'', finishTime = 1007\<rparr>"

section \<open>Facts about the host-language values\<close>

subsection \<open>Rounding to three decimals\<close>

lemma toFixed3_nonneg_le:
  assumes "0 \<le> x" "x \<le> real_of_int k / 1000"
  shows "0 \<le> toFixed3 x \<and> toFixed3 x \<le> real_of_int k / 1000"
proof -
  have "x * 1000 + 1 / 2 \<le> real_of_int k + 1 / 2" using assms by simp
  then have "\<lfloor>x * 1000 + 1 / 2\<rfloor> \<le> \<lfloor>real_of_int k + 1 / 2\<rfloor>" by (rule floor_mono)
  also have "\<lfloor>real_of_int k + 1 / 2\<rfloor> = k" by linarith
  finally have a: "\<lfloor>x * 1000 + 1 / 2\<rfloor> \<le> k" .
  have "0 \<le> x * 1000 + 1 / 2" using assms by simp
  then have b: "0 \<le> \<lfloor>x * 1000 + 1 / 2\<rfloor>" by simp
  from a have "real_of_int \<lfloor>x * 1000 + 1 / 2\<rfloor> \<le> real_of_int k" by linarith
  with b show ?thesis using assms by (simp add: toFixed3_def divide_right_mono)
qed

lemma toFixed3_minus: "toFixed3 (- x) = - toFixed3 x"
  by (cases "x = 0"; cases "x < 0") (simp_all add: toFixed3_def)

lemma toFixed3_unit:
  assumes "- 1 \<le> x" "x \<le> 1"
  shows "- 1 \<le> toFixed3 x \<and> toFixed3 x \<le> 1"
proof (cases "x < 0")
  case True
  then have "0 \<le> - x" "- x \<le> real_of_int 1000 / 1000" using assms by simp_all
  from toFixed3_nonneg_le[OF this] show ?thesis by (simp add: toFixed3_minus)
next
  case False
  then have "0 \<le> x" "x \<le> real_of_int 1000 / 1000" using assms by simp_all
  from toFixed3_nonneg_le[OF this] show ?thesis by simp
qed

lemma toFixed3_le_tenth:
  assumes "x \<le> 0.1"
  shows "toFixed3 x \<le> 0.1"
proof (cases "x < 0")
  case True
  then have "0 \<le> - x" "- x \<le> real_of_int (\<lceil>- x * 1000\<rceil>) / 1000"
    by (simp_all add: le_divide_eq)
  from toFixed3_nonneg_le[OF this] have "0 \<le> toFixed3 (- x)" by simp
  then show ?thesis by (simp add: toFixed3_minus)
next
  case False
  then have "0 \<le> x" "x \<le> real_of_int 100 / 1000" using assms by simp_all
  from toFixed3_nonneg_le[OF this] show ?thesis by simp
qed

lemma toFixed3_ge_minus_tenth:
  assumes "- 0.1 \<le> x"
  shows "- 0.1 \<le> toFixed3 x"
proof -
  have "toFixed3 (- x) \<le> 0.1" using assms by (intro toFixed3_le_tenth) simp
  then show ?thesis by (simp add: toFixed3_minus)
qed

subsection \<open>Rounding to binary64\<close>

lemma pow2_powr: "pow2 k = 2 powr (of_int k)"
  by (simp add: pow2_def powr_int)

lemma pow2_pos: "0 < pow2 k"
  by (simp add: pow2_powr)

lemma pow2_add: "pow2 (j + k) = pow2 j * pow2 k"
  by (simp add: pow2_powr powr_add)

lemma exponentOf_lower:
  assumes "0 < x"
  shows "pow2 (exponentOf x) \<le> x"
proof (cases "1 \<le> x")
  case True
  then have p: "0 < \<lfloor>x\<rfloor>" by simp
  have b: "1 \<le> bitlen \<lfloor>x\<rfloor>" using p by (simp add: bitlen_alt_def)
  from bitlen_bounds[OF p] have "2 ^ nat (bitlen \<lfloor>x\<rfloor> - 1) \<le> \<lfloor>x\<rfloor>" by blast
  then have "(2::real) ^ nat (bitlen \<lfloor>x\<rfloor> - 1) \<le> of_int \<lfloor>x\<rfloor>"
    by (metis of_int_le_iff of_int_numeral of_int_power)
  also have "\<dots> \<le> x" by simp
  finally show ?thesis using True b by (simp add: exponentOf_def pow2_def)
next
  case False
  then have x1: "x < 1" by simp
  define c where "c = \<lceil>1 / x\<rceil>"
  have "1 < 1 / x" using assms x1 by simp
  then have c2: "2 \<le> c" unfolding c_def by linarith
  then have p: "0 < c - 1" by simp
  have b: "1 \<le> bitlen (c - 1)" using p by (simp add: bitlen_alt_def)
  from bitlen_bounds[OF p] have "c - 1 < 2 ^ nat (bitlen (c - 1))" by blast
  then have "c \<le> 2 ^ nat (bitlen (c - 1))" by simp
  then have "real_of_int c \<le> 2 ^ nat (bitlen (c - 1))"
    by (metis of_int_le_iff of_int_numeral of_int_power)
  moreover have "1 / x \<le> real_of_int c" unfolding c_def by simp
  ultimately have "1 / x \<le> 2 ^ nat (bitlen (c - 1))" by linarith
  then have "1 / 2 ^ nat (bitlen (c - 1)) \<le> x"
    using assms by (simp add: field_simps)
  then show ?thesis using False b by (simp add: exponentOf_def pow2_def c_def)
qed

lemma roundEven_error: "\<bar>real_of_int (roundEven y) - y\<bar> \<le> 1 / 2"
  unfolding roundEven_def Let_def by (auto; linarith)

lemma roundEven_nonneg: "0 \<le> y \<Longrightarrow> 0 \<le> roundEven y"
  unfolding roundEven_def Let_def by (auto; linarith)

lemma roundEven_nonpos: "y \<le> 0 \<Longrightarrow> roundEven y \<le> 0"
  unfolding roundEven_def Let_def
proof -
  assume y: "y \<le> 0"
  show "(if y - real_of_int \<lfloor>y\<rfloor> < 1 / 2 \<or> y - real_of_int \<lfloor>y\<rfloor> = 1 / 2 \<and> even \<lfloor>y\<rfloor>
         then \<lfloor>y\<rfloor> else \<lfloor>y\<rfloor> + 1) \<le> 0"
  proof (cases "y = 0")
    case True then show ?thesis by simp
  next
    case False
    with y have "y < 0" by simp
    then have "\<lfloor>y\<rfloor> \<le> - 1" by linarith
    then show ?thesis by auto
  qed
qed

lemma round64_0: "round64 0 = 0"
  by (simp add: round64_def)

lemma round64_nonneg: "0 \<le> x \<Longrightarrow> 0 \<le> round64 x"
  using pow2_pos by (simp add: round64_def Let_def roundEven_nonneg less_imp_le)

lemma round64_nonpos: "x \<le> 0 \<Longrightarrow> round64 x \<le> 0"
proof -
  assume x: "x \<le> 0"
  show ?thesis
  proof (cases "x = 0")
    case True then show ?thesis by (simp add: round64_def)
  next
    case False
    define e where "e = exponentOf \<bar>x\<bar> - 52"
    have "x / pow2 e \<le> 0" using x pow2_pos[of e] by (simp add: divide_le_0_iff less_imp_le)
    then have "roundEven (x / pow2 e) \<le> 0" by (rule roundEven_nonpos)
    then have "real_of_int (roundEven (x / pow2 e)) * pow2 e \<le> 0"
      using pow2_pos[of e] by (simp add: mult_le_0_iff less_imp_le)
    then show ?thesis using False by (simp add: round64_def Let_def e_def)
  qed
qed

lemma round64_error: "\<bar>round64 x - x\<bar> \<le> \<bar>x\<bar> / 2 ^ 53"
proof (cases "x = 0")
  case True then show ?thesis by (simp add: round64_def)
next
  case False
  define E where "E = exponentOf \<bar>x\<bar>"
  define e where "e = E - 52"
  define y where "y = x / pow2 e"
  have pe: "0 < pow2 e" by (rule pow2_pos)
  have lo: "pow2 E \<le> \<bar>x\<bar>" unfolding E_def using False by (intro exponentOf_lower) simp
  have "E = e + 52" by (simp add: e_def)
  have "pow2 52 = 2 ^ 52" by (simp add: pow2_def)
  then have pE: "pow2 E = pow2 e * 2 ^ 52" unfolding \<open>E = e + 52\<close> pow2_add by simp
  have r: "round64 x = real_of_int (roundEven y) * pow2 e"
    using False by (simp add: round64_def Let_def y_def e_def E_def)
  have xy: "x = y * pow2 e" using pe by (simp add: y_def)
  have "round64 x - x = (real_of_int (roundEven y) - y) * pow2 e"
  proof -
    have "round64 x - x = real_of_int (roundEven y) * pow2 e - y * pow2 e"
      using r xy by simp
    then show ?thesis by (simp add: algebra_simps)
  qed
  then have "\<bar>round64 x - x\<bar> = \<bar>real_of_int (roundEven y) - y\<bar> * pow2 e"
    using pe by (simp add: abs_mult)
  also have "\<dots> \<le> 1 / 2 * pow2 e"
    using roundEven_error[of y] pe by (intro mult_right_mono) simp_all
  also have "\<dots> = pow2 E / 2 ^ 53" unfolding pE by simp
  also have "\<dots> \<le> \<bar>x\<bar> / 2 ^ 53" using lo by (simp add: divide_right_mono)
  finally show ?thesis .
qed

lemma round64_minus: "round64 (- x) = - round64 x"
proof (cases "x = 0")
  case True then show ?thesis by (simp add: round64_def)
next
  case False
  have re: "roundEven (- y) = - roundEven y" for y
  proof (cases "y \<in> \<int>")
    case True
    then obtain k where "y = of_int k" by (auto elim: Ints_cases)
    then show ?thesis by (simp add: roundEven_def)
  next
    case False
    have ne: "y \<noteq> of_int \<lfloor>y\<rfloor>"
    proof
      assume a: "y = of_int \<lfloor>y\<rfloor>"
      have "y \<in> \<int>" by (subst a) (rule Ints_of_int)
      with False show False by simp
    qed
    have f: "\<lfloor>y\<rfloor> \<le> y" "y < \<lfloor>y\<rfloor> + 1" by linarith+
    have c: "\<lfloor>- y\<rfloor> = - \<lfloor>y\<rfloor> - 1" using f ne by linarith
    show ?thesis unfolding roundEven_def Let_def c using f ne by (auto; linarith)
  qed
  show ?thesis using False by (simp add: round64_def Let_def re)
qed

text \<open>The rounding of a concrete number is computed by these equations.\<close>

lemmas round64_eval =
  round64_def exponentOf_def roundEven_def pow2_def compute_bitlen Let_def

lemma round64_upper: "0 \<le> x \<Longrightarrow> round64 x \<le> x + x / 2 ^ 53"
proof -
  assume "0 \<le> x"
  then have "\<bar>round64 x - x\<bar> \<le> x / 2 ^ 53" using round64_error[of x] by simp
  then show ?thesis by linarith
qed

lemma round64_lower: "0 \<le> x \<Longrightarrow> x - x / 2 ^ 53 \<le> round64 x"
proof -
  assume "0 \<le> x"
  then have "\<bar>round64 x - x\<bar> \<le> x / 2 ^ 53" using round64_error[of x] by simp
  then show ?thesis by linarith
qed

lemma round64_eq_0_iff: "round64 x = 0 \<longleftrightarrow> x = 0"
proof
  assume z: "round64 x = 0"
  show "x = 0"
  proof (rule ccontr)
    assume "x \<noteq> 0"
    then have "\<bar>x\<bar> / 2 ^ 53 < \<bar>x\<bar>" by simp
    with round64_error[of x] z show False by simp
  qed
next
  assume "x = 0"
  then show "round64 x = 0" by (simp add: round64_0)
qed

text \<open>On the multiples of one thousandth up to \<open>2\<close> the rounding keeps the order.\<close>

lemma round64_thousandths_mono:
  assumes "n \<le> k" "0 \<le> k" "k \<le> 2000"
  shows "round64 (real_of_int n / 1000) \<le> round64 (real_of_int k / 1000)"
proof -
  define a where "a = real_of_int n / 1000"
  define b where "b = real_of_int k / 1000"
  have b0: "0 \<le> b" and b2: "b \<le> 2" using assms by (simp_all add: b_def)
  have rb: "b - b / 2 ^ 53 \<le> round64 b" using b0 by (rule round64_lower)
  consider "n = k" | "n < 0" | "0 \<le> n" "n < k" using assms by linarith
  then have "round64 a \<le> round64 b"
  proof cases
    case 1
    then show ?thesis by (simp add: a_def b_def)
  next
    case 2
    then have "a \<le> 0" by (simp add: a_def)
    then have "round64 a \<le> 0" by (rule round64_nonpos)
    moreover have "0 \<le> round64 b" using b0 by (rule round64_nonneg)
    ultimately show ?thesis by simp
  next
    case 3
    then have a0: "0 \<le> a" by (simp add: a_def)
    have "n + 1 \<le> k" using 3 by simp
    then have "real_of_int n + 1 \<le> real_of_int k" by linarith
    then have d: "a + 1 / 1000 \<le> b" by (simp add: a_def b_def)
    have ra: "round64 a \<le> a + a / 2 ^ 53" using a0 by (rule round64_upper)
    from ra rb d b2 a0 show ?thesis by simp
  qed
  then show ?thesis by (simp only: a_def b_def)
qed

lemma toFixed3_nonneg_lt:
  assumes "0 \<le> x" "x * 1000 < real_of_int k + 1 / 2"
  shows "\<exists>n. toFixed3 x = real_of_int n / 1000 \<and> 0 \<le> n \<and> n \<le> k"
proof -
  define n where "n = \<lfloor>x * 1000 + 1 / 2\<rfloor>"
  have "x * 1000 + 1 / 2 < real_of_int (k + 1)" using assms(2) by simp
  then have "n < k + 1" unfolding n_def by (simp only: floor_less_iff)
  then have a: "n \<le> k" by simp
  have "0 \<le> x * 1000 + 1 / 2" using assms(1) by simp
  then have b: "0 \<le> n" unfolding n_def by simp
  have c: "toFixed3 x = real_of_int n / 1000"
    using assms(1) by (simp add: toFixed3_def n_def)
  from a b c show ?thesis by blast
qed

lemma numberToFixed3_minus: "numberToFixed3 (- x) = - numberToFixed3 x"
  by (simp add: numberToFixed3_def toFixed3_minus round64_minus)

lemma numberToFixed3_nonneg: "0 \<le> x \<Longrightarrow> 0 \<le> numberToFixed3 x"
proof -
  assume x: "0 \<le> x"
  have "x \<le> real_of_int \<lceil>x * 1000\<rceil> / 1000" by (simp add: le_divide_eq)
  from toFixed3_nonneg_le[OF x this] show ?thesis
    by (simp add: numberToFixed3_def round64_nonneg)
qed

lemma numberToFixed3_le:
  assumes "0 \<le> k" "k \<le> 2000" "x * 1000 < real_of_int k + 1 / 2"
  shows "numberToFixed3 x \<le> round64 (real_of_int k / 1000)"
proof (cases "0 \<le> x")
  case True
  from toFixed3_nonneg_lt[OF True assms(3)] obtain n where
    n: "toFixed3 x = real_of_int n / 1000" "n \<le> k" by blast
  show ?thesis unfolding numberToFixed3_def n(1)
    using n(2) assms(1,2) by (rule round64_thousandths_mono)
next
  case False
  then have "0 \<le> numberToFixed3 (- x)" by (intro numberToFixed3_nonneg) simp
  then have "numberToFixed3 x \<le> 0" by (simp add: numberToFixed3_minus)
  moreover have "0 \<le> round64 (real_of_int k / 1000)"
    using assms(1) by (intro round64_nonneg) simp
  ultimately show ?thesis by simp
qed

lemma round64_one: "round64 1 = 1"
  by (simp add: round64_eval)

lemma round64_tenth: "round64 0.1 = 3602879701896397 / 36028797018963968"
  by (simp add: round64_eval)

lemma numberToFixed3_unit:
  assumes "- 1 \<le> x" "x \<le> 1"
  shows "- 1 \<le> numberToFixed3 x \<and> numberToFixed3 x \<le> 1"
proof -
  have "numberToFixed3 x \<le> round64 (real_of_int 1000 / 1000)"
    using assms(2) by (intro numberToFixed3_le) simp_all
  moreover have "numberToFixed3 (- x) \<le> round64 (real_of_int 1000 / 1000)"
    using assms(1) by (intro numberToFixed3_le) simp_all
  ultimately show ?thesis by (simp add: numberToFixed3_minus round64_one)
qed

text \<open>A number that is not above the binary64 number \<open>0.1\<close> is rounded to three decimals
  to a number that is not above it.\<close>

lemma numberToFixed3_le_tenth:
  assumes "x \<le> round64 0.1"
  shows "numberToFixed3 x \<le> round64 0.1"
proof -
  have "numberToFixed3 x \<le> round64 (real_of_int 100 / 1000)"
    using assms by (intro numberToFixed3_le) (simp_all add: round64_tenth)
  then show ?thesis by simp
qed

lemma numberToFixed3_ge_minus_tenth:
  assumes "- round64 0.1 \<le> x"
  shows "- round64 0.1 \<le> numberToFixed3 x"
proof -
  have "numberToFixed3 (- x) \<le> round64 0.1" using assms by (intro numberToFixed3_le_tenth) simp
  then show ?thesis by (simp add: numberToFixed3_minus)
qed

subsection \<open>Strings\<close>

text \<open>A form of \<open>toLowerChar\<close> that decides first whether the character is an upper-case
  letter; it keeps the evaluation of lower-case text short.\<close>

lemma toLowerChar_eval:
  "toLowerChar c =
     (if c \<in> set upperLetters then the (map_of (zip upperLetters lowerLetters) c) else c)"
proof -
  have "length upperLetters = length lowerLetters"
    by (simp add: upperLetters_def lowerLetters_def)
  then have "map fst (zip upperLetters lowerLetters) = upperLetters"
    by (rule map_fst_zip)
  then have dom: "fst ` set (zip upperLetters lowerLetters) = set upperLetters"
    by (metis set_map)
  show ?thesis
  proof (cases "map_of (zip upperLetters lowerLetters) c")
    case None
    then have "c \<notin> set upperLetters" using dom by (simp add: map_of_eq_None_iff)
    with None show ?thesis by (simp add: toLowerChar_def)
  next
    case (Some l)
    then have "c \<in> set upperLetters"
      using dom map_of_eq_None_iff[of "zip upperLetters lowerLetters" c] by auto
    with Some show ?thesis by (simp add: toLowerChar_def)
  qed
qed

lemmas string_eval = toLowerCase_def toLowerChar_eval upperLetters_def lowerLetters_def

section \<open>Sentiment analysis\<close>

subsection \<open>The loop body, case by case\<close>

lemma orElse_nonzero: "dflt \<noteq> 0 \<Longrightarrow> orElse v dflt \<noteq> 0"
  by (simp add: orElse_def split: option.splits)

lemma isNegatedAt_iff:
  "isNegatedAt d lowerWords i = (\<exists>j. j < i \<and> i \<le> j + 2 \<and> lowerWords ! j \<in> negatorSet d)"
proof -
  have "(j \<in> set [i - 2..<i]) = (j < i \<and> i \<le> j + 2)" for j by auto
  then show ?thesis unfolding isNegatedAt_def list_ex_iff by blast
qed

lemma isNegatedAt_eval:
  "isNegatedAt d lowerWords i =
     ((1 \<le> i \<and> lowerWords ! (i - 1) \<in> negatorSet d) \<or>
      (2 \<le> i \<and> lowerWords ! (i - 2) \<in> negatorSet d))"
proof -
  have "(\<exists>j. j < i \<and> i \<le> j + 2 \<and> lowerWords ! j \<in> negatorSet d) =
        ((1 \<le> i \<and> lowerWords ! (i - 1) \<in> negatorSet d) \<or>
         (2 \<le> i \<and> lowerWords ! (i - 2) \<in> negatorSet d))"
  proof
    assume "\<exists>j. j < i \<and> i \<le> j + 2 \<and> lowerWords ! j \<in> negatorSet d"
    then obtain j where j: "j < i" "i \<le> j + 2" "lowerWords ! j \<in> negatorSet d" by blast
    then have "j = i - 1 \<or> j = i - 2" by arith
    with j show "(1 \<le> i \<and> lowerWords ! (i - 1) \<in> negatorSet d) \<or>
         (2 \<le> i \<and> lowerWords ! (i - 2) \<in> negatorSet d)"
      by (cases "j = i - 1") auto
  next
    assume a: "(1 \<le> i \<and> lowerWords ! (i - 1) \<in> negatorSet d) \<or>
         (2 \<le> i \<and> lowerWords ! (i - 2) \<in> negatorSet d)"
    then show "\<exists>j. j < i \<and> i \<le> j + 2 \<and> lowerWords ! j \<in> negatorSet d"
    proof
      assume "1 \<le> i \<and> lowerWords ! (i - 1) \<in> negatorSet d"
      then show ?thesis by (intro exI[of _ "i - 1"]) auto
    next
      assume "2 \<le> i \<and> lowerWords ! (i - 2) \<in> negatorSet d"
      then show ?thesis by (intro exI[of _ "i - 2"]) auto
    qed
  qed
  then show ?thesis by (simp add: isNegatedAt_iff)
qed

lemma analyzeWord_skip:
  assumes "lowerWords ! i \<in> intensifierSet d \<or> lowerWords ! i \<in> negatorSet d"
  shows "analyzeWord d lowerWords i st =
     st\<lparr>breakdownAcc := (breakdownAcc st)
        \<lparr>intensifiers := intensifiers (breakdownAcc st) @
            (if lowerWords ! i \<in> intensifierSet d then [lowerWords ! i] else []),
         negators := negators (breakdownAcc st) @
            (if lowerWords ! i \<in> intensifierSet d then [] else [lowerWords ! i])\<rparr>\<rparr>"
  using assms by (auto simp: analyzeWord_def Let_def)

lemma analyzeWord_scored:
  assumes "scoredWord d (lowerWords ! i)"
  shows "analyzeWord d lowerWords i st =
     \<lparr>breakdownAcc = (breakdownAcc st)
        \<lparr>positiveWords := positiveWords (breakdownAcc st) @
            (if lowerWords ! i \<in> positiveWordSet d then [lowerWords ! i] else []),
         negativeWords := negativeWords (breakdownAcc st) @
            (if lowerWords ! i \<in> positiveWordSet d then [] else [lowerWords ! i])\<rparr>,
      totalScore = round64 (totalScore st +
        round64 ((if isNegatedAt d lowerWords i
                  then round64 (- baseScore d (lowerWords ! i) * round64 0.8)
                  else baseScore d (lowerWords ! i)) *
          intensityMultiplier d (prevWordAt lowerWords i) (nextWordAt lowerWords i))),
      sentimentWords = sentimentWords st + 1\<rparr>"
proof -
  have z: "round64 (2 / 5) \<noteq> 0" by (simp add: round64_eq_0_iff)
  show ?thesis
    using assms
    by (auto simp: analyzeWord_def Let_def scoredWord_def baseScore_def orElse_nonzero z)
qed

lemma analyzeWord_other:
  assumes "lowerWords ! i \<notin> intensifierSet d" "lowerWords ! i \<notin> negatorSet d"
    "lowerWords ! i \<notin> positiveWordSet d" "lowerWords ! i \<notin> negativeWordSet d"
  shows "analyzeWord d lowerWords i st = st"
  using assms by (simp add: analyzeWord_def Let_def)

lemma analyzeWord_step_cases:
  "lowerWords ! i \<in> intensifierSet d \<or> lowerWords ! i \<in> negatorSet d \<or>
   scoredWord d (lowerWords ! i) \<or>
   (lowerWords ! i \<notin> intensifierSet d \<and> lowerWords ! i \<notin> negatorSet d \<and>
    lowerWords ! i \<notin> positiveWordSet d \<and> lowerWords ! i \<notin> negativeWordSet d)"
  by (auto simp: scoredWord_def)

subsection \<open>The breakdown the loop builds\<close>

lemma loop_breakdown_prefix:
  "k \<le> length lowerWords \<Longrightarrow>
   breakdownAcc (fold (analyzeWord d lowerWords) [0..<k] initialLoopState) =
     \<lparr>positiveWords = filter (\<lambda>w. scoredWord d w \<and> w \<in> positiveWordSet d) (take k lowerWords),
      negativeWords = filter (\<lambda>w. scoredWord d w \<and> w \<notin> positiveWordSet d) (take k lowerWords),
      intensifiers = filter (\<lambda>w. w \<in> intensifierSet d) (take k lowerWords),
      negators = filter (\<lambda>w. w \<notin> intensifierSet d \<and> w \<in> negatorSet d) (take k lowerWords)\<rparr>"
proof (induction k)
  case 0
  show ?case by (simp add: initialLoopState_def emptyBreakdown_def)
next
  case (Suc k)
  then have k: "k < length lowerWords" and
    ih: "breakdownAcc (fold (analyzeWord d lowerWords) [0..<k] initialLoopState) =
     \<lparr>positiveWords = filter (\<lambda>w. scoredWord d w \<and> w \<in> positiveWordSet d) (take k lowerWords),
      negativeWords = filter (\<lambda>w. scoredWord d w \<and> w \<notin> positiveWordSet d) (take k lowerWords),
      intensifiers = filter (\<lambda>w. w \<in> intensifierSet d) (take k lowerWords),
      negators = filter (\<lambda>w. w \<notin> intensifierSet d \<and> w \<in> negatorSet d) (take k lowerWords)\<rparr>"
    by simp_all
  have t: "take (Suc k) lowerWords = take k lowerWords @ [lowerWords ! k]"
    using k by (simp add: take_Suc_conv_app_nth)
  consider (skip) "lowerWords ! k \<in> intensifierSet d \<or> lowerWords ! k \<in> negatorSet d"
    | (scored) "scoredWord d (lowerWords ! k)"
    | (other) "lowerWords ! k \<notin> intensifierSet d" "lowerWords ! k \<notin> negatorSet d"
        "lowerWords ! k \<notin> positiveWordSet d" "lowerWords ! k \<notin> negativeWordSet d"
    using analyzeWord_step_cases[of lowerWords k d] by blast
  then show ?case
  proof cases
    case skip
    then show ?thesis
      by (auto simp: t ih analyzeWord_skip scoredWord_def)
  next
    case scored
    then have "lowerWords ! k \<notin> intensifierSet d" "lowerWords ! k \<notin> negatorSet d"
      by (simp_all add: scoredWord_def)
    with scored show ?thesis
      by (auto simp: t ih analyzeWord_scored)
  next
    case other
    then show ?thesis
      by (auto simp: t ih analyzeWord_other scoredWord_def)
  qed
qed

lemma analyze_breakdown:
  "breakdown (analyze d text words) =
     \<lparr>positiveWords =
        filter (\<lambda>w. scoredWord d w \<and> w \<in> positiveWordSet d) (map toLowerCase words),
      negativeWords =
        filter (\<lambda>w. scoredWord d w \<and> w \<notin> positiveWordSet d) (map toLowerCase words),
      intensifiers = filter (\<lambda>w. w \<in> intensifierSet d) (map toLowerCase words),
      negators =
        filter (\<lambda>w. w \<notin> intensifierSet d \<and> w \<in> negatorSet d) (map toLowerCase words)\<rparr>"
  using loop_breakdown_prefix[of "length (map toLowerCase words)" "map toLowerCase words" d]
  by (simp add: analyze_def sentimentLoop_def Let_def)

subsection \<open>The built-in dictionaries\<close>

lemma init_sets:
  "positiveWordSet initializeDictionaries = set positiveWordsList"
  "negativeWordSet initializeDictionaries = set negativeWordsList"
  "intensifierSet initializeDictionaries = set intensifiersList"
  "negatorSet initializeDictionaries = set negatorsList"
  by (simp_all add: initializeDictionaries_def)

lemma fold_upd_lookup_if:
  "fold (\<lambda>word m. m(word \<mapsto> f word)) xs Map.empty w =
     (if w \<in> set xs then Some (f w) else None)"
  by (induction xs rule: rev_induct) auto

lemma init_scores:
  "positiveScores initializeDictionaries w =
     (if w \<in> set positiveWordsList then Some (positiveTier w) else None)"
  "negativeScores initializeDictionaries w =
     (if w \<in> set negativeWordsList then Some (negativeTier w) else None)"
  by (simp_all add: initializeDictionaries_def fold_upd_lookup_if)

lemma tier_nonzero: "positiveTier w \<noteq> 0" "negativeTier w \<noteq> 0"
  by (simp_all add: positiveTier_def negativeTier_def round64_eq_0_iff)

lemma baseScore_init:
  "baseScore initializeDictionaries w =
     (if w \<in> set positiveWordsList then positiveTier w
      else if w \<in> set negativeWordsList then negativeTier w else 0)"
  by (simp add: baseScore_def init_sets init_scores orElse_def tier_nonzero)




text \<open>The loop body on the built-in dictionaries, as one chain of tests: each test is
  evaluated once when the body is run on a concrete token.\<close>

lemma analyzeWord_init_eval:
  "analyzeWord initializeDictionaries lowerWords i st =
     (if lowerWords ! i \<in> set intensifiersList then
        st\<lparr>breakdownAcc := (breakdownAcc st)
            \<lparr>intensifiers := intensifiers (breakdownAcc st) @ [lowerWords ! i]\<rparr>\<rparr>
      else if lowerWords ! i \<in> set negatorsList then
        st\<lparr>breakdownAcc := (breakdownAcc st)
            \<lparr>negators := negators (breakdownAcc st) @ [lowerWords ! i]\<rparr>\<rparr>
      else if lowerWords ! i \<in> set positiveWordsList then
        \<lparr>breakdownAcc = (breakdownAcc st)
            \<lparr>positiveWords := positiveWords (breakdownAcc st) @ [lowerWords ! i]\<rparr>,
         totalScore = round64 (totalScore st +
           round64 ((if isNegatedAt initializeDictionaries lowerWords i
                     then round64 (- positiveTier (lowerWords ! i) * round64 0.8)
                     else positiveTier (lowerWords ! i)) *
             intensityMultiplier initializeDictionaries
               (prevWordAt lowerWords i) (nextWordAt lowerWords i))),
         sentimentWords = sentimentWords st + 1\<rparr>
      else if lowerWords ! i \<in> set negativeWordsList then
        \<lparr>breakdownAcc = (breakdownAcc st)
            \<lparr>negativeWords := negativeWords (breakdownAcc st) @ [lowerWords ! i]\<rparr>,
         totalScore = round64 (totalScore st +
           round64 ((if isNegatedAt initializeDictionaries lowerWords i
                     then round64 (- negativeTier (lowerWords ! i) * round64 0.8)
                     else negativeTier (lowerWords ! i)) *
             intensityMultiplier initializeDictionaries
               (prevWordAt lowerWords i) (nextWordAt lowerWords i))),
         sentimentWords = sentimentWords st + 1\<rparr>
      else st)"
  by (simp add: analyzeWord_def Let_def init_sets init_scores orElse_def tier_nonzero)

lemmas loop_eval =
  sentimentLoop_def analyzeWord_init_eval prevWordAt_def nextWordAt_def isNegatedAt_eval
  intensityMultiplier_def positiveTier_def negativeTier_def positiveWordsList_def
  negativeWordsList_def intensifiersList_def negatorsList_def initialLoopState_def
  emptyBreakdown_def init_sets upt_rec Let_def

subsection \<open>One scored word, alone and after an intensifier\<close>








lemma intensityMultiplier_cases:
  "intensityMultiplier d prevWord nextWord =
     (if prevWord \<in> intensifierSet d then round64 1.3
      else if nextWord \<in> intensifierSet d then round64 1.2 else 1)"
proof -
  have "max (round64 1.3) (round64 1.2) = round64 1.3" "max 1 (round64 1.2) = round64 1.2"
    by (simp_all add: round64_eval)
  then show ?thesis by (simp add: intensityMultiplier_def Let_def)
qed

subsection \<open>Ranges of the result\<close>

lemma normalizedScore_unit: "- 1 \<le> normalizedScore st \<and> normalizedScore st \<le> 1"
  by (simp add: normalizedScore_def Let_def)

lemma round64_095: "round64 0.95 = 4278419646001971 / 4503599627370496"
  by (simp add: round64_eval)

lemma confidenceOf_range: "0 \<le> confidenceOf st n \<and> confidenceOf st n \<le> round64 0.95"
proof -
  define wd where "wd = round64 (real (sentimentWords st) / real (max 1 n))"
  define cf where
    "cf = (if sentimentWords st > 0
           then round64 (\<bar>totalScore st\<bar> / real (sentimentWords st)) else 0)"
  have "0 \<le> wd" unfolding wd_def by (intro round64_nonneg) simp
  then have a: "0 \<le> round64 (wd * 2)" by (intro round64_nonneg) simp
  have "0 \<le> cf" unfolding cf_def by (simp add: round64_nonneg)
  moreover have "0 \<le> round64 0.5" by (intro round64_nonneg) simp
  ultimately have b: "0 \<le> round64 (cf * round64 0.5)" by (intro round64_nonneg) simp
  from a b have "0 \<le> round64 (round64 (wd * 2) + round64 (cf * round64 0.5))"
    by (intro round64_nonneg) simp
  moreover have "0 \<le> round64 0.95" by (intro round64_nonneg) simp
  ultimately have
    "0 \<le> min (round64 0.95) (round64 (round64 (wd * 2) + round64 (cf * round64 0.5))) \<and>
     min (round64 0.95) (round64 (round64 (wd * 2) + round64 (cf * round64 0.5))) \<le> round64 0.95"
    by (simp add: min_def)
  then show ?thesis unfolding confidenceOf_def Let_def wd_def cf_def .
qed

lemma confidence_unit:
  "0 \<le> numberToFixed3 (confidenceOf st n) \<and> numberToFixed3 (confidenceOf st n) \<le> 1"
proof -
  have c: "0 \<le> confidenceOf st n" "confidenceOf st n \<le> 4278419646001971 / 4503599627370496"
    using confidenceOf_range[of st n] unfolding round64_095 by blast+
  have "numberToFixed3 (confidenceOf st n) \<le> round64 (real_of_int 950 / 1000)"
    using c(2) by (intro numberToFixed3_le) simp_all
  moreover have "round64 (real_of_int 950 / 1000) \<le> 1" by (simp add: round64_eval)
  ultimately have "numberToFixed3 (confidenceOf st n) \<le> 1" by linarith
  with numberToFixed3_nonneg[OF c(1)] show ?thesis by simp
qed

subsection \<open>Evaluated runs\<close>

lemmas run_eval = loop_eval round64_eval

lemma lower_not_happy:
  "map toLowerCase [''I'', ''am'', ''not'', ''happy''] = [''i'', ''am'', ''not'', ''happy'']"
  by (simp add: string_eval)

lemma loop_not_happy:
  "sentimentLoop initializeDictionaries [''i'', ''am'', ''not'', ''happy''] =
     \<lparr>breakdownAcc = \<lparr>positiveWords = [''happy''], negativeWords = [], intensifiers = [],
                       negators = [''not'']\<rparr>,
      totalScore = round64 (- 0.48), sentimentWords = 1\<rparr>"
  by (simp add: run_eval)

lemma analyze_not_happy:
  "score (analyze initializeDictionaries text [''I'', ''am'', ''not'', ''happy'']) =
     round64 (- 0.48)"
  "label (analyze initializeDictionaries text [''I'', ''am'', ''not'', ''happy'']) = Negative"
  unfolding analyze_def lower_not_happy loop_not_happy Let_def
  by (simp_all add: normalizedScore_def labelOf_def numberToFixed3_def toFixed3_def
      round64_eval)

lemma lower_eleven:
  "map toLowerCase
     [''not'', ''tired'', ''very'', ''proud'', ''calm'', ''fit'', ''awful'', ''strong'',
      ''sick'', ''lucky'', ''weak''] =
     [''not'', ''tired'', ''very'', ''proud'', ''calm'', ''fit'', ''awful'', ''strong'',
      ''sick'', ''lucky'', ''weak'']"
  by (simp add: string_eval)

lemma loop_eleven:
  "sentimentLoop initializeDictionaries
     [''not'', ''tired'', ''very'', ''proud'', ''calm'', ''fit'', ''awful'', ''strong'',
      ''sick'', ''lucky'', ''weak''] =
     \<lparr>breakdownAcc =
        \<lparr>positiveWords = [''proud'', ''calm'', ''fit'', ''strong'', ''lucky''],
         negativeWords = [''tired'', ''awful'', ''sick'', ''weak''],
         intensifiers = [''very''], negators = [''not'']\<rparr>,
      totalScore = 8142508126285859 / 9007199254740992, sentimentWords = 9\<rparr>"
  by (simp add: run_eval)







subsection \<open>The claims about sentiment analysis\<close>

text \<open>
  C5, as amended. For every dictionary, text and token list the returned score lies in
  \<open>[-1, 1]\<close> and the returned confidence in \<open>[0, 1]\<close>. The label is fixed by the
  thresholds \<open>> 0.1\<close> (positive) and \<open>< -0.1\<close> (negative) applied to the clamped
  average before it is rounded to three decimals, and the returned score is that value
  rounded to three decimals. Hence a returned score above \<open>0.1\<close> carries the label
  positive, one below \<open>-0.1\<close> the label negative, and a neutral label comes with a
  returned score in \<open>[-0.1, 0.1]\<close>. The numbers are binary64 and \<open>0.1\<close> is the binary64
  number of that literal.
\<close>

theorem sentiment_score_confidence_label:
  "- 1 \<le> score (analyze d text words) \<and> score (analyze d text words) \<le> 1 \<and>
   0 \<le> confidence (analyze d text words) \<and> confidence (analyze d text words) \<le> 1 \<and>
   score (analyze d text words) =
     numberToFixed3 (normalizedScore (sentimentLoop d (map toLowerCase words))) \<and>
   label (analyze d text words) =
     (let s = normalizedScore (sentimentLoop d (map toLowerCase words))
      in if s > round64 0.1 then Positive else if s < - round64 0.1 then Negative
         else Neutral) \<and>
   (score (analyze d text words) > round64 0.1 \<longrightarrow>
      label (analyze d text words) = Positive) \<and>
   (score (analyze d text words) < - round64 0.1 \<longrightarrow>
      label (analyze d text words) = Negative) \<and>
   (label (analyze d text words) = Neutral \<longrightarrow>
      - round64 0.1 \<le> score (analyze d text words) \<and>
      score (analyze d text words) \<le> round64 0.1)"
proof -
  define st where "st = sentimentLoop d (map toLowerCase words)"
  define s where "s = normalizedScore st"
  define c where "c = round64 0.1"
  have sc: "score (analyze d text words) = numberToFixed3 s"
    and cf: "confidence (analyze d text words) =
             numberToFixed3 (confidenceOf st (length words))"
    and lb: "label (analyze d text words) = labelOf s"
    by (simp_all add: analyze_def Let_def st_def s_def)
  have u: "- 1 \<le> s" "s \<le> 1" unfolding s_def using normalizedScore_unit[of st] by blast+
  have b1: "- 1 \<le> numberToFixed3 s \<and> numberToFixed3 s \<le> 1"
    using u by (rule numberToFixed3_unit)
  have b2: "0 \<le> numberToFixed3 (confidenceOf st (length words)) \<and>
            numberToFixed3 (confidenceOf st (length words)) \<le> 1"
    by (rule confidence_unit)
  have c0: "0 \<le> c" unfolding c_def by (intro round64_nonneg) simp
  have up: "s \<le> c \<Longrightarrow> numberToFixed3 s \<le> c"
    unfolding c_def by (rule numberToFixed3_le_tenth)
  have lo: "- c \<le> s \<Longrightarrow> - c \<le> numberToFixed3 s"
    unfolding c_def by (rule numberToFixed3_ge_minus_tenth)
  have l: "labelOf s = (if s > c then Positive else if s < - c then Negative else Neutral)"
    by (simp add: labelOf_def c_def)
  have p: "numberToFixed3 s > c \<longrightarrow> labelOf s = Positive"
  proof
    assume "numberToFixed3 s > c"
    then have "\<not> s \<le> c" using up by fastforce
    then show "labelOf s = Positive" by (simp add: l)
  qed
  have n: "numberToFixed3 s < - c \<longrightarrow> labelOf s = Negative"
  proof
    assume a: "numberToFixed3 s < - c"
    then have "\<not> - c \<le> s" using lo by fastforce
    then have "s < - c" by simp
    moreover from this c0 have "\<not> s > c" by simp
    ultimately show "labelOf s = Negative" by (simp add: l)
  qed
  have z: "labelOf s = Neutral \<longrightarrow> - c \<le> numberToFixed3 s \<and> numberToFixed3 s \<le> c"
  proof
    assume "labelOf s = Neutral"
    then have "s \<le> c" "- c \<le> s" by (simp_all add: l split: if_splits)
    then show "- c \<le> numberToFixed3 s \<and> numberToFixed3 s \<le> c" using up lo by blast
  qed
  show ?thesis
    unfolding sc cf lb Let_def st_def[symmetric] s_def[symmetric] c_def[symmetric]
    using b1 b2 p n z l by blast
qed

theorem sentiment_score_confidence_label_witness:
  "label (analyze initializeDictionaries [] [''I'', ''am'', ''not'', ''happy'']) = Negative \<and>
   score (analyze initializeDictionaries [] [''I'', ''am'', ''not'', ''happy'']) =
     round64 (- 0.48)"
proof -
  let ?r = "analyze initializeDictionaries [] [''I'', ''am'', ''not'', ''happy'']"
  have "score ?r < - round64 0.1 \<longrightarrow> label ?r = Negative"
    using sentiment_score_confidence_label
      [of initializeDictionaries "[]" "[''I'', ''am'', ''not'', ''happy'']"]
    by blast
  moreover have "round64 (- 0.48) < - round64 0.1" by (simp add: round64_eval)
  ultimately show ?thesis by (simp add: analyze_not_happy(1))
qed

text \<open>
  C5 as stated fails on the returned values: on the eleven tokens below nine words are
  scored, their sum is \<open>0.904...\<close>, the average \<open>0.10044...\<close> is above the threshold, so
  the label is positive, and the returned score is the average rounded to three decimals,
  \<open>0.1\<close>, which is not above \<open>0.1\<close>.
\<close>

theorem label_not_threshold_of_returned_score:
  "label (analyze initializeDictionaries []
      [''not'', ''tired'', ''very'', ''proud'', ''calm'', ''fit'', ''awful'', ''strong'',
       ''sick'', ''lucky'', ''weak'']) = Positive \<and>
   score (analyze initializeDictionaries []
      [''not'', ''tired'', ''very'', ''proud'', ''calm'', ''fit'', ''awful'', ''strong'',
       ''sick'', ''lucky'', ''weak'']) = round64 0.1 \<and>
   \<not> score (analyze initializeDictionaries []
      [''not'', ''tired'', ''very'', ''proud'', ''calm'', ''fit'', ''awful'', ''strong'',
       ''sick'', ''lucky'', ''weak'']) > round64 0.1"
  unfolding analyze_def lower_eleven loop_eleven Let_def
  by (simp add: normalizedScore_def labelOf_def numberToFixed3_def toFixed3_def round64_eval)

text \<open>
  C6, as amended. If a token of the positive or negative vocabulary that is not itself an
  intensifier or a negator has a negator among the up to two tokens before it, the loop
  adds to the accumulated score its base score with the sign flipped and damped by
  \<open>0.8\<close>, times the intensifier multiplier. On the tokens of "I am not happy" the
  returned score is \<open>-0.48\<close>, which is at most \<open>0\<close>.
\<close>

theorem negated_word_contribution:
  "(scoredWord d (lowerWords ! i) \<and>
    (\<exists>j. j < i \<and> i \<le> j + 2 \<and> lowerWords ! j \<in> negatorSet d) \<longrightarrow>
      totalScore (analyzeWord d lowerWords i st) =
        round64 (totalScore st +
          round64 (round64 (- baseScore d (lowerWords ! i) * round64 0.8) *
            intensityMultiplier d (prevWordAt lowerWords i) (nextWordAt lowerWords i)))) \<and>
   score (analyze initializeDictionaries text [''I'', ''am'', ''not'', ''happy'']) =
     round64 (- 0.48) \<and>
   score (analyze initializeDictionaries text [''I'', ''am'', ''not'', ''happy'']) \<le> 0"
proof -
  have "totalScore (analyzeWord d lowerWords i st) =
        round64 (totalScore st +
          round64 (round64 (- baseScore d (lowerWords ! i) * round64 0.8) *
            intensityMultiplier d (prevWordAt lowerWords i) (nextWordAt lowerWords i)))"
    if s: "scoredWord d (lowerWords ! i)"
      and n: "\<exists>j. j < i \<and> i \<le> j + 2 \<and> lowerWords ! j \<in> negatorSet d"
  proof -
    from n have "isNegatedAt d lowerWords i" by (simp add: isNegatedAt_iff)
    then show ?thesis by (simp add: analyzeWord_scored[OF s])
  qed
  moreover have
    "score (analyze initializeDictionaries text [''I'', ''am'', ''not'', ''happy'']) =
       round64 (- 0.48)"
    by (rule analyze_not_happy(1))
  moreover have "round64 (- 0.48) \<le> 0" by (intro round64_nonpos) simp
  ultimately show ?thesis by simp
qed

theorem negated_word_contribution_witness:
  "totalScore (analyzeWord initializeDictionaries [''i'', ''am'', ''not'', ''happy''] 3
      initialLoopState) = round64 (- 0.48)"
proof -
  let ?lw = "[''i'', ''am'', ''not'', ''happy'']"
  have s: "scoredWord initializeDictionaries (?lw ! 3)"
    by (simp add: scoredWord_def init_sets positiveWordsList_def intensifiersList_def
        negatorsList_def)
  have "(2::nat) < 3 \<and> (3::nat) \<le> 2 + 2 \<and> ?lw ! 2 \<in> negatorSet initializeDictionaries"
    by (simp add: init_sets negatorsList_def)
  then have n: "\<exists>j. j < 3 \<and> 3 \<le> j + 2 \<and> ?lw ! j \<in> negatorSet initializeDictionaries"
    by blast
  have b: "baseScore initializeDictionaries ''happy'' = round64 0.6"
    by (simp add: baseScore_init positiveWordsList_def positiveTier_def)
  have m: "intensityMultiplier initializeDictionaries (prevWordAt ?lw 3) (nextWordAt ?lw 3) = 1"
    by (simp add: intensityMultiplier_cases prevWordAt_def nextWordAt_def init_sets
        intensifiersList_def)
  have "totalScore (analyzeWord initializeDictionaries ?lw 3 initialLoopState) =
        round64 (totalScore initialLoopState +
          round64 (round64 (- baseScore initializeDictionaries (?lw ! 3) * round64 0.8) *
            intensityMultiplier initializeDictionaries (prevWordAt ?lw 3) (nextWordAt ?lw 3)))"
    using negated_word_contribution[of initializeDictionaries ?lw 3 initialLoopState] s n
    by blast
  then show ?thesis by (simp add: b m initialLoopState_def round64_eval)
qed

text \<open>
  C6 as stated fails for a token that is in the negative vocabulary and is also a
  negator: in "not stop" the token "stop" has the negator "not" before it, its base score
  is \<open>-0.4\<close>, so the claim gives the contribution \<open>0.4 * 0.8\<close>, in binary64
  \<open>0.32000000000000006\<close>, and the loop adds nothing.
\<close>

theorem negated_negator_token_contributes_nothing:
  "''stop'' \<in> negativeWordSet initializeDictionaries \<and>
   [''not'', ''stop''] ! 0 \<in> negatorSet initializeDictionaries \<and>
   totalScore (analyzeWord initializeDictionaries [''not'', ''stop''] 1 initialLoopState) = 0 \<and>
   round64 (totalScore initialLoopState +
     round64 (round64 (- baseScore initializeDictionaries ([''not'', ''stop''] ! 1) *
                         round64 0.8) *
       intensityMultiplier initializeDictionaries
         (prevWordAt [''not'', ''stop''] 1) (nextWordAt [''not'', ''stop''] 1))) =
     round64 (round64 0.4 * round64 0.8) \<and>
   round64 (round64 0.4 * round64 0.8) > 0.32"
proof -
  have a: "''stop'' \<in> negativeWordSet initializeDictionaries"
    by (simp add: init_sets negativeWordsList_def)
  have b: "[''not'', ''stop''] ! 0 \<in> negatorSet initializeDictionaries"
    by (simp add: init_sets negatorsList_def)
  have c: "totalScore (analyzeWord initializeDictionaries [''not'', ''stop''] 1 initialLoopState)
      = 0"
    by (simp add: analyzeWord_init_eval intensifiersList_def negatorsList_def
        initialLoopState_def)
  have f: "round64 (totalScore initialLoopState +
     round64 (round64 (- baseScore initializeDictionaries ([''not'', ''stop''] ! 1) *
                         round64 0.8) *
       intensityMultiplier initializeDictionaries
         (prevWordAt [''not'', ''stop''] 1) (nextWordAt [''not'', ''stop''] 1))) =
     round64 (round64 0.4 * round64 0.8)"
    by (simp add: intensityMultiplier_cases prevWordAt_def nextWordAt_def init_sets
        intensifiersList_def baseScore_init positiveWordsList_def negativeWordsList_def
        negativeTier_def initialLoopState_def round64_eval)
  have g: "round64 (round64 0.4 * round64 0.8) > 0.32" by (simp add: round64_eval)
  from a b c f g show ?thesis by blast
qed




text \<open>
  C10. A token that is an intensifier or a negator leaves the accumulated score, the
  counter of sentiment words and the lists of positive and negative words as they were,
  and is appended to the intensifiers (when it is an intensifier) or else to the
  negators. So in every result the positive and negative word lists hold no intensifier
  and no negator, and the intensifier and negator lists hold every such token. In the
  built-in dictionaries "pretty" is both a positive word and an intensifier, and "stop",
  "avoid", "prevent" and "missing" are both negative words and negators.
\<close>

theorem intensifier_or_negator_never_scored:
  "(lowerWords ! i \<in> intensifierSet d \<or> lowerWords ! i \<in> negatorSet d \<longrightarrow>
      totalScore (analyzeWord d lowerWords i st) = totalScore st \<and>
      sentimentWords (analyzeWord d lowerWords i st) = sentimentWords st \<and>
      positiveWords (breakdownAcc (analyzeWord d lowerWords i st)) =
        positiveWords (breakdownAcc st) \<and>
      negativeWords (breakdownAcc (analyzeWord d lowerWords i st)) =
        negativeWords (breakdownAcc st) \<and>
      intensifiers (breakdownAcc (analyzeWord d lowerWords i st)) =
        intensifiers (breakdownAcc st) @
        (if lowerWords ! i \<in> intensifierSet d then [lowerWords ! i] else []) \<and>
      negators (breakdownAcc (analyzeWord d lowerWords i st)) =
        negators (breakdownAcc st) @
        (if lowerWords ! i \<in> intensifierSet d then [] else [lowerWords ! i])) \<and>
   set (positiveWords (breakdown (analyze d text words))) \<inter>
     (intensifierSet d \<union> negatorSet d) = {} \<and>
   set (negativeWords (breakdown (analyze d text words))) \<inter>
     (intensifierSet d \<union> negatorSet d) = {} \<and>
   intensifiers (breakdown (analyze d text words)) =
     filter (\<lambda>w. w \<in> intensifierSet d) (map toLowerCase words) \<and>
   negators (breakdown (analyze d text words)) =
     filter (\<lambda>w. w \<notin> intensifierSet d \<and> w \<in> negatorSet d) (map toLowerCase words) \<and>
   ''pretty'' \<in> positiveWordSet initializeDictionaries \<inter> intensifierSet initializeDictionaries \<and>
   {''stop'', ''avoid'', ''prevent'', ''missing''} \<subseteq>
     negativeWordSet initializeDictionaries \<inter> negatorSet initializeDictionaries"
proof -
  have step: "lowerWords ! i \<in> intensifierSet d \<or> lowerWords ! i \<in> negatorSet d \<longrightarrow>
      totalScore (analyzeWord d lowerWords i st) = totalScore st \<and>
      sentimentWords (analyzeWord d lowerWords i st) = sentimentWords st \<and>
      positiveWords (breakdownAcc (analyzeWord d lowerWords i st)) =
        positiveWords (breakdownAcc st) \<and>
      negativeWords (breakdownAcc (analyzeWord d lowerWords i st)) =
        negativeWords (breakdownAcc st) \<and>
      intensifiers (breakdownAcc (analyzeWord d lowerWords i st)) =
        intensifiers (breakdownAcc st) @
        (if lowerWords ! i \<in> intensifierSet d then [lowerWords ! i] else []) \<and>
      negators (breakdownAcc (analyzeWord d lowerWords i st)) =
        negators (breakdownAcc st) @
        (if lowerWords ! i \<in> intensifierSet d then [] else [lowerWords ! i])"
    by (auto simp: analyzeWord_skip)
  have pos: "set (positiveWords (breakdown (analyze d text words))) \<inter>
     (intensifierSet d \<union> negatorSet d) = {}"
    by (auto simp: analyze_breakdown scoredWord_def)
  have neg: "set (negativeWords (breakdown (analyze d text words))) \<inter>
     (intensifierSet d \<union> negatorSet d) = {}"
    by (auto simp: analyze_breakdown scoredWord_def)
  have int: "intensifiers (breakdown (analyze d text words)) =
     filter (\<lambda>w. w \<in> intensifierSet d) (map toLowerCase words)"
    by (simp add: analyze_breakdown)
  have ngt: "negators (breakdown (analyze d text words)) =
     filter (\<lambda>w. w \<notin> intensifierSet d \<and> w \<in> negatorSet d) (map toLowerCase words)"
    by (simp add: analyze_breakdown)
  have pr: "''pretty'' \<in> positiveWordSet initializeDictionaries \<inter>
      intensifierSet initializeDictionaries"
    by (simp add: init_sets positiveWordsList_def intensifiersList_def)
  have st: "{''stop'', ''avoid'', ''prevent'', ''missing''} \<subseteq>
     negativeWordSet initializeDictionaries \<inter> negatorSet initializeDictionaries"
    by (simp add: init_sets negativeWordsList_def negatorsList_def)
  from step pos neg int ngt pr st show ?thesis by blast
qed

theorem intensifier_or_negator_never_scored_witness:
  "totalScore (analyzeWord initializeDictionaries [''pretty'', ''stop''] 1 initialLoopState) = 0 \<and>
   sentimentWords (analyzeWord initializeDictionaries [''pretty'', ''stop''] 1 initialLoopState)
     = 0 \<and>
   negators (breakdownAcc
     (analyzeWord initializeDictionaries [''pretty'', ''stop''] 1 initialLoopState)) = [''stop'']"
proof -
  let ?lw = "[''pretty'', ''stop'']"
  have n: "?lw ! 1 \<in> negatorSet initializeDictionaries"
    by (simp add: init_sets negatorsList_def)
  have i: "?lw ! 1 \<notin> intensifierSet initializeDictionaries"
    by (simp add: init_sets intensifiersList_def)
  have "totalScore (analyzeWord initializeDictionaries ?lw 1 initialLoopState) =
          totalScore initialLoopState \<and>
        sentimentWords (analyzeWord initializeDictionaries ?lw 1 initialLoopState) =
          sentimentWords initialLoopState \<and>
        negators (breakdownAcc (analyzeWord initializeDictionaries ?lw 1 initialLoopState)) =
          negators (breakdownAcc initialLoopState) @
          (if ?lw ! 1 \<in> intensifierSet initializeDictionaries then [] else [?lw ! 1])"
    using intensifier_or_negator_never_scored
      [of ?lw 1 initializeDictionaries initialLoopState "[]" "[]"] n
    by blast
  then show ?thesis using i by (simp add: initialLoopState_def emptyBreakdown_def)
qed

section \<open>Topic extraction\<close>

subsection \<open>Sorting, ordered sets and ordered maps\<close>


lemma set_insertSorted: "set (insertSorted cmp x ys) = insert x (set ys)"
  by (induction ys) auto

lemma set_jsSort: "set (jsSort cmp xs) = set xs"
  unfolding jsSort_def by (induction xs) (simp_all add: set_insertSorted)

lemma length_insertSorted: "length (insertSorted cmp x ys) = Suc (length ys)"
  by (induction ys) auto

lemma length_jsSort: "length (jsSort cmp xs) = length xs"
  unfolding jsSort_def by (induction xs) (simp_all add: length_insertSorted)

lemma distinct_insertSorted:
  "distinct (map f (insertSorted cmp x ys)) = (f x \<notin> f ` set ys \<and> distinct (map f ys))"
  by (induction ys) (auto simp: set_insertSorted)

lemma distinct_jsSort: "distinct (map f (jsSort cmp xs)) = distinct (map f xs)"
  unfolding jsSort_def
proof (induction xs)
  case Nil
  show ?case by simp
next
  case (Cons x xs)
  have "set (foldr (insertSorted cmp) xs []) = set xs"
    using set_jsSort[of cmp xs] by (simp add: jsSort_def)
  with Cons show ?case by (simp add: distinct_insertSorted)
qed

lemma sorted_insertSorted:
  assumes tr: "\<And>a b c. cmp a b \<le> 0 \<Longrightarrow> cmp b c \<le> 0 \<Longrightarrow> cmp a c \<le> 0"
    and tot: "\<And>a b. cmp a b \<le> 0 \<or> cmp b a \<le> 0"
  shows "sorted_wrt (\<lambda>a b. cmp a b \<le> 0) ys \<Longrightarrow>
         sorted_wrt (\<lambda>a b. cmp a b \<le> 0) (insertSorted cmp x ys)"
proof (induction ys)
  case Nil
  show ?case by simp
next
  case (Cons y ys)
  show ?case
  proof (cases "cmp x y \<le> 0")
    case True
    then have "\<forall>z\<in>set ys. cmp x z \<le> 0" using Cons.prems tr by auto
    with True Cons.prems show ?thesis by simp
  next
    case False
    then have "cmp y x \<le> 0" using tot by blast
    with False Cons show ?thesis by (auto simp: set_insertSorted)
  qed
qed

lemma sorted_jsSort:
  assumes tr: "\<And>a b c. cmp a b \<le> 0 \<Longrightarrow> cmp b c \<le> 0 \<Longrightarrow> cmp a c \<le> 0"
    and tot: "\<And>a b. cmp a b \<le> 0 \<or> cmp b a \<le> 0"
  shows "sorted_wrt (\<lambda>a b. cmp a b \<le> 0) (jsSort cmp xs)"
  unfolding jsSort_def
  by (induction xs) (simp_all add: sorted_insertSorted[OF tr tot])

lemma sorted_byScore: "sorted_wrt (\<lambda>a b. snd a \<ge> snd b) (jsSort byScore xs)"
proof -
  have "sorted_wrt (\<lambda>a b. byScore a b \<le> 0) (jsSort byScore xs)"
    by (rule sorted_jsSort) (auto simp: byScore_def)
  then show ?thesis by (simp add: byScore_def)
qed

lemma sorted_byRelevance:
  "sorted_wrt (\<lambda>a b. relevance a \<ge> relevance b) (jsSort byRelevance xs)"
proof -
  have "sorted_wrt (\<lambda>a b. byRelevance a b \<le> 0) (jsSort byRelevance xs)"
    by (rule sorted_jsSort) (auto simp: byRelevance_def)
  then show ?thesis by (simp add: byRelevance_def)
qed

lemma set_uniqueInOrder: "set (uniqueInOrder xs) = set xs"
  by (induction xs rule: uniqueInOrder.induct) auto

lemma distinct_uniqueInOrder: "distinct (uniqueInOrder xs)"
  by (induction xs rule: uniqueInOrder.induct) (auto simp: set_uniqueInOrder)

lemma mapSet_fresh: "k \<notin> fst ` set m \<Longrightarrow> mapSet m k v = m @ [(k, v)]"
  by (induction m) auto

lemma set_mapSet_keys: "fst ` set (mapSet m k v) = insert k (fst ` set m)"
proof (induction m)
  case Nil
  show ?case by simp
next
  case (Cons p m)
  obtain k' v' where p: "p = (k', v')" by (cases p)
  show ?case
  proof (cases "k' = k")
    case True
    then show ?thesis by (simp add: p)
  next
    case False
    then show ?thesis using Cons by (simp add: p insert_commute)
  qed
qed

lemma fold_addOverlap:
  "fold (addOverlap k) cws s0 = s0 + relevance k / 2 * real (overlapCount cws (word k))"
proof -
  have "fold (addOverlap k) cws s0 =
        s0 + relevance k / 2 *
          real (length (filter (\<lambda>cw. includesStr (word k) cw \<or> includesStr cw (word k)) cws))"
    by (induction cws arbitrary: s0) (simp_all add: addOverlap_def algebra_simps)
  then show ?thesis by (simp add: overlapCount_def)
qed

lemma addKeywordScore_spec:
  assumes "toLowerCase (word k) = word k"
  shows "addKeywordScore cws k sc =
         sc + ((if word k \<in> set cws then relevance k else 0) +
               relevance k / 2 * real (overlapCount cws (word k)))"
  using assms by (simp add: addKeywordScore_def fold_addOverlap)

lemma categoryScore_fold:
  assumes "\<forall>k\<in>set kws. toLowerCase (word k) = word k"
  shows "fold (addKeywordScore cws) kws acc = acc + specCategoryScore cws kws"
  using assms
proof (induction kws arbitrary: acc)
  case Nil
  show ?case by (simp add: specCategoryScore_def)
next
  case (Cons k kws)
  then have "toLowerCase (word k) = word k" by simp
  from addKeywordScore_spec[OF this] Cons show ?case
    by (simp add: specCategoryScore_def)
qed

lemma categoryScore_spec:
  "\<forall>k\<in>set kws. toLowerCase (word k) = word k \<Longrightarrow>
   categoryScore cws kws = specCategoryScore cws kws"
  by (simp add: categoryScore_def categoryScore_fold)

lemma fold_addCategory:
  assumes "distinct (map fst cats)" "fst ` set m \<inter> fst ` set cats = {}"
  shows "fold (addCategory kws) cats m =
         m @ map (\<lambda>entry. (fst entry, categoryScore (snd entry) kws))
               (filter (\<lambda>entry. categoryScore (snd entry) kws > 0) cats)"
  using assms
proof (induction cats arbitrary: m)
  case Nil
  show ?case by simp
next
  case (Cons p cats)
  have d: "distinct (map fst cats)" using Cons.prems by simp
  show ?case
  proof (cases "categoryScore (snd p) kws > 0")
    case True
    have fresh: "fst p \<notin> fst ` set m" using Cons.prems by auto
    have "fst ` set (m @ [(fst p, categoryScore (snd p) kws)]) \<inter> fst ` set cats = {}"
      using Cons.prems by auto
    from Cons.IH[OF d this] True fresh show ?thesis
      by (simp add: addCategory_def mapSet_fresh)
  next
    case False
    have "fst ` set m \<inter> fst ` set cats = {}" using Cons.prems by auto
    from Cons.IH[OF d this] False show ?thesis by (simp add: addCategory_def)
  qed
qed

lemma categorizeTopics_spec:
  assumes "distinct (map fst (topicCategories e))"
    and "\<forall>k\<in>set kws. toLowerCase (word k) = word k"
  shows "categorizeTopics e kws =
     jsSort byScore
       (map (\<lambda>entry. (fst entry, specCategoryScore (snd entry) kws))
          (filter (\<lambda>entry. specCategoryScore (snd entry) kws > 0) (topicCategories e)))"
proof -
  have "fold (addCategory kws) (topicCategories e) [] =
        [] @ map (\<lambda>entry. (fst entry, categoryScore (snd entry) kws))
               (filter (\<lambda>entry. categoryScore (snd entry) kws > 0) (topicCategories e))"
    by (rule fold_addCategory) (use assms in auto)
  then show ?thesis
    by (simp add: categorizeTopics_def categoryScore_spec[OF assms(2)])
qed

subsection \<open>The keywords are lower-case\<close>


lemma lower_upper_disjoint: "l \<in> set lowerLetters \<Longrightarrow> l \<notin> set upperLetters"
  by (simp add: lowerLetters_def upperLetters_def) fastforce

lemma toLowerChar_idem: "toLowerChar (toLowerChar c) = toLowerChar c"
proof (cases "map_of (zip upperLetters lowerLetters) c")
  case None
  then show ?thesis by (simp add: toLowerChar_def)
next
  case (Some l)
  then have "(c, l) \<in> set (zip upperLetters lowerLetters)" by (rule map_of_SomeD)
  then have "l \<in> set lowerLetters" by (rule set_zip_rightD)
  then have "l \<notin> set upperLetters" by (rule lower_upper_disjoint)
  then have "toLowerChar l = l" by (simp add: toLowerChar_eval)
  with Some show ?thesis by (simp add: toLowerChar_def)
qed

lemma cleanWords_lower: "w \<in> set (cleanWords e words) \<Longrightarrow> toLowerCase w = w"
proof -
  assume "w \<in> set (cleanWords e words)"
  then obtain w0 where w: "w = filter isWordChar (toLowerCase w0)"
    by (auto simp: cleanWords_def normalizeWord_def)
  have "\<forall>c\<in>set w. toLowerChar c = c"
    unfolding w toLowerCase_def by (auto simp: toLowerChar_idem)
  then show ?thesis unfolding toLowerCase_def by (simp add: map_idI)
qed

lemma fold_countWord_keys: "fst ` set (fold countWord xs m) = fst ` set m \<union> set xs"
  by (induction xs arbitrary: m) (auto simp: countWord_def set_mapSet_keys)

lemma calculateWordFrequencies_keys:
  "fst ` set (calculateWordFrequencies e words) = set (cleanWords e words)"
  unfolding calculateWordFrequencies_def by (simp add: fold_countWord_keys)

lemma word_scoreWord: "word (scoreWord e t mf entry) = fst entry"
  by (simp add: scoreWord_def Let_def)

lemma calculateRelevanceScores_words:
  "k \<in> set (calculateRelevanceScores e wordFreq t) \<Longrightarrow> word k \<in> fst ` set wordFreq"
proof -
  assume "k \<in> set (calculateRelevanceScores e wordFreq t)"
  then obtain entry where "entry \<in> set wordFreq" "k = scoreWord e t (mathMax (map snd wordFreq)) entry"
    by (auto simp: calculateRelevanceScores_def Let_def set_jsSort)
  then show ?thesis by (simp add: word_scoreWord)
qed

lemma keywords_lower:
  "\<forall>k\<in>set (calculateRelevanceScores e (calculateWordFrequencies e words) t).
     toLowerCase (word k) = word k"
proof
  fix k
  assume "k \<in> set (calculateRelevanceScores e (calculateWordFrequencies e words) t)"
  then have "word k \<in> fst ` set (calculateWordFrequencies e words)"
    by (rule calculateRelevanceScores_words)
  then have "word k \<in> set (cleanWords e words)"
    by (simp add: calculateWordFrequencies_keys)
  then show "toLowerCase (word k) = word k" by (rule cleanWords_lower)
qed

lemma categorize_set:
  assumes "distinct (map fst (topicCategories e))"
    and "\<forall>k\<in>set kws. toLowerCase (word k) = word k"
  shows "set (categorizeTopics e kws) =
     {(c, specCategoryScore ws kws) | c ws.
        (c, ws) \<in> set (topicCategories e) \<and> specCategoryScore ws kws > 0}"
  unfolding categorizeTopics_spec[OF assms] set_jsSort by force

lemma categorize_distinct:
  assumes "distinct (map fst (topicCategories e))"
    and "\<forall>k\<in>set kws. toLowerCase (word k) = word k"
  shows "distinct (map fst (categorizeTopics e kws))"
proof -
  have "map fst (map (\<lambda>entry. (fst entry, specCategoryScore (snd entry) kws))
          (filter (\<lambda>entry. specCategoryScore (snd entry) kws > 0) (topicCategories e))) =
        map fst (filter (\<lambda>entry. specCategoryScore (snd entry) kws > 0) (topicCategories e))"
    by simp
  moreover have "distinct (map fst
      (filter (\<lambda>entry. specCategoryScore (snd entry) kws > 0) (topicCategories e)))"
    using assms(1) by (rule distinct_map_filter)
  ultimately show ?thesis
    unfolding categorizeTopics_spec[OF assms] distinct_jsSort by (simp only:)
qed

lemma hierarchy_subset:
  "set (fst (extractTopicHierarchy kws cats)) \<subseteq>
     word ` set (take 5 kws) \<union> set (take 2 (map fst cats)) \<and>
   set (snd (extractTopicHierarchy kws cats)) \<subseteq>
     word ` set (take 5 (drop 5 kws)) \<union> set (take 2 (drop 2 (map fst cats))) \<and>
   set (snd (extractTopicHierarchy kws cats)) \<inter> set (fst (extractTopicHierarchy kws cats)) = {}"
  by (auto simp: extractTopicHierarchy_def Let_def set_uniqueInOrder)

lemma take_drop_subset: "set (take n (drop m xs)) \<subseteq> set (take (m + n) xs)"
proof -
  have "take (m + n) xs = take m xs @ take n (drop m xs)" by (simp add: take_add)
  then show ?thesis by simp
qed

subsection \<open>An evaluated run of topic extraction\<close>

lemma extractor_fields:
  "stopWords newTopicExtractor = set stopWordsList"
  "topicCategories newTopicExtractor = initializeTopicCategories"
  "domainKeywords newTopicExtractor = initializeDomainKeywords"
  by (simp_all add: newTopicExtractor_def)

lemma initializeTopicCategories_eval:
  "initializeTopicCategories =
     [(''work'', workWords), (''health'', healthWords),
      (''relationships'', relationshipsWords),
      (''personal_development'', personal_developmentWords),
      (''finance'', financeWords), (''technology'', technologyWords),
      (''home'', homeWords), (''travel'', travelWords)]"
  by (simp add: initializeTopicCategories_def)

lemma normalize_bm:
  "normalizeWord ''Budget'' = ''budget''" "normalizeWord ''meeting'' = ''meeting''"
  by (simp_all add: normalizeWord_def string_eval isWordChar_def wordChars_def)

lemma keep_bm:
  "keepWord newTopicExtractor ''budget''" "keepWord newTopicExtractor ''meeting''"
  by (simp_all add: keepWord_def extractor_fields stopWordsList_def isDigitString_def isDigit_def)

lemma clean_bm: "cleanWords newTopicExtractor [''Budget'', ''meeting''] = [''budget'', ''meeting'']"
  by (simp add: cleanWords_def normalize_bm keep_bm)

lemma freq_bm:
  "calculateWordFrequencies newTopicExtractor [''Budget'', ''meeting''] =
     [(''budget'', 1), (''meeting'', 1)]"
  by (simp add: calculateWordFrequencies_def clean_bm countWord_def)

lemma dom_bm:
  "initializeDomainKeywords ''budget'' = None" "initializeDomainKeywords ''meeting'' = None"
  by (simp_all add: initializeDomainKeywords_def domainWords_def)

lemma lower_text_bm: "toLowerCase ''Budget meeting'' = ''budget meeting''"
  by (simp add: string_eval)

lemma position_bm:
  "positionBonus ''Budget meeting'' ''budget'' = 0.1"
  "positionBonus ''Budget meeting'' ''meeting'' = 0"
  by (simp_all add: positionBonus_def lower_text_bm indexOf_def lastIndexOf_def Let_def)

lemma score_bm:
  "scoreWord newTopicExtractor ''Budget meeting'' (Some (Suc 0)) (''budget'', Suc 0) =
     \<lparr>word = ''budget'', frequency = Suc 0, relevance = 0.77\<rparr>"
  "scoreWord newTopicExtractor ''Budget meeting'' (Some (Suc 0)) (''meeting'', Suc 0) =
     \<lparr>word = ''meeting'', frequency = Suc 0, relevance = 0.72\<rparr>"
  by (simp_all add: scoreWord_def Let_def divideByMax_def extractor_fields dom_bm orElse_def
      position_bm toFixed3_def)

lemma kws_bm:
  "calculateRelevanceScores newTopicExtractor [(''budget'', 1), (''meeting'', 1)] ''Budget meeting'' =
     [\<lparr>word = ''budget'', frequency = 1, relevance = 0.77\<rparr>,
      \<lparr>word = ''meeting'', frequency = 1, relevance = 0.72\<rparr>]"
  by (simp add: calculateRelevanceScores_def Let_def mathMax_def score_bm jsSort_def
      byRelevance_def)


lemma lower_kw_bm: "toLowerCase ''budget'' = ''budget''" "toLowerCase ''meeting'' = ''meeting''"
  by (simp_all add: string_eval)

lemma score_work_bm:
  "categoryScore workWords
     [\<lparr>word = ''budget'', frequency = 1, relevance = 0.77\<rparr>,
      \<lparr>word = ''meeting'', frequency = 1, relevance = 0.72\<rparr>] = 2.235"
  by (simp add: categoryScore_def addKeywordScore_def addOverlap_def lower_kw_bm workWords_def
      includesStr_def indexOf_def)

lemma cats_distinct: "distinct (map fst (topicCategories newTopicExtractor))"
  by (simp add: extractor_fields initializeTopicCategories_eval)

lemma work_entry: "(''work'', workWords) \<in> set (topicCategories newTopicExtractor)"
  by (simp add: extractor_fields initializeTopicCategories_eval)

lemma spec_work_bm:
  "specCategoryScore workWords
     [\<lparr>word = ''budget'', frequency = Suc 0, relevance = 0.77\<rparr>,
      \<lparr>word = ''meeting'', frequency = Suc 0, relevance = 0.72\<rparr>] = 2.235"
  by (simp add: specCategoryScore_def overlapCount_def workWords_def includesStr_def indexOf_def)

lemma pipeline_kws_bm:
  "calculateRelevanceScores newTopicExtractor
     (calculateWordFrequencies newTopicExtractor [''Budget'', ''meeting'']) ''Budget meeting'' =
     [\<lparr>word = ''budget'', frequency = Suc 0, relevance = 0.77\<rparr>,
      \<lparr>word = ''meeting'', frequency = Suc 0, relevance = 0.72\<rparr>]"
  using kws_bm by (simp add: freq_bm)

lemma categorize_bm:
  "categorizeTopics newTopicExtractor
     [\<lparr>word = ''budget'', frequency = Suc 0, relevance = 0.77\<rparr>,
      \<lparr>word = ''meeting'', frequency = Suc 0, relevance = 0.72\<rparr>] =
     [(''work'', 2.235), (''finance'', 1.155)]"
proof -
  define kws where
    "kws = [\<lparr>word = ''budget'', frequency = Suc 0, relevance = 0.77\<rparr>,
            \<lparr>word = ''meeting'', frequency = Suc 0, relevance = 0.72\<rparr>]"
  have sc:
    "categoryScore workWords kws = 2.235"
    "categoryScore healthWords kws = 0"
    "categoryScore relationshipsWords kws = 0"
    "categoryScore personal_developmentWords kws = 0"
    "categoryScore financeWords kws = 1.155"
    "categoryScore technologyWords kws = 0"
    "categoryScore homeWords kws = 0"
    "categoryScore travelWords kws = 0"
    unfolding kws_def
    by (simp_all add: categoryScore_def addKeywordScore_def addOverlap_def lower_kw_bm
        workWords_def healthWords_def relationshipsWords_def personal_developmentWords_def
        financeWords_def technologyWords_def homeWords_def travelWords_def
        includesStr_def indexOf_def)
  have "categorizeTopics newTopicExtractor kws = [(''work'', 2.235), (''finance'', 1.155)]"
    by (simp add: categorizeTopics_def extractor_fields initializeTopicCategories_eval
        addCategory_def sc jsSort_def byScore_def)
  then show ?thesis unfolding kws_def .
qed

lemma extract_bm:
  "extractTopics newTopicExtractor ''Budget meeting'' [''Budget'', ''meeting''] =
     \<lparr>primary = [''budget'', ''meeting'', ''work'', ''finance''], secondary = [],
      topKeywords =
        [\<lparr>word = ''budget'', frequency = Suc 0, relevance = 0.77\<rparr>,
         \<lparr>word = ''meeting'', frequency = Suc 0, relevance = 0.72\<rparr>],
      categories = [''work'', ''finance'']\<rparr>"
  unfolding extractTopics_def pipeline_kws_bm categorize_bm Let_def
  by (simp add: extractTopicHierarchy_def)

subsection \<open>The claims about topic extraction\<close>

text \<open>
  C2. For the keyword list that relevance scoring produces from any token list and text,
  and any registry of categories with distinct names, \<open>categorizeTopics\<close> returns
  exactly the categories whose score is positive, each once and with its score, in
  descending order of score. The score of a category is the sum over the keywords of the
  keyword's relevance when the keyword is one of the category words, plus half its
  relevance for every category word that the keyword contains or that contains the
  keyword (a keyword that is a category word contains that word, so it also counts once
  as such an overlap).
\<close>

theorem category_scores:
  "distinct (map fst (topicCategories e)) \<longrightarrow>
   (let kws = calculateRelevanceScores e (calculateWordFrequencies e words) t;
        cats = categorizeTopics e kws
    in set cats =
         {(c, specCategoryScore ws kws) | c ws.
            (c, ws) \<in> set (topicCategories e) \<and> specCategoryScore ws kws > 0} \<and>
       sorted_wrt (\<lambda>a b. snd a \<ge> snd b) cats \<and>
       distinct (map fst cats))"
proof
  assume d: "distinct (map fst (topicCategories e))"
  define kws where "kws = calculateRelevanceScores e (calculateWordFrequencies e words) t"
  have l: "\<forall>k\<in>set kws. toLowerCase (word k) = word k"
    unfolding kws_def by (rule keywords_lower)
  have s: "sorted_wrt (\<lambda>a b. snd a \<ge> snd b) (categorizeTopics e kws)"
    by (simp add: categorizeTopics_def sorted_byScore)
  show "let kws = calculateRelevanceScores e (calculateWordFrequencies e words) t;
        cats = categorizeTopics e kws
    in set cats =
         {(c, specCategoryScore ws kws) | c ws.
            (c, ws) \<in> set (topicCategories e) \<and> specCategoryScore ws kws > 0} \<and>
       sorted_wrt (\<lambda>a b. snd a \<ge> snd b) cats \<and>
       distinct (map fst cats)"
    unfolding Let_def kws_def[symmetric]
    using categorize_set[OF d l] categorize_distinct[OF d l] s by blast
qed

theorem category_scores_witness:
  "(''work'', 2.235) \<in> set (categorizeTopics newTopicExtractor
      (calculateRelevanceScores newTopicExtractor
        (calculateWordFrequencies newTopicExtractor [''Budget'', ''meeting''])
        ''Budget meeting''))"
proof -
  let ?kws = "calculateRelevanceScores newTopicExtractor
     (calculateWordFrequencies newTopicExtractor [''Budget'', ''meeting'']) ''Budget meeting''"
  have s: "specCategoryScore workWords ?kws = 2.235"
    unfolding pipeline_kws_bm by (rule spec_work_bm)
  have "set (categorizeTopics newTopicExtractor ?kws) =
         {(c, specCategoryScore ws ?kws) | c ws.
            (c, ws) \<in> set (topicCategories newTopicExtractor) \<and> specCategoryScore ws ?kws > 0}"
    using category_scores[of newTopicExtractor "[''Budget'', ''meeting'']" "''Budget meeting''"]
      cats_distinct
    by (simp add: Let_def)
  moreover have "(''work'', specCategoryScore workWords ?kws) \<in>
         {(c, specCategoryScore ws ?kws) | c ws.
            (c, ws) \<in> set (topicCategories newTopicExtractor) \<and> specCategoryScore ws ?kws > 0}"
    using work_entry s by force
  ultimately show ?thesis using s by simp
qed

text \<open>
  C8. For every extractor, text and token list, each primary and each secondary topic is
  the word of one of the returned keywords or one of the returned categories, and no
  secondary topic is a primary topic.
\<close>

theorem topic_containment:
  "set (primary (extractTopics e t words)) \<union> set (secondary (extractTopics e t words)) \<subseteq>
     word ` set (topKeywords (extractTopics e t words)) \<union>
     set (categories (extractTopics e t words)) \<and>
   set (secondary (extractTopics e t words)) \<inter> set (primary (extractTopics e t words)) = {}"
proof -
  define kws where "kws = calculateRelevanceScores e (calculateWordFrequencies e words) t"
  define cats where "cats = categorizeTopics e kws"
  have r: "primary (extractTopics e t words) = fst (extractTopicHierarchy kws cats)"
    "secondary (extractTopics e t words) = snd (extractTopicHierarchy kws cats)"
    "topKeywords (extractTopics e t words) = take 15 kws"
    "categories (extractTopics e t words) = take 5 (map fst cats)"
    by (simp_all add: extractTopics_def Let_def kws_def cats_def)
  have a: "set (take 5 kws) \<subseteq> set (take 15 kws)"
    using set_take_subset_set_take[of 5 15 kws] by simp
  have b: "set (take 5 (drop 5 kws)) \<subseteq> set (take 15 kws)"
    using take_drop_subset[of 5 5 kws] set_take_subset_set_take[of 10 15 kws] by auto
  have c: "set (take 2 (map fst cats)) \<subseteq> set (take 5 (map fst cats))"
    using set_take_subset_set_take[of 2 5 "map fst cats"] by simp
  have d: "set (take 2 (drop 2 (map fst cats))) \<subseteq> set (take 5 (map fst cats))"
    using take_drop_subset[of 2 2 "map fst cats"] set_take_subset_set_take[of 4 5 "map fst cats"]
    by auto
  show ?thesis
    unfolding r using hierarchy_subset[of kws cats] a b c d by blast
qed

theorem topic_containment_witness:
  "primary (extractTopics newTopicExtractor ''Budget meeting'' [''Budget'', ''meeting'']) =
     [''budget'', ''meeting'', ''work'', ''finance''] \<and>
   set (primary (extractTopics newTopicExtractor ''Budget meeting'' [''Budget'', ''meeting''])) \<union>
   set (secondary (extractTopics newTopicExtractor ''Budget meeting'' [''Budget'', ''meeting'']))
     \<subseteq> word ` set (topKeywords
         (extractTopics newTopicExtractor ''Budget meeting'' [''Budget'', ''meeting''])) \<union>
       set (categories
         (extractTopics newTopicExtractor ''Budget meeting'' [''Budget'', ''meeting'']))"
proof -
  have "primary (extractTopics newTopicExtractor ''Budget meeting'' [''Budget'', ''meeting'']) =
     [''budget'', ''meeting'', ''work'', ''finance'']"
    by (simp add: extract_bm)
  then show ?thesis
    using topic_containment[of newTopicExtractor "''Budget meeting''" "[''Budget'', ''meeting'']"]
    by blast
qed

section \<open>Action-item detection\<close>

subsection \<open>Every match is as long as the lower bound\<close>

lemma matchLit_end:
  "e \<in> set (matchLit l pos) \<Longrightarrow> length l \<le> length (snd pos) \<and> snd e = drop (length l) (snd pos)"
proof (induction l pos rule: matchLit.induct)
  case (1 pos)
  then show ?case by simp
next
  case (2 l ls p)
  then show ?case by simp
next
  case (3 l ls p c cs)
  then show ?case by (auto split: if_splits)
qed

lemma advance_end: "n \<le> length (snd pos) \<Longrightarrow> snd (advance n pos) = drop n (snd pos)"
proof (induction n pos rule: advance.induct)
  case (1 pos)
  then show ?case by simp
next
  case (2 n p)
  then show ?case by simp
next
  case (3 n p c cs)
  then show ?case by simp
qed

lemma runLength_le: "runLength cls bound s \<le> length s"
  by (induction cls bound s rule: runLength.induct) auto

lemma repEnds_end:
  "e \<in> set (repEnds m k pos) \<Longrightarrow> k \<le> length (snd pos) \<Longrightarrow>
   \<exists>n. m \<le> n \<and> n \<le> k \<and> snd e = drop n (snd pos)"
proof (induction m k pos rule: repEnds.induct)
  case (1 m pos)
  then show ?case by (auto split: if_splits)
next
  case (2 m k pos)
  show ?case
  proof (cases "m \<le> Suc k")
    case True
    with 2 consider "e = advance (Suc k) pos" | "e \<in> set (repEnds m k pos)" by auto
    then show ?thesis
    proof cases
      case 1
      then have "snd e = drop (Suc k) (snd pos)" using 2 advance_end by blast
      with True show ?thesis by blast
    next
      case 2
      then obtain n where "m \<le> n" "n \<le> k" "snd e = drop n (snd pos)"
        using "2.IH"[OF True] "2.prems" by auto
      then show ?thesis by (metis le_SucI)
    qed
  next
    case False
    with 2 show ?thesis by simp
  qed
qed

lemma matchEnds_end:
  "e \<in> set (matchEnds r pos) \<Longrightarrow>
   \<exists>n. minLength r \<le> n \<and> n \<le> length (snd pos) \<and> snd e = drop n (snd pos)"
proof (induction r arbitrary: pos e)
  case (Lit l)
  then show ?case using matchLit_end[of e l pos] by auto
next
  case (Rep cls m n)
  then have "e \<in> set (repEnds m (runLength cls n (snd pos)) pos)" by simp
  from repEnds_end[OF this runLength_le]
  obtain j where "m \<le> j" "j \<le> runLength cls n (snd pos)" "snd e = drop j (snd pos)" by blast
  moreover have "runLength cls n (snd pos) \<le> length (snd pos)" by (rule runLength_le)
  ultimately show ?case by (intro exI[of _ j]) simp
next
  case (Seq r1 r2)
  then obtain mid where mid: "mid \<in> set (matchEnds r1 pos)" and e: "e \<in> set (matchEnds r2 mid)"
    by auto
  from Seq.IH(1)[OF mid] obtain n1 where
    n1: "minLength r1 \<le> n1" "n1 \<le> length (snd pos)" "snd mid = drop n1 (snd pos)" by blast
  from Seq.IH(2)[OF e] obtain n2 where
    n2: "minLength r2 \<le> n2" "n2 \<le> length (snd mid)" "snd e = drop n2 (snd mid)" by blast
  have "snd e = drop (n1 + n2) (snd pos)" using n1 n2 by (simp add: add.commute)
  moreover have "n1 + n2 \<le> length (snd pos)" using n1 n2 by simp
  moreover have "minLength (Seq r1 r2) \<le> n1 + n2" using n1 n2 by simp
  ultimately show ?case by blast
next
  case (Alt r1 r2)
  then consider "e \<in> set (matchEnds r1 pos)" | "e \<in> set (matchEnds r2 pos)" by auto
  then show ?case
  proof cases
    case 1
    from Alt.IH(1)[OF this] show ?thesis by (auto simp: min_le_iff_disj)
  next
    case 2
    from Alt.IH(2)[OF this] show ?thesis by (auto simp: min_le_iff_disj)
  qed
next
  case (Opt r)
  then consider "e \<in> set (matchEnds r pos)" | "e = pos" by auto
  then show ?case
  proof cases
    case 1
    from Opt.IH[OF this] show ?thesis by auto
  next
    case 2
    then show ?thesis by (intro exI[of _ 0]) simp
  qed
next
  case EndOfInput
  then show ?case by (intro exI[of _ 0]) (auto split: if_splits)
next
  case WordBoundary
  then show ?case by (intro exI[of _ 0]) (auto split: if_splits)
qed

lemma findFrom_returns: "0 < minLength r \<Longrightarrow> \<exists>ms. findFrom r k p s = Some ms"
proof (induction r k p s rule: findFrom.induct)
  case (1 r k p)
  then show ?case by simp
next
  case (2 r k p c cs)
  then show ?case by simp
next
  case (3 r p)
  have "matchEnds r (p, []) = []"
  proof (rule ccontr)
    assume "matchEnds r (p, []) \<noteq> []"
    then obtain e where "e \<in> set (matchEnds r (p, []))" by (cases "matchEnds r (p, [])") auto
    from matchEnds_end[OF this] 3 show False by auto
  qed
  then show ?case by simp
next
  case (4 r p c cs)
  show ?case
  proof (cases "matchEnds r (p, c # cs)")
    case Nil
    with 4 show ?thesis by simp
  next
    case (Cons e es)
    then have "e \<in> set (matchEnds r (p, c # cs))" by simp
    from matchEnds_end[OF this] obtain n where
      n: "minLength r \<le> n" "n \<le> length (c # cs)" "snd e = drop n (c # cs)" by auto
    define n' where "n' = length (c # cs) - length (snd e)"
    have "n' = n" using n by (simp add: n'_def)
    then have pos: "n' \<noteq> 0" using n 4(3) by simp
    from "4.IH"(2)[OF Cons n'_def pos 4(3)]
    obtain ms where "findFrom r (n' - 1) (Some c) cs = Some ms" by blast
    then show ?thesis using Cons pos by (simp add: n'_def Let_def)
  qed
qed

lemma findMatches_returns: "0 < minLength r \<Longrightarrow> \<exists>ms. findMatches t r = Some ms"
  unfolding findMatches_def by (rule findFrom_returns)

subsection \<open>What the loop over the registry keeps\<close>

lemma cleanedMatches_lengths:
  "m \<in> set (cleanedMatches ms) \<Longrightarrow> 10 < length m \<and> length m < 200"
  by (auto simp: cleanedMatches_def Let_def keepCleaned_def)

lemma scanPattern_ok:
  assumes "accOk acc" "scanPattern t entry acc = Some acc'"
  shows "accOk acc'"
proof -
  obtain ms where ms: "findMatches t (regex (snd entry)) = Some ms"
    using assms(2) by (auto simp: scanPattern_def split: option.splits)
  show ?thesis
  proof (cases "ms \<noteq> [] \<and> cleanedMatches ms \<noteq> []")
    case True
    then have acc': "acc' = (fst acc @ cleanedMatches ms,
        snd acc @ [\<lparr>pattern = fst entry, matches = cleanedMatches ms,
                    matchPriority = priority (snd entry)\<rparr>])"
      using assms(2) ms by (simp add: scanPattern_def Let_def)
    show ?thesis
      using assms(1) cleanedMatches_lengths unfolding accOk_def acc' by auto
  next
    case False
    then have "acc' = acc" using assms(2) ms by (auto simp: scanPattern_def Let_def)
    with assms(1) show ?thesis by simp
  qed
qed

lemma scanAll_ok: "accOk acc \<Longrightarrow> scanAll t entries acc = Some acc' \<Longrightarrow> accOk acc'"
proof (induction entries arbitrary: acc)
  case Nil
  then show ?case by simp
next
  case (Cons entry entries)
  then obtain mid where mid: "scanPattern t entry acc = Some mid"
    and rest: "scanAll t entries mid = Some acc'"
    by (auto split: option.splits)
  from scanPattern_ok[OF Cons.prems(1) mid] have "accOk mid" .
  from Cons.IH[OF this rest] show ?case .
qed

lemma scanPattern_returns:
  "0 < minLength (regex (snd entry)) \<Longrightarrow> \<exists>acc'. scanPattern t entry acc = Some acc'"
  using findMatches_returns[of "regex (snd entry)" t] by (auto simp: scanPattern_def)

lemma scanAll_returns:
  "\<forall>entry\<in>set entries. 0 < minLength (regex (snd entry)) \<Longrightarrow>
   \<exists>acc'. scanAll t entries acc = Some acc'"
proof (induction entries arbitrary: acc)
  case Nil
  then show ?case by simp
next
  case (Cons entry entries)
  then obtain mid where "scanPattern t entry acc = Some mid"
    using scanPattern_returns[of entry t acc] by auto
  moreover obtain acc' where "scanAll t entries mid = Some acc'"
    using Cons by (meson list.set_intros(2))
  ultimately show ?case by simp
qed

lemma detect_returns:
  "\<forall>entry\<in>set registry. 0 < minLength (regex (snd entry)) \<Longrightarrow>
   \<exists>r. detect registry t sentences = Some r"
  using scanAll_returns[of registry t "([], [])"] by (auto simp: detect_def Let_def)

lemma detect_result:
  assumes "detect registry t sentences = Some r"
  shows "\<exists>acc. scanAll t registry ([], []) = Some acc \<and> accOk acc \<and>
           items r = prioritizeItems (uniqueInOrder (fst acc)) (snd acc) \<and>
           patterns r = snd acc \<and> totalCount r = length (uniqueInOrder (fst acc))"
proof -
  obtain acc where acc: "scanAll t registry ([], []) = Some acc"
    using assms by (auto simp: detect_def split: option.splits)
  have "accOk ([], [])" by (simp add: accOk_def)
  from scanAll_ok[OF this acc] have "accOk acc" .
  moreover have "r = \<lparr>items = prioritizeItems (uniqueInOrder (fst acc)) (snd acc),
      patterns = snd acc, totalCount = length (uniqueInOrder (fst acc))\<rparr>"
    using assms acc by (simp add: detect_def Let_def)
  ultimately show ?thesis using acc by simp
qed

lemma set_prioritizeItems: "set (prioritizeItems its ps) = set its"
  by (simp add: prioritizeItems_def set_jsSort)

lemma distinct_prioritizeItems: "distinct (prioritizeItems its ps) = distinct its"
  using distinct_jsSort[of "\<lambda>x. x" "compareItems (priorityScores ps)" its]
  by (simp add: prioritizeItems_def)

lemma detect_items:
  assumes "detect registry t sentences = Some r"
  shows "distinct (items r)" "\<forall>x\<in>set (items r). 10 < length x \<and> length x < 200"
    "set (items r) = (\<Union>p\<in>set (patterns r). set (matches p))"
    "\<exists>its. items r = prioritizeItems its (patterns r)"
proof -
  from detect_result[OF assms] obtain acc where
    ok: "accOk acc" and i: "items r = prioritizeItems (uniqueInOrder (fst acc)) (snd acc)"
    and p: "patterns r = snd acc" by blast
  show "distinct (items r)"
    by (simp add: i distinct_prioritizeItems distinct_uniqueInOrder)
  show "\<forall>x\<in>set (items r). 10 < length x \<and> length x < 200"
    using ok by (simp add: i set_prioritizeItems set_uniqueInOrder accOk_def)
  show "set (items r) = (\<Union>p\<in>set (patterns r). set (matches p))"
    using ok by (simp add: i p set_prioritizeItems set_uniqueInOrder accOk_def)
  show "\<exists>its. items r = prioritizeItems its (patterns r)"
    using i p by auto
qed

subsection \<open>The priority map\<close>

lemma recordMatch_apply:
  "scoreOr0 (recordMatch sc m scores) x =
     (if x = m then max (scoreOr0 scores x) sc else scoreOr0 scores x)"
  by (simp add: recordMatch_def scoreOr0_def)

lemma fold_recordMatch:
  "scoreOr0 (fold (recordMatch sc) ms scores) x =
     (if x \<in> set ms then max (scoreOr0 scores x) sc else scoreOr0 scores x)"
  by (induction ms arbitrary: scores) (auto simp: recordMatch_apply)

lemma recordPattern_apply:
  "scoreOr0 (recordPattern p scores) x =
     (if x \<in> set (matches p) then max (scoreOr0 scores x) (priorityScore (matchPriority p))
      else scoreOr0 scores x)"
  by (simp add: recordPattern_def fold_recordMatch)

lemma priorityScore_pos: "0 < priorityScore p"
  by (simp add: priorityScore_def)

lemma fold_recordPattern_upper:
  "p \<in> set ps \<Longrightarrow> x \<in> set (matches p) \<Longrightarrow>
   priorityScore (matchPriority p) \<le> scoreOr0 (fold recordPattern ps scores) x"
proof (induction ps arbitrary: scores rule: rev_induct)
  case Nil
  then show ?case by simp
next
  case (snoc q ps)
  show ?case
  proof (cases "p = q")
    case True
    with snoc.prems show ?thesis by (simp add: recordPattern_apply)
  next
    case False
    with snoc.prems have "p \<in> set ps" by simp
    from snoc.IH[OF this snoc.prems(2), of scores]
    have "priorityScore (matchPriority p) \<le> scoreOr0 (fold recordPattern ps scores) x" .
    then show ?thesis
      by (auto simp: recordPattern_apply max_def)
  qed
qed

lemma fold_recordPattern_attained:
  "scoreOr0 (fold recordPattern ps scores) x = scoreOr0 scores x \<or>
   (\<exists>p\<in>set ps. x \<in> set (matches p) \<and>
      scoreOr0 (fold recordPattern ps scores) x = priorityScore (matchPriority p))"
proof (induction ps arbitrary: scores rule: rev_induct)
  case Nil
  then show ?case by simp
next
  case (snoc q ps)
  show ?case
  proof (cases "x \<in> set (matches q) \<and>
      scoreOr0 (fold recordPattern ps scores) x < priorityScore (matchPriority q)")
    case True
    then have "scoreOr0 (fold recordPattern (ps @ [q]) scores) x = priorityScore (matchPriority q)"
      by (simp add: recordPattern_apply)
    with True show ?thesis by auto
  next
    case False
    then have "scoreOr0 (fold recordPattern (ps @ [q]) scores) x =
               scoreOr0 (fold recordPattern ps scores) x"
      by (auto simp: recordPattern_apply)
    with snoc.IH[of scores] show ?thesis by auto
  qed
qed

lemma priorityScores_max:
  assumes "p \<in> set ps" "x \<in> set (matches p)"
  shows "(\<exists>q\<in>set ps. x \<in> set (matches q) \<and>
            scoreOr0 (priorityScores ps) x = priorityScore (matchPriority q)) \<and>
         (\<forall>q\<in>set ps. x \<in> set (matches q) \<longrightarrow>
            priorityScore (matchPriority q) \<le> scoreOr0 (priorityScores ps) x)"
proof -
  have up: "\<forall>q\<in>set ps. x \<in> set (matches q) \<longrightarrow>
            priorityScore (matchPriority q) \<le> scoreOr0 (priorityScores ps) x"
    using fold_recordPattern_upper by (auto simp: priorityScores_def)
  then have "0 < scoreOr0 (priorityScores ps) x"
    using assms priorityScore_pos[of "matchPriority p"] by fastforce
  moreover have "scoreOr0 Map.empty x = 0" by (simp add: scoreOr0_def)
  ultimately have "\<exists>q\<in>set ps. x \<in> set (matches q) \<and>
            scoreOr0 (priorityScores ps) x = priorityScore (matchPriority q)"
    using fold_recordPattern_attained[of ps Map.empty x] by (auto simp: priorityScores_def)
  with up show ?thesis by blast
qed

subsection \<open>The order of the items\<close>

lemma compareItems_le:
  "(compareItems scores a b \<le> 0) =
     (scoreOr0 scores a > scoreOr0 scores b \<or>
      (scoreOr0 scores a = scoreOr0 scores b \<and> length a \<ge> length b))"
  by (auto simp: compareItems_def Let_def)

lemma sorted_prioritizeItems:
  "sorted_wrt (\<lambda>a b. scoreOr0 (priorityScores ps) a > scoreOr0 (priorityScores ps) b \<or>
      (scoreOr0 (priorityScores ps) a = scoreOr0 (priorityScores ps) b \<and> length a \<ge> length b))
     (prioritizeItems its ps)"
proof -
  have "sorted_wrt (\<lambda>a b. compareItems (priorityScores ps) a b \<le> 0)
          (jsSort (compareItems (priorityScores ps)) its)"
    by (rule sorted_jsSort) (auto simp: compareItems_le)
  then show ?thesis by (simp add: prioritizeItems_def compareItems_le)
qed

subsection \<open>The built-in registry\<close>

lemma initializePatterns_eval: "initializePatterns = builtinPatterns"
  by (simp add: initializePatterns_def builtinPatterns_def addPattern_def)

lemmas regex_defs =
  urgent_tasks_regex_def deadline_tasks_regex_def need_to_actions_regex_def
  todo_items_regex_def planning_actions_regex_def meeting_actions_regex_def
  communication_actions_regex_def research_actions_regex_def
  consideration_actions_regex_def want_actions_regex_def someday_actions_regex_def
  action_verbs_regex_def question_actions_regex_def time_actions_regex_def
  work_actions_regex_def personal_actions_regex_def
  spaces1_def spaces0_def dots_def sentenceEnd_def

lemma builtin_minLength:
  "\<forall>entry\<in>set initializePatterns. 0 < minLength (regex (snd entry))"
  by (simp add: initializePatterns_eval builtinPatterns_def regex_defs)

subsection \<open>An evaluated run\<close>

lemma toLowerChar_not_upper:
  "b5 \<or> \<not> b6 \<or> b7 \<Longrightarrow>
   toLowerChar (Char b0 b1 b2 b3 b4 b5 b6 b7) = Char b0 b1 b2 b3 b4 b5 b6 b7"
  by (auto simp: toLowerChar_eval upperLetters_def)

lemma matchEnds_builtin:
  "matchEnds urgent_tasks_regex pos =
     matchEnds
      (seqs (anyOf [''urgent'', ''asap'', ''immediately'', ''right away'', ''emergency'',
        ''critical'', ''must do'']) [spaces1, dots 1 100, sentenceEnd]) pos"
  "matchEnds deadline_tasks_regex pos =
     matchEnds
      (seqs (anyOf [''due'', ''deadline'', ''by'', ''before'', ''until'']) [spaces1,
        alts (Lit ''today'') [Lit ''tomorrow'', Lit ''this week'', Lit ''next week'',
        seqs (Rep DigitClass 1 (Some 2)) [Rep (OneOf ''/-'') 1 (Some 1),
        Rep DigitClass 1 (Some 2)], seqs (Rep WordClass 1 None) [Lit ''day'']], dots 0 100,
        sentenceEnd]) pos"
  "matchEnds need_to_actions_regex pos =
     matchEnds
      (seqs (anyOf [''need to'', ''have to'', ''must'', ''should'', ''got to'']) [spaces1,
        anyOf [''do'', ''complete'', ''finish'', ''start'', ''begin'', ''work on'',
        ''handle'', ''take care of'', ''deal with''], spaces1, dots 1 80, sentenceEnd]) pos"
  "matchEnds todo_items_regex pos =
     matchEnds
      (seqs (anyOf [''to do'', ''todo'', ''task'', ''action item'']) [Lit '':'', spaces0,
        dots 1 100, sentenceEnd]) pos"
  "matchEnds planning_actions_regex pos =
     matchEnds
      (seqs (anyOf [''plan to'', ''planning to'', ''going to'', ''will'',
        ''intend to'']) [spaces1, anyOf [''do'', ''make'', ''create'', ''build'', ''write'',
        ''call'', ''email'', ''meet'', ''visit'', ''buy'', ''get'', ''start'', ''finish''],
        dots 0 80, sentenceEnd]) pos"
  "matchEnds meeting_actions_regex pos =
     matchEnds
      (seqs (anyOf [''schedule'', ''arrange'', ''set up'', ''book'']) [spaces1,
        Opt (anyOf [''a'', ''an'']), spaces0, anyOf [''meeting'', ''call'', ''appointment'',
        ''session''], spaces1, anyOf [''with'', ''for''], dots 0 60, sentenceEnd]) pos"
  "matchEnds communication_actions_regex pos =
     matchEnds
      (seqs (anyOf [''call'', ''email'', ''text'', ''message'', ''contact'',
        ''reach out to'', ''follow up with'']) [spaces1, dots 1 50, sentenceEnd]) pos"
  "matchEnds research_actions_regex pos =
     matchEnds
      (seqs (anyOf [''research'', ''look up'', ''find out'', ''investigate'', ''explore'',
        ''study'', ''learn about'']) [spaces1, dots 1 60, sentenceEnd]) pos"
  "matchEnds consideration_actions_regex pos =
     matchEnds
      (seqs (anyOf [''think about'', ''consider'', ''maybe'', ''might'', ''could'',
        ''possibly'']) [spaces1, anyOf [''doing'', ''making'', ''getting'', ''trying''],
        dots 0 60, sentenceEnd]) pos"
  "matchEnds want_actions_regex pos =
     matchEnds
      (seqs (anyOf [''want to'', ''would like to'', ''wish to'', ''hope to'']) [spaces1,
        anyOf [''do'', ''make'', ''get'', ''try'', ''start'', ''learn'', ''buy'', ''visit''],
        dots 0 60, sentenceEnd]) pos"
  "matchEnds someday_actions_regex pos =
     matchEnds
      (seqs (anyOf [''someday'', ''eventually'', ''one day'', ''in the future'',
        ''when I have time'']) [spaces0, dots 1 60, sentenceEnd]) pos"
  "matchEnds action_verbs_regex pos =
     matchEnds
      (seqs (WordBoundary) [anyOf [''buy'', ''purchase'', ''get'', ''acquire'', ''obtain'',
        ''order'', ''book'', ''reserve'', ''schedule'', ''organize'', ''clean'', ''fix'',
        ''repair'', ''update'', ''upgrade'', ''install'', ''download'', ''backup'',
        ''review'', ''check'', ''verify'', ''confirm'', ''submit'', ''send'', ''deliver'',
        ''complete'', ''finish'', ''start'', ''begin'', ''create'', ''make'', ''build'',
        ''write'', ''draft'', ''prepare'', ''practice'', ''exercise'', ''workout'', ''study'',
        ''read'', ''watch'', ''listen'', ''attend'', ''visit'', ''go to'', ''travel'',
        ''move'', ''relocate'', ''apply'', ''register'', ''sign up'', ''cancel'', ''delete'',
        ''remove'', ''sell'', ''donate'', ''give away'', ''throw away'', ''declutter'',
        ''sort'', ''file'', ''archive''], spaces1, dots 1 60, sentenceEnd]) pos"
  "matchEnds question_actions_regex pos =
     matchEnds
      (seqs (anyOf [''should I'', ''what if I'', ''how about'', ''what about'']) [spaces1,
        anyOf [''do'', ''make'', ''get'', ''try'', ''start''], dots 0 50, Lit ''?'']) pos"
  "matchEnds time_actions_regex pos =
     matchEnds
      (seqs (anyOf [''this week'', ''next week'', ''this month'', ''next month'', ''today'',
        ''tomorrow'', ''later'', ''soon'']) [spaces1, Opt (anyOf [''I'', ''we'', ''they'']),
        spaces0, anyOf [''will'', ''need to'', ''should'', ''must'', ''have to'',
        ''going to''], spaces1, dots 1 60, sentenceEnd]) pos"
  "matchEnds work_actions_regex pos =
     matchEnds
      (seqs (anyOf [''work on'', ''project'', ''assignment'', ''report'', ''presentation'',
        ''proposal'', ''document'', ''spreadsheet'', ''analysis'', ''review'', ''meeting'',
        ''client'', ''customer'', ''team'', ''manager'', ''boss'', ''deadline'', ''budget'',
        ''proposal'', ''contract'', ''deal'', ''sale'', ''marketing'',
        ''strategy'']) [dots 0 80, sentenceEnd]) pos"
  "matchEnds personal_actions_regex pos =
     matchEnds
      (seqs (anyOf [''health'', ''doctor'', ''appointment'', ''exercise'', ''gym'', ''diet'',
        ''family'', ''friend'', ''home'', ''house'', ''car'', ''maintenance'', ''bills'',
        ''finance'', ''insurance'', ''vacation'', ''travel'', ''hobby'', ''learn'', ''skill'',
        ''course'', ''class'']) [dots 0 60, sentenceEnd]) pos"
  by (simp_all only: urgent_tasks_regex_def deadline_tasks_regex_def need_to_actions_regex_def todo_items_regex_def planning_actions_regex_def meeting_actions_regex_def communication_actions_regex_def research_actions_regex_def consideration_actions_regex_def want_actions_regex_def someday_actions_regex_def action_verbs_regex_def question_actions_regex_def time_actions_regex_def work_actions_regex_def personal_actions_regex_def)

lemmas match_eval =
  findMatches_def matchEnds_builtin spaces1_def spaces0_def dots_def sentenceEnd_def
  toLowerChar_not_upper toLowerChar_eval upperLetters_def
  lowerLetters_def isSpace_def isWordChar_def wordChars_def isDigit_def Let_def

lemma find_yoga:
  "findMatches ''maybe trying yoga! asap fix the bugs'' urgent_tasks_regex = Some [''asap fix the bugs'']"
  "findMatches ''maybe trying yoga! asap fix the bugs'' deadline_tasks_regex = Some []"
  "findMatches ''maybe trying yoga! asap fix the bugs'' need_to_actions_regex = Some []"
  "findMatches ''maybe trying yoga! asap fix the bugs'' todo_items_regex = Some []"
  "findMatches ''maybe trying yoga! asap fix the bugs'' planning_actions_regex = Some []"
  "findMatches ''maybe trying yoga! asap fix the bugs'' meeting_actions_regex = Some []"
  "findMatches ''maybe trying yoga! asap fix the bugs'' communication_actions_regex = Some []"
  "findMatches ''maybe trying yoga! asap fix the bugs'' research_actions_regex = Some []"
  "findMatches ''maybe trying yoga! asap fix the bugs'' consideration_actions_regex = Some [''maybe trying yoga! asap fix the bugs'']"
  "findMatches ''maybe trying yoga! asap fix the bugs'' want_actions_regex = Some []"
  "findMatches ''maybe trying yoga! asap fix the bugs'' someday_actions_regex = Some []"
  "findMatches ''maybe trying yoga! asap fix the bugs'' action_verbs_regex = Some [''fix the bugs'']"
  "findMatches ''maybe trying yoga! asap fix the bugs'' question_actions_regex = Some []"
  "findMatches ''maybe trying yoga! asap fix the bugs'' time_actions_regex = Some []"
  "findMatches ''maybe trying yoga! asap fix the bugs'' work_actions_regex = Some []"
  "findMatches ''maybe trying yoga! asap fix the bugs'' personal_actions_regex = Some []"
  by (simp_all add: match_eval)

lemmas clean_eval =
  cleanMatch_def trim_def stripLeadingNonWord_def stripTrailingNonWord_def notWordChar_def
  collapseSpaces_def toLowerCase_def pronouns_def
  toLowerChar_not_upper toLowerChar_eval upperLetters_def lowerLetters_def
  isSpace_def isWordChar_def wordChars_def

lemma cleanedMatches_single:
  "cleanedMatches [m] =
     (if length (cleanMatch m) > 10 \<and> length (cleanMatch m) < 200 then [cleanMatch m] else [])"
  by (simp add: cleanedMatches_def keepCleaned_def Let_def)

lemma clean_yoga:
  "cleanMatch ''asap fix the bugs'' = ''asap fix the bugs''"
  "cleanMatch ''fix the bugs'' = ''fix the bugs''"
  "cleanMatch ''maybe trying yoga! asap fix the bugs'' = ''maybe trying yoga! asap fix the bugs''"
  by (simp_all add: clean_eval)

lemma cleaned_yoga:
  "cleanedMatches [''asap fix the bugs''] = [''asap fix the bugs'']"
  "cleanedMatches [''fix the bugs''] = [''fix the bugs'']"
  "cleanedMatches [''maybe trying yoga! asap fix the bugs''] =
     [''maybe trying yoga! asap fix the bugs'']"
  by (simp_all add: cleanedMatches_single clean_yoga)


lemma scan_yoga:
  "scanAll ''maybe trying yoga! asap fix the bugs'' initializePatterns ([], []) =
     Some ([''asap fix the bugs'', ''maybe trying yoga! asap fix the bugs'', ''fix the bugs''],
           [\<lparr>pattern = ''urgent_tasks'', matches = [''asap fix the bugs''],
              matchPriority = High\<rparr>,
            \<lparr>pattern = ''consideration_actions'',
              matches = [''maybe trying yoga! asap fix the bugs''], matchPriority = Low\<rparr>,
            \<lparr>pattern = ''action_verbs'', matches = [''fix the bugs''],
              matchPriority = Medium\<rparr>])"
  by (simp add: initializePatterns_eval builtinPatterns_def scanPattern_def find_yoga
      cleaned_yoga Let_def)

lemma unique_yoga:
  "uniqueInOrder
     [''asap fix the bugs'', ''maybe trying yoga! asap fix the bugs'', ''fix the bugs''] =
     [''asap fix the bugs'', ''maybe trying yoga! asap fix the bugs'', ''fix the bugs'']"
  by simp

lemma scores_yoga:
  "scoreOr0 (priorityScores
     [\<lparr>pattern = ''urgent_tasks'', matches = [''asap fix the bugs''],
        matchPriority = High\<rparr>,
      \<lparr>pattern = ''consideration_actions'',
        matches = [''maybe trying yoga! asap fix the bugs''], matchPriority = Low\<rparr>,
      \<lparr>pattern = ''action_verbs'', matches = [''fix the bugs''],
        matchPriority = Medium\<rparr>]) x =
   (if x = ''fix the bugs'' then 2
    else if x = ''maybe trying yoga! asap fix the bugs'' then 1
    else if x = ''asap fix the bugs'' then 3 else 0)"
  by (simp add: priorityScores_def recordPattern_def recordMatch_def priorityScore_def
      scoreOr0_def)

lemma detect_yoga:
  "detect initializePatterns ''maybe trying yoga! asap fix the bugs'' sentences =
     Some \<lparr>items = [''asap fix the bugs'', ''fix the bugs'',
                     ''maybe trying yoga! asap fix the bugs''],
           patterns =
             [\<lparr>pattern = ''urgent_tasks'', matches = [''asap fix the bugs''],
                matchPriority = High\<rparr>,
              \<lparr>pattern = ''consideration_actions'',
                matches = [''maybe trying yoga! asap fix the bugs''], matchPriority = Low\<rparr>,
              \<lparr>pattern = ''action_verbs'', matches = [''fix the bugs''],
                matchPriority = Medium\<rparr>],
           totalCount = 3\<rparr>"
  unfolding detect_def scan_yoga
  by (simp add: unique_yoga prioritizeItems_def jsSort_def compareItems_def scores_yoga Let_def)

subsection \<open>The claims about action-item detection\<close>

text \<open>
  C3. For every text and every list of sentences \<open>detect\<close> on the built-in registry
  returns a result, and in every result, on every registry, the items are pairwise
  different and the length of every item lies in \<open>[10, 200)\<close>. The filter of the source
  keeps a cleaned match only if it is longer than 10 characters, so the length 10 itself
  does not occur.
\<close>

theorem action_items_distinct_and_bounded:
  "(\<exists>r. detect initializePatterns t sentences = Some r) \<and>
   (detect registry t sentences = Some r \<longrightarrow>
      distinct (items r) \<and>
      (\<forall>x\<in>set (items r). 10 \<le> length x \<and> length x < 200 \<and> length x \<noteq> 10))"
proof -
  have "\<exists>r. detect initializePatterns t sentences = Some r"
    using builtin_minLength by (rule detect_returns)
  moreover have "distinct (items r) \<and>
      (\<forall>x\<in>set (items r). 10 \<le> length x \<and> length x < 200 \<and> length x \<noteq> 10)"
    if "detect registry t sentences = Some r"
    using detect_items(1,2)[OF that] by auto
  ultimately show ?thesis by blast
qed

theorem action_items_distinct_and_bounded_witness:
  "detect initializePatterns ''maybe trying yoga! asap fix the bugs'' [] =
     Some \<lparr>items = [''asap fix the bugs'', ''fix the bugs'',
                     ''maybe trying yoga! asap fix the bugs''],
           patterns =
             [\<lparr>pattern = ''urgent_tasks'', matches = [''asap fix the bugs''],
                matchPriority = High\<rparr>,
              \<lparr>pattern = ''consideration_actions'',
                matches = [''maybe trying yoga! asap fix the bugs''], matchPriority = Low\<rparr>,
              \<lparr>pattern = ''action_verbs'', matches = [''fix the bugs''],
                matchPriority = Medium\<rparr>],
           totalCount = 3\<rparr> \<and>
   distinct [''asap fix the bugs'', ''fix the bugs'', ''maybe trying yoga! asap fix the bugs''] \<and>
   map length [''asap fix the bugs'', ''fix the bugs'',
               ''maybe trying yoga! asap fix the bugs''] = [17, 12, 36]"
proof -
  let ?r = "\<lparr>items = [''asap fix the bugs'', ''fix the bugs'',
                     ''maybe trying yoga! asap fix the bugs''],
           patterns =
             [\<lparr>pattern = ''urgent_tasks'', matches = [''asap fix the bugs''],
                matchPriority = High\<rparr>,
              \<lparr>pattern = ''consideration_actions'',
                matches = [''maybe trying yoga! asap fix the bugs''], matchPriority = Low\<rparr>,
              \<lparr>pattern = ''action_verbs'', matches = [''fix the bugs''],
                matchPriority = Medium\<rparr>],
           totalCount = 3\<rparr>"
  have d: "detect initializePatterns ''maybe trying yoga! asap fix the bugs'' [] = Some ?r"
    by (rule detect_yoga)
  have "distinct (items ?r)"
    using action_items_distinct_and_bounded
      [of "''maybe trying yoga! asap fix the bugs''" "[]" initializePatterns ?r] d
    by blast
  then have "distinct [''asap fix the bugs'', ''fix the bugs'',
                       ''maybe trying yoga! asap fix the bugs'']"
    by (simp only: ActionDetectionResult.simps)
  with d show ?thesis by simp
qed

text \<open>
  C4. The priority scores are 3, 2 and 1 for high, medium and low. In a result of
  \<open>detect\<close> the items are the fragments that the recorded patterns matched; the score of
  an item in the priority map is the score of one of the patterns that matched it and is
  not below the score of any pattern that matched it; the items are ordered by descending
  score and, at equal score, by descending length; and an item that only high-priority
  patterns matched stands before an item that only low-priority patterns matched.
\<close>

theorem action_items_priority_order:
  "priorityScore High = 3 \<and> priorityScore Medium = 2 \<and> priorityScore Low = 1 \<and>
   (detect registry t sentences = Some r \<longrightarrow>
      set (items r) = (\<Union>p\<in>set (patterns r). set (matches p)) \<and>
      (\<forall>x\<in>set (items r).
         (\<exists>p\<in>set (patterns r). x \<in> set (matches p) \<and>
            scoreOr0 (priorityScores (patterns r)) x = priorityScore (matchPriority p)) \<and>
         (\<forall>p\<in>set (patterns r). x \<in> set (matches p) \<longrightarrow>
            priorityScore (matchPriority p) \<le> scoreOr0 (priorityScores (patterns r)) x)) \<and>
      sorted_wrt
        (\<lambda>a b. scoreOr0 (priorityScores (patterns r)) a > scoreOr0 (priorityScores (patterns r)) b \<or>
           (scoreOr0 (priorityScores (patterns r)) a = scoreOr0 (priorityScores (patterns r)) b \<and>
            length a \<ge> length b))
        (items r) \<and>
      (\<forall>i j. i < length (items r) \<and> j < length (items r) \<and>
         (\<forall>p\<in>set (patterns r). items r ! i \<in> set (matches p) \<longrightarrow> matchPriority p = High) \<and>
         (\<forall>p\<in>set (patterns r). items r ! j \<in> set (matches p) \<longrightarrow> matchPriority p = Low)
         \<longrightarrow> i < j))"
proof -
  have vals: "priorityScore High = 3 \<and> priorityScore Medium = 2 \<and> priorityScore Low = 1"
    by (simp add: priorityScore_def)
  have main: "set (items r) = (\<Union>p\<in>set (patterns r). set (matches p)) \<and>
      (\<forall>x\<in>set (items r).
         (\<exists>p\<in>set (patterns r). x \<in> set (matches p) \<and>
            scoreOr0 (priorityScores (patterns r)) x = priorityScore (matchPriority p)) \<and>
         (\<forall>p\<in>set (patterns r). x \<in> set (matches p) \<longrightarrow>
            priorityScore (matchPriority p) \<le> scoreOr0 (priorityScores (patterns r)) x)) \<and>
      sorted_wrt
        (\<lambda>a b. scoreOr0 (priorityScores (patterns r)) a > scoreOr0 (priorityScores (patterns r)) b \<or>
           (scoreOr0 (priorityScores (patterns r)) a = scoreOr0 (priorityScores (patterns r)) b \<and>
            length a \<ge> length b))
        (items r) \<and>
      (\<forall>i j. i < length (items r) \<and> j < length (items r) \<and>
         (\<forall>p\<in>set (patterns r). items r ! i \<in> set (matches p) \<longrightarrow> matchPriority p = High) \<and>
         (\<forall>p\<in>set (patterns r). items r ! j \<in> set (matches p) \<longrightarrow> matchPriority p = Low)
         \<longrightarrow> i < j)"
    if d: "detect registry t sentences = Some r"
  proof -
    let ?S = "priorityScores (patterns r)"
    let ?P = "\<lambda>a b. scoreOr0 ?S a > scoreOr0 ?S b \<or>
           (scoreOr0 ?S a = scoreOr0 ?S b \<and> length a \<ge> length b)"
    have mx: "(\<exists>p\<in>set (patterns r). x \<in> set (matches p) \<and>
            scoreOr0 ?S x = priorityScore (matchPriority p)) \<and>
         (\<forall>p\<in>set (patterns r). x \<in> set (matches p) \<longrightarrow>
            priorityScore (matchPriority p) \<le> scoreOr0 ?S x)"
      if "x \<in> set (items r)" for x
    proof -
      from that detect_items(3)[OF d] obtain p where
        "p \<in> set (patterns r)" "x \<in> set (matches p)" by auto
      then show ?thesis by (rule priorityScores_max)
    qed
    have srt: "sorted_wrt ?P (items r)"
    proof -
      from detect_items(4)[OF d] obtain its where
        its: "items r = prioritizeItems its (patterns r)" by blast
      have "sorted_wrt ?P (prioritizeItems its (patterns r))"
        by (rule sorted_prioritizeItems)
      then show ?thesis by (simp only: its[symmetric])
    qed
    have ord: "i < j"
      if ij: "i < length (items r)" "j < length (items r)"
        and hi: "\<forall>p\<in>set (patterns r). items r ! i \<in> set (matches p) \<longrightarrow> matchPriority p = High"
        and lo: "\<forall>p\<in>set (patterns r). items r ! j \<in> set (matches p) \<longrightarrow> matchPriority p = Low"
      for i j
    proof -
      have "items r ! i \<in> set (items r)" "items r ! j \<in> set (items r)" using ij by simp_all
      from mx[OF this(1)] mx[OF this(2)] hi lo
      have si: "scoreOr0 ?S (items r ! i) = 3" and sj: "scoreOr0 ?S (items r ! j) = 1"
        by (auto simp: priorityScore_def)
      show ?thesis
      proof (rule ccontr)
        assume "\<not> i < j"
        then consider "j < i" | "i = j" by arith
        then show False
        proof cases
          case 1
          from sorted_wrt_nth_less[OF srt 1 ij(1)] si sj show False by simp
        next
          case 2
          with si sj show False by simp
        qed
      qed
    qed
    have a: "\<forall>x\<in>set (items r).
         (\<exists>p\<in>set (patterns r). x \<in> set (matches p) \<and>
            scoreOr0 ?S x = priorityScore (matchPriority p)) \<and>
         (\<forall>p\<in>set (patterns r). x \<in> set (matches p) \<longrightarrow>
            priorityScore (matchPriority p) \<le> scoreOr0 ?S x)"
      using mx by (intro ballI)
    have c: "\<forall>i j. i < length (items r) \<and> j < length (items r) \<and>
         (\<forall>p\<in>set (patterns r). items r ! i \<in> set (matches p) \<longrightarrow> matchPriority p = High) \<and>
         (\<forall>p\<in>set (patterns r). items r ! j \<in> set (matches p) \<longrightarrow> matchPriority p = Low)
         \<longrightarrow> i < j"
      using ord by (intro allI impI) (elim conjE)
    have u: "set (items r) = (\<Union>p\<in>set (patterns r). set (matches p))"
      by (rule detect_items(3)[OF d])
    from u a srt c show ?thesis by (intro conjI)
  qed
  from vals show ?thesis using main by (intro conjI impI) simp_all
qed

theorem action_items_priority_order_witness:
  "detect initializePatterns ''maybe trying yoga! asap fix the bugs'' [] =
     Some \<lparr>items = [''asap fix the bugs'', ''fix the bugs'',
                     ''maybe trying yoga! asap fix the bugs''],
           patterns =
             [\<lparr>pattern = ''urgent_tasks'', matches = [''asap fix the bugs''],
                matchPriority = High\<rparr>,
              \<lparr>pattern = ''consideration_actions'',
                matches = [''maybe trying yoga! asap fix the bugs''], matchPriority = Low\<rparr>,
              \<lparr>pattern = ''action_verbs'', matches = [''fix the bugs''],
                matchPriority = Medium\<rparr>],
           totalCount = 3\<rparr> \<and>
   map (scoreOr0 (priorityScores
          [\<lparr>pattern = ''urgent_tasks'', matches = [''asap fix the bugs''],
             matchPriority = High\<rparr>,
           \<lparr>pattern = ''consideration_actions'',
             matches = [''maybe trying yoga! asap fix the bugs''], matchPriority = Low\<rparr>,
           \<lparr>pattern = ''action_verbs'', matches = [''fix the bugs''],
             matchPriority = Medium\<rparr>]))
     [''asap fix the bugs'', ''fix the bugs'', ''maybe trying yoga! asap fix the bugs''] =
     [3, 2, 1] \<and>
   map length [''asap fix the bugs'', ''fix the bugs'',
               ''maybe trying yoga! asap fix the bugs''] = [17, 12, 36]"
proof -
  let ?ps = "[\<lparr>pattern = ''urgent_tasks'', matches = [''asap fix the bugs''],
                matchPriority = High\<rparr>,
              \<lparr>pattern = ''consideration_actions'',
                matches = [''maybe trying yoga! asap fix the bugs''], matchPriority = Low\<rparr>,
              \<lparr>pattern = ''action_verbs'', matches = [''fix the bugs''],
                matchPriority = Medium\<rparr>]"
  let ?r = "\<lparr>items = [''asap fix the bugs'', ''fix the bugs'',
                     ''maybe trying yoga! asap fix the bugs''],
           patterns = ?ps, totalCount = 3\<rparr>"
  define S where "S = scoreOr0 (priorityScores ?ps)"
  have d: "detect initializePatterns ''maybe trying yoga! asap fix the bugs'' [] = Some ?r"
    by (rule detect_yoga)
  note inst = action_items_priority_order
      [of initializePatterns "''maybe trying yoga! asap fix the bugs''" "[]" ?r]
  have v: "priorityScore High = 3" "priorityScore Medium = 2" "priorityScore Low = 1"
    using inst by blast+
  have "\<forall>x\<in>set (items ?r).
          \<exists>p\<in>set (patterns ?r). x \<in> set (matches p) \<and>
            scoreOr0 (priorityScores (patterns ?r)) x = priorityScore (matchPriority p)"
    using inst d by blast
  then have "\<forall>x\<in>set [''asap fix the bugs'', ''fix the bugs'',
                       ''maybe trying yoga! asap fix the bugs''].
          \<exists>p\<in>set ?ps. x \<in> set (matches p) \<and> S x = priorityScore (matchPriority p)"
    unfolding S_def by (simp only: ActionDetectionResult.simps)
  then have "S ''asap fix the bugs'' = 3 \<and> S ''fix the bugs'' = 2 \<and>
             S ''maybe trying yoga! asap fix the bugs'' = 1"
    by (simp add: v)
  then have "map S [''asap fix the bugs'', ''fix the bugs'',
                    ''maybe trying yoga! asap fix the bugs''] = [3, 2, 1]"
    by simp
  with d show ?thesis unfolding S_def by simp
qed

end
